theory Spec2Isabelle
  imports Main "HOL-Library.Word" "HOL-Library.Sublist"
begin

unbundle bit_operations_syntax

section \<open>cpdup: the recursive replication engine of \<^verbatim>\<open>cpdup.c\<close>\<close>

text \<open>
  The development embeds the functions of \<^verbatim>\<open>cpdup.c\<close> (\<^verbatim>\<open>WildCmp\<close>, \<^verbatim>\<open>shash\<close>,
  \<^verbatim>\<open>AddList\<close>, the hardlink table, \<^verbatim>\<open>xrename\<close>, \<^verbatim>\<open>xlink\<close>, \<^verbatim>\<open>YesNo\<close>,
  \<^verbatim>\<open>RemoveRecur\<close>, \<^verbatim>\<open>checkHLPath\<close>, \<^verbatim>\<open>DoCopy\<close> and the tail of \<^verbatim>\<open>main\<close>) as
  state-passing HOL functions. A C string is a \<^typ>\<open>string\<close> without its terminating NUL;
  a \<^verbatim>\<open>char *\<close> that may be \<^verbatim>\<open>NULL\<close> is a \<^typ>\<open>string option\<close>.
\<close>

subsection \<open>WildCmp\<close>

text \<open>
  \<^verbatim>\<open>WildCmp(w, s)\<close> returns 0 on success and -1 on failure. The \<^verbatim>\<open>for (;;)\<close> loop that
  skips the fixed portion is the recursion of \<open>WildCmp\<close> on the tails of both strings;
  the \<^verbatim>\<open>for (i = 0; i <= l; ++i)\<close> loop of the \<^verbatim>\<open>'*'\<close> case is \<open>WildCmp_star\<close>, which
  carries the loop index \<open>i\<close> and calls \<open>WildCmp\<close> on \<^verbatim>\<open>w + 1\<close> and \<^verbatim>\<open>s + i\<close>.
\<close>

function WildCmp :: "string \<Rightarrow> string \<Rightarrow> int"
  and WildCmp_star :: "string \<Rightarrow> string \<Rightarrow> nat \<Rightarrow> int" where
  "WildCmp w s =
     (case w of
        [] \<Rightarrow> (if s \<noteq> [] then -1 else 0)
      | c # w1 \<Rightarrow>
          if c = CHR ''*'' then
            (if w1 = [] then 0 else WildCmp_star w1 s 0)
          else if c = CHR ''?'' then
            (if s = [] then -1 else WildCmp w1 (tl s))
          else
            (case s of
               [] \<Rightarrow> -1
             | d # s1 \<Rightarrow> if c \<noteq> d then -1 else WildCmp w1 s1))"
| "WildCmp_star w1 s i =
     (if i \<le> length s then
        (if WildCmp w1 (drop i s) = 0 then 0 else WildCmp_star w1 s (Suc i))
      else -1)"
  by pat_completeness auto

text \<open>
  The order of the recursion: a call of \<open>WildCmp\<close> on a pattern of length
  \<open>n\<close> weighs \<open>2 * n\<close>, a call of the star loop on the rest \<open>w1\<close> of the pattern weighs
  \<open>2 * length w1 + 1\<close> and, second, the number of indices the loop has left.
\<close>

definition WildCmp_order :: "((string \<times> string + string \<times> string \<times> nat) \<times>
    (string \<times> string + string \<times> string \<times> nat)) set" where
  "WildCmp_order = inv_image (less_than <*lex*> less_than)
     (\<lambda>x. case x of
        Inl (w, s) \<Rightarrow> (2 * length w, 0)
      | Inr (w1, s, i) \<Rightarrow> (2 * length w1 + 1, Suc (length s) - i))"

termination WildCmp
  by (relation WildCmp_order) (auto simp: WildCmp_order_def)

text \<open>
  The language of a pattern, in the words of the specification: \<^verbatim>\<open>?\<close> matches exactly
  one character, \<^verbatim>\<open>*\<close> matches any (possibly empty) run, every other character matches
  itself, and both strings end together.
\<close>

inductive wild_lang :: "string \<Rightarrow> string \<Rightarrow> bool" where
  wl_end: "wild_lang [] []"
| wl_any: "wild_lang w s \<Longrightarrow> wild_lang (CHR ''?'' # w) (c # s)"
| wl_star: "wild_lang w s \<Longrightarrow> wild_lang (CHR ''*'' # w) (u @ s)"
| wl_char: "wild_lang w s \<Longrightarrow> c \<noteq> CHR ''?'' \<Longrightarrow> c \<noteq> CHR ''*'' \<Longrightarrow>
    wild_lang (c # w) (c # s)"

subsection \<open>The ignore list: shash and AddList\<close>

text \<open>
  \<^verbatim>\<open>HSIZE\<close> is 16384. A \<^verbatim>\<open>Node\<close> carries its name and its value; the chain through
  \<^verbatim>\<open>no_HNext\<close> of each hash slot is a list with the newest node first, and so is the
  chain through \<^verbatim>\<open>no_Next\<close> that \<^verbatim>\<open>ResetList\<close> frees.
\<close>

definition HSIZE :: nat where "HSIZE = 16384"
definition HMASK :: "32 word" where "HMASK = 16383"

record Node =
  no_Value :: int
  no_Name :: string

record List =
  li_Node :: "Node list"
  li_Hash :: "nat \<Rightarrow> Node list"

definition InitList :: List where
  "InitList = \<lparr>li_Node = [], li_Hash = (\<lambda>_. [])\<rparr>"

definition ResetList :: "List \<Rightarrow> List" where
  "ResetList list = InitList"

text \<open>
  \<^verbatim>\<open>shash\<close> works on a 32-bit \<^verbatim>\<open>int\<close>: \<^verbatim>\<open><<\<close> is \<open>push_bit\<close>, \<^verbatim>\<open>>>\<close> on the signed
  value is the arithmetic shift \<open>signed_drop_bit\<close>, and \<^verbatim>\<open>*s\<close> is a signed \<^verbatim>\<open>char\<close>
  promoted to \<^verbatim>\<open>int\<close>. A name holding one of the seven wildcard characters hashes
  to slot 0.
\<close>

definition is_wild_char :: "char \<Rightarrow> bool" where
  "is_wild_char c \<longleftrightarrow> c = CHR ''*'' \<or> c = CHR ''?'' \<or> c = CHR ''{'' \<or> c = CHR ''}'' \<or>
     c = CHR ''['' \<or> c = CHR '']'' \<or> c = CHR ''|''"

definition char_int :: "char \<Rightarrow> 32 word" where
  "char_int c = scast (of_char c :: 8 word)"

fun shash_loop :: "32 word \<Rightarrow> string \<Rightarrow> nat" where
  "shash_loop hv [] = unat ((signed_drop_bit 16 hv XOR hv) AND HMASK)"
| "shash_loop hv (c # s) =
     (if is_wild_char c then 0
      else shash_loop (push_bit 5 hv XOR char_int c XOR signed_drop_bit 23 hv) s)"

definition shash :: "string \<Rightarrow> nat" where
  "shash s = shash_loop 0xA4FB3255 s"

text \<open>
  The two scans of \<^verbatim>\<open>AddList\<close>: the first over slot 0, where a node of value 1 also
  matches as a wildcard unless the caller's tag \<open>n\<close> is 1; the second over the slot of
  the name, for an exact match.
\<close>

fun AddList_wild :: "Node list \<Rightarrow> string \<Rightarrow> int \<Rightarrow> int option" where
  "AddList_wild [] name n = None"
| "AddList_wild (node # rest) name n =
     (if name = no_Name node \<or>
         (n \<noteq> 1 \<and> no_Value node = 1 \<and> WildCmp (no_Name node) name = 0)
      then Some (no_Value node)
      else AddList_wild rest name n)"

fun AddList_exact :: "Node list \<Rightarrow> string \<Rightarrow> int option" where
  "AddList_exact [] name = None"
| "AddList_exact (node # rest) name =
     (if name = no_Name node then Some (no_Value node) else AddList_exact rest name)"

definition AddList :: "List \<Rightarrow> string \<Rightarrow> int \<Rightarrow> int \<times> List" where
  "AddList list name n =
     (let hv = shash name in
      case AddList_wild (li_Hash list 0) name n of
        Some v \<Rightarrow> (v, list)
      | None \<Rightarrow>
          (case AddList_exact (li_Hash list hv) name of
             Some v \<Rightarrow> (v, list)
           | None \<Rightarrow>
               (let node = \<lparr>no_Value = n, no_Name = name\<rparr> in
                (n, \<lparr>li_Node = node # li_Node list,
                     li_Hash = (li_Hash list)(hv := node # li_Hash list hv)\<rparr>))))"

subsection \<open>File systems\<close>

text \<open>
  Modelled from the spec: the host-handle operations \<^verbatim>\<open>hc_*\<close> (of \<^verbatim>\<open>hclink.h\<close> and
  \<^verbatim>\<open>hcproto.h\<close>, which \<^verbatim>\<open>cpdup.c\<close> only includes) mirror the POSIX calls of the same
  names on the file system of their host. A file system is an inode table and a root
  directory; a directory is a list of named links to inodes, in the order
  \<^verbatim>\<open>readdir\<close> returns them. Limits of this model: a symbolic link in the middle of a
  path is not followed, \<^verbatim>\<open>..\<close> does not resolve, permissions are not checked (the
  program runs as root), an inode with non-zero flags is immutable, and a write fails
  only when the file system is full.
\<close>

type_synonym dev_t = "32 word"
type_synonym ino_t = "64 word"
type_synonym mode_t = "16 word"

datatype errno = ENOENT | ENOTDIR | EEXIST | EISDIR | ENOTEMPTY | EMLINK | EXDEV | EPERM
  | ENOSPC | EINVAL | ELOOP | EBADF

record stat =
  st_dev :: dev_t
  st_ino :: ino_t
  st_mode :: mode_t
  st_nlink :: nat
  st_uid :: nat
  st_gid :: nat
  st_rdev :: dev_t
  st_size :: nat
  st_mtime :: nat
  st_blocks :: nat
  st_flags :: "32 word"
  st_fsmid :: "64 word"

definition S_IFMT :: mode_t where "S_IFMT = 0xF000"
definition S_IFCHR :: mode_t where "S_IFCHR = 0x2000"
definition S_IFDIR :: mode_t where "S_IFDIR = 0x4000"
definition S_IFBLK :: mode_t where "S_IFBLK = 0x6000"
definition S_IFREG :: mode_t where "S_IFREG = 0x8000"
definition S_IFLNK :: mode_t where "S_IFLNK = 0xA000"

definition S_ISDIR :: "mode_t \<Rightarrow> bool" where "S_ISDIR m \<longleftrightarrow> m AND S_IFMT = S_IFDIR"
definition S_ISREG :: "mode_t \<Rightarrow> bool" where "S_ISREG m \<longleftrightarrow> m AND S_IFMT = S_IFREG"
definition S_ISLNK :: "mode_t \<Rightarrow> bool" where "S_ISLNK m \<longleftrightarrow> m AND S_IFMT = S_IFLNK"
definition S_ISCHR :: "mode_t \<Rightarrow> bool" where "S_ISCHR m \<longleftrightarrow> m AND S_IFMT = S_IFCHR"
definition S_ISBLK :: "mode_t \<Rightarrow> bool" where "S_ISBLK m \<longleftrightarrow> m AND S_IFMT = S_IFBLK"

datatype body = File string | Dir "(string \<times> ino_t) list" | Symlink string | Special

record inode =
  i_dev :: dev_t
  i_mode :: mode_t
  i_nlink :: nat
  i_uid :: nat
  i_gid :: nat
  i_rdev :: dev_t
  i_mtime :: nat
  i_flags :: "32 word"
  i_fsmid :: "64 word"
  i_body :: body

record fs =
  fs_inodes :: "ino_t \<Rightarrow> inode option"
  fs_root :: ino_t
  fs_next :: ino_t
  fs_cmask :: mode_t
  fs_link_max :: nat
  fs_free :: nat

definition body_size :: "body \<Rightarrow> nat" where
  "body_size b = (case b of File c \<Rightarrow> length c | Symlink t \<Rightarrow> length t | _ \<Rightarrow> 0)"

definition stat_of :: "ino_t \<Rightarrow> inode \<Rightarrow> stat" where
  "stat_of ino i =
     \<lparr>st_dev = i_dev i, st_ino = ino, st_mode = i_mode i, st_nlink = i_nlink i,
      st_uid = i_uid i, st_gid = i_gid i, st_rdev = i_rdev i,
      st_size = body_size (i_body i), st_mtime = i_mtime i,
      st_blocks = (body_size (i_body i) + 511) div 512,
      st_flags = i_flags i, st_fsmid = i_fsmid i\<rparr>"

text \<open>Path names: the components between slashes, empty ones dropped.\<close>

fun split_path_acc :: "string \<Rightarrow> string \<Rightarrow> string list" where
  "split_path_acc acc [] = (if acc = [] then [] else [rev acc])"
| "split_path_acc acc (c # cs) =
     (if c = CHR ''/'' then (if acc = [] then [] else [rev acc]) @ split_path_acc [] cs
      else split_path_acc (c # acc) cs)"

definition split_path :: "string \<Rightarrow> string list" where
  "split_path p = split_path_acc [] p"

fun walk :: "fs \<Rightarrow> ino_t \<Rightarrow> string list \<Rightarrow> errno + ino_t" where
  "walk f ino [] = Inr ino"
| "walk f ino (c # cs) =
     (case fs_inodes f ino of
        None \<Rightarrow> Inl ENOENT
      | Some i \<Rightarrow>
          (case i_body i of
             Dir ents \<Rightarrow>
               (if c = ''.'' then walk f ino cs
                else case map_of ents c of
                       None \<Rightarrow> Inl ENOENT
                     | Some j \<Rightarrow> walk f j cs)
           | _ \<Rightarrow> Inl ENOTDIR))"

definition namei :: "fs \<Rightarrow> string \<Rightarrow> errno + ino_t" where
  "namei f path =
     (if path = [] then Inl ENOENT
      else case walk f (fs_root f) (split_path path) of
             Inl e \<Rightarrow> Inl e
           | Inr ino \<Rightarrow> (if fs_inodes f ino = None then Inl ENOENT else Inr ino))"

text \<open>The directory that holds the last component of a path, and that component.\<close>

definition namei_parent :: "fs \<Rightarrow> string \<Rightarrow> errno + (ino_t \<times> string)" where
  "namei_parent f path =
     (let cs = split_path path in
      if cs = [] then Inl EINVAL
      else if last cs = ''.'' \<or> last cs = ''..'' then Inl EINVAL
      else case walk f (fs_root f) (butlast cs) of
             Inl e \<Rightarrow> Inl e
           | Inr p \<Rightarrow>
               (case fs_inodes f p of
                  None \<Rightarrow> Inl ENOENT
                | Some i \<Rightarrow> (case i_body i of Dir ents \<Rightarrow> Inr (p, last cs) | _ \<Rightarrow> Inl ENOTDIR)))"

definition dir_ents :: "fs \<Rightarrow> ino_t \<Rightarrow> (string \<times> ino_t) list" where
  "dir_ents f p =
     (case fs_inodes f p of
        Some i \<Rightarrow> (case i_body i of Dir ents \<Rightarrow> ents | _ \<Rightarrow> [])
      | None \<Rightarrow> [])"

definition set_dir_ents :: "fs \<Rightarrow> ino_t \<Rightarrow> (string \<times> ino_t) list \<Rightarrow> fs" where
  "set_dir_ents f p ents =
     (case fs_inodes f p of
        Some i \<Rightarrow> f\<lparr>fs_inodes := (fs_inodes f)(p \<mapsto> i\<lparr>i_body := Dir ents\<rparr>)\<rparr>
      | None \<Rightarrow> f)"

definition immutable :: "fs \<Rightarrow> ino_t \<Rightarrow> bool" where
  "immutable f ino = (case fs_inodes f ino of Some i \<Rightarrow> i_flags i \<noteq> 0 | None \<Rightarrow> False)"

definition update_inode :: "fs \<Rightarrow> ino_t \<Rightarrow> (inode \<Rightarrow> inode) \<Rightarrow> fs" where
  "update_inode f ino g =
     (case fs_inodes f ino of
        Some i \<Rightarrow> f\<lparr>fs_inodes := (fs_inodes f)(ino \<mapsto> g i)\<rparr>
      | None \<Rightarrow> f)"

text \<open>Dropping one link to an inode; the inode goes with its last link.\<close>

definition drop_link :: "fs \<Rightarrow> ino_t \<Rightarrow> fs" where
  "drop_link f ino =
     (case fs_inodes f ino of
        Some i \<Rightarrow>
          (if i_nlink i \<le> 1 \<or> (case i_body i of Dir ents \<Rightarrow> True | _ \<Rightarrow> False)
           then f\<lparr>fs_inodes := (fs_inodes f)(ino := None),
                  fs_free := fs_free f + body_size (i_body i)\<rparr>
           else f\<lparr>fs_inodes := (fs_inodes f)(ino \<mapsto> i\<lparr>i_nlink := i_nlink i - 1\<rparr>)\<rparr>)
      | None \<Rightarrow> f)"

definition new_inode :: "fs \<Rightarrow> ino_t \<Rightarrow> mode_t \<Rightarrow> dev_t \<Rightarrow> body \<Rightarrow> inode" where
  "new_inode f p mode rdev b =
     \<lparr>i_dev = (case fs_inodes f p of Some i \<Rightarrow> i_dev i | None \<Rightarrow> 0),
      i_mode = mode, i_nlink = (case b of Dir ents \<Rightarrow> 2 | _ \<Rightarrow> 1), i_uid = 0, i_gid = 0,
      i_rdev = rdev, i_mtime = 0, i_flags = 0, i_fsmid = 0, i_body = b\<rparr>"

text \<open>Creating a new object under a path that must not exist yet.\<close>

definition fs_create :: "fs \<Rightarrow> string \<Rightarrow> mode_t \<Rightarrow> dev_t \<Rightarrow> body \<Rightarrow> errno + (ino_t \<times> fs)" where
  "fs_create f path mode rdev b =
     (case namei_parent f path of
        Inl e \<Rightarrow> Inl e
      | Inr (p, name) \<Rightarrow>
          if map_of (dir_ents f p) name \<noteq> None then Inl EEXIST
          else if immutable f p then Inl EPERM
          else
            (let ino = fs_next f;
                 f1 = set_dir_ents f p (dir_ents f p @ [(name, ino)])
             in Inr (ino, f1\<lparr>fs_inodes := (fs_inodes f1)(ino \<mapsto> new_inode f p mode rdev b),
                             fs_next := ino + 1\<rparr>)))"

definition fs_lstat :: "fs \<Rightarrow> string \<Rightarrow> errno + stat" where
  "fs_lstat f path =
     (case namei f path of
        Inl e \<Rightarrow> Inl e
      | Inr ino \<Rightarrow>
          (case fs_inodes f ino of None \<Rightarrow> Inl ENOENT | Some i \<Rightarrow> Inr (stat_of ino i)))"

text \<open>\<^verbatim>\<open>stat\<close> follows a symbolic link in the last component, at most 32 times.\<close>

fun stat_walk :: "nat \<Rightarrow> fs \<Rightarrow> ino_t \<Rightarrow> string list \<Rightarrow> errno + ino_t" where
  "stat_walk 0 f d cs = Inl ELOOP"
| "stat_walk (Suc n) f d cs =
     (if cs = [] then Inr d
      else case walk f d (butlast cs) of
             Inl e \<Rightarrow> Inl e
           | Inr p \<Rightarrow>
               (case walk f p [last cs] of
                  Inl e \<Rightarrow> Inl e
                | Inr ino \<Rightarrow>
                    (case fs_inodes f ino of
                       None \<Rightarrow> Inl ENOENT
                     | Some i \<Rightarrow>
                         (case i_body i of
                            Symlink t \<Rightarrow>
                              stat_walk n f
                                (if t \<noteq> [] \<and> hd t = CHR ''/'' then fs_root f else p)
                                (split_path t)
                          | _ \<Rightarrow> Inr ino))))"

definition fs_stat :: "fs \<Rightarrow> string \<Rightarrow> errno + stat" where
  "fs_stat f path =
     (if path = [] then Inl ENOENT
      else case stat_walk 32 f (fs_root f) (split_path path) of
             Inl e \<Rightarrow> Inl e
           | Inr ino \<Rightarrow>
               (case fs_inodes f ino of None \<Rightarrow> Inl ENOENT | Some i \<Rightarrow> Inr (stat_of ino i)))"

text \<open>\<^verbatim>\<open>opendir\<close> with all the \<^verbatim>\<open>readdir\<close> calls that follow: the names of the directory
  as they were when it was opened, \<^verbatim>\<open>.\<close> and \<^verbatim>\<open>..\<close> first.\<close>

definition fs_opendir :: "fs \<Rightarrow> string \<Rightarrow> errno + string list" where
  "fs_opendir f path =
     (case namei f path of
        Inl e \<Rightarrow> Inl e
      | Inr ino \<Rightarrow>
          (case fs_inodes f ino of
             None \<Rightarrow> Inl ENOENT
           | Some i \<Rightarrow>
               (case i_body i of
                  Dir ents \<Rightarrow> Inr (''.'' # ''..'' # map fst ents)
                | _ \<Rightarrow> Inl ENOTDIR)))"

definition fs_readlink :: "fs \<Rightarrow> string \<Rightarrow> nat \<Rightarrow> errno + string" where
  "fs_readlink f path bufsiz =
     (case namei f path of
        Inl e \<Rightarrow> Inl e
      | Inr ino \<Rightarrow>
          (case fs_inodes f ino of
             None \<Rightarrow> Inl ENOENT
           | Some i \<Rightarrow>
               (case i_body i of Symlink t \<Rightarrow> Inr (take bufsiz t) | _ \<Rightarrow> Inl EINVAL)))"

definition fs_mkdir :: "fs \<Rightarrow> string \<Rightarrow> mode_t \<Rightarrow> errno + fs" where
  "fs_mkdir f path mode =
     (case fs_create f path (S_IFDIR OR (mode AND 0xFFF AND NOT (fs_cmask f))) 0 (Dir []) of
        Inl e \<Rightarrow> Inl e
      | Inr (ino, f') \<Rightarrow> Inr f')"

definition remove_ent :: "string \<Rightarrow> (string \<times> ino_t) list \<Rightarrow> (string \<times> ino_t) list" where
  "remove_ent name ents = filter (\<lambda>e. fst e \<noteq> name) ents"

definition fs_rmdir :: "fs \<Rightarrow> string \<Rightarrow> errno + fs" where
  "fs_rmdir f path =
     (case namei_parent f path of
        Inl e \<Rightarrow> Inl e
      | Inr (p, name) \<Rightarrow>
          (case map_of (dir_ents f p) name of
             None \<Rightarrow> Inl ENOENT
           | Some ino \<Rightarrow>
               (case fs_inodes f ino of
                  None \<Rightarrow> Inl ENOENT
                | Some i \<Rightarrow>
                    (case i_body i of
                       Dir ents \<Rightarrow>
                         if ents \<noteq> [] then Inl ENOTEMPTY
                         else if immutable f ino \<or> immutable f p then Inl EPERM
                         else Inr (drop_link
                                (set_dir_ents f p (remove_ent name (dir_ents f p))) ino)
                     | _ \<Rightarrow> Inl ENOTDIR))))"

definition fs_unlink :: "fs \<Rightarrow> string \<Rightarrow> errno + fs" where
  "fs_unlink f path =
     (case namei_parent f path of
        Inl e \<Rightarrow> Inl e
      | Inr (p, name) \<Rightarrow>
          (case map_of (dir_ents f p) name of
             None \<Rightarrow> Inl ENOENT
           | Some ino \<Rightarrow>
               (case fs_inodes f ino of
                  None \<Rightarrow> Inl ENOENT
                | Some i \<Rightarrow>
                    (case i_body i of
                       Dir ents \<Rightarrow> Inl EPERM
                     | _ \<Rightarrow>
                         if immutable f ino \<or> immutable f p then Inl EPERM
                         else Inr (drop_link
                                (set_dir_ents f p (remove_ent name (dir_ents f p))) ino)))))"

text \<open>\<^verbatim>\<open>remove(3)\<close> is \<^verbatim>\<open>rmdir\<close> on a directory and \<^verbatim>\<open>unlink\<close> on anything else.\<close>

definition fs_remove :: "fs \<Rightarrow> string \<Rightarrow> errno + fs" where
  "fs_remove f path =
     (case fs_lstat f path of
        Inl e \<Rightarrow> Inl e
      | Inr st \<Rightarrow> if S_ISDIR (st_mode st) then fs_rmdir f path else fs_unlink f path)"

definition fs_link :: "fs \<Rightarrow> string \<Rightarrow> string \<Rightarrow> errno + fs" where
  "fs_link f src dst =
     (case namei f src of
        Inl e \<Rightarrow> Inl e
      | Inr ino \<Rightarrow>
          (case fs_inodes f ino of
             None \<Rightarrow> Inl ENOENT
           | Some i \<Rightarrow>
               (case i_body i of
                  Dir ents \<Rightarrow> Inl EPERM
                | _ \<Rightarrow>
                    (case namei_parent f dst of
                       Inl e \<Rightarrow> Inl e
                     | Inr (p, name) \<Rightarrow>
                         if map_of (dir_ents f p) name \<noteq> None then Inl EEXIST
                         else if Some (i_dev i) \<noteq> map_option i_dev (fs_inodes f p) then Inl EXDEV
                         else if fs_link_max f \<le> i_nlink i then Inl EMLINK
                         else if immutable f ino \<or> immutable f p then Inl EPERM
                         else Inr (update_inode
                                (set_dir_ents f p (dir_ents f p @ [(name, ino)])) ino
                                (\<lambda>j. j\<lparr>i_nlink := i_nlink j + 1\<rparr>))))))"

definition fs_symlink :: "fs \<Rightarrow> string \<Rightarrow> string \<Rightarrow> errno + fs" where
  "fs_symlink f target path =
     (case fs_create f path (S_IFLNK OR (0x1FF AND NOT (fs_cmask f))) 0 (Symlink target) of
        Inl e \<Rightarrow> Inl e
      | Inr (ino, f') \<Rightarrow> Inr f')"

definition is_dir :: "fs \<Rightarrow> ino_t \<Rightarrow> bool" where
  "is_dir f ino =
     (case fs_inodes f ino of
        Some i \<Rightarrow> (case i_body i of Dir ents \<Rightarrow> True | _ \<Rightarrow> False)
      | None \<Rightarrow> False)"

definition fs_move :: "fs \<Rightarrow> ino_t \<Rightarrow> string \<Rightarrow> ino_t \<Rightarrow> string \<Rightarrow> ino_t \<Rightarrow> fs" where
  "fs_move f sp sname dp dname ino =
     (let f1 = set_dir_ents f sp (remove_ent sname (dir_ents f sp))
      in set_dir_ents f1 dp (remove_ent dname (dir_ents f1 dp) @ [(dname, ino)]))"

definition fs_rename :: "fs \<Rightarrow> string \<Rightarrow> string \<Rightarrow> errno + fs" where
  "fs_rename f src dst =
     (case namei_parent f src of
        Inl e \<Rightarrow> Inl e
      | Inr (sp, sname) \<Rightarrow>
          (case map_of (dir_ents f sp) sname of
             None \<Rightarrow> Inl ENOENT
           | Some ino \<Rightarrow>
               (case namei_parent f dst of
                  Inl e \<Rightarrow> Inl e
                | Inr (dp, dname) \<Rightarrow>
                    if map_option i_dev (fs_inodes f sp) \<noteq> map_option i_dev (fs_inodes f dp)
                    then Inl EXDEV
                    else if immutable f ino \<or> immutable f sp \<or> immutable f dp then Inl EPERM
                    else
                      (case map_of (dir_ents f dp) dname of
                         None \<Rightarrow> Inr (fs_move f sp sname dp dname ino)
                       | Some old \<Rightarrow>
                           if old = ino then Inr f
                           else if immutable f old then Inl EPERM
                           else if is_dir f old \<and> \<not> is_dir f ino then Inl EISDIR
                           else if is_dir f old \<and> dir_ents f old \<noteq> [] then Inl ENOTEMPTY
                           else if \<not> is_dir f old \<and> is_dir f ino then Inl ENOTDIR
                           else Inr (drop_link (fs_move f sp sname dp dname ino) old)))))"

text \<open>Changes of the attributes of the inode a path names.\<close>

definition fs_setattr :: "fs \<Rightarrow> string \<Rightarrow> (inode \<Rightarrow> inode) \<Rightarrow> errno + fs" where
  "fs_setattr f path g =
     (case namei f path of
        Inl e \<Rightarrow> Inl e
      | Inr ino \<Rightarrow> if immutable f ino then Inl EPERM else Inr (update_inode f ino g))"

definition fs_chmod :: "fs \<Rightarrow> string \<Rightarrow> mode_t \<Rightarrow> errno + fs" where
  "fs_chmod f path mode =
     fs_setattr f path (\<lambda>i. i\<lparr>i_mode := (i_mode i AND S_IFMT) OR (mode AND 0xFFF)\<rparr>)"

definition fs_chown :: "fs \<Rightarrow> string \<Rightarrow> nat \<Rightarrow> nat \<Rightarrow> errno + fs" where
  "fs_chown f path uid gid = fs_setattr f path (\<lambda>i. i\<lparr>i_uid := uid, i_gid := gid\<rparr>)"

definition fs_utimes :: "fs \<Rightarrow> string \<Rightarrow> nat \<Rightarrow> errno + fs" where
  "fs_utimes f path t = fs_setattr f path (\<lambda>i. i\<lparr>i_mtime := t\<rparr>)"

definition fs_chflags :: "fs \<Rightarrow> string \<Rightarrow> 32 word \<Rightarrow> errno + fs" where
  "fs_chflags f path flags =
     (case namei f path of
        Inl e \<Rightarrow> Inl e
      | Inr ino \<Rightarrow> Inr (update_inode f ino (\<lambda>i. i\<lparr>i_flags := flags\<rparr>)))"

definition fs_umask :: "fs \<Rightarrow> mode_t \<Rightarrow> errno + fs" where
  "fs_umask f m = Inr (f\<lparr>fs_cmask := m AND 0x1FF\<rparr>)"

definition fs_mknod :: "fs \<Rightarrow> string \<Rightarrow> mode_t \<Rightarrow> dev_t \<Rightarrow> errno + fs" where
  "fs_mknod f path mode rdev =
     (case fs_create f path ((mode AND S_IFMT) OR (mode AND 0xFFF AND NOT (fs_cmask f)))
             rdev Special of
        Inl e \<Rightarrow> Inl e
      | Inr (ino, f') \<Rightarrow> Inr f')"

text \<open>
  Open files. A descriptor is the inode it is open on; the file offset of a reader is
  kept by the loop that reads, and a writer appends. \<open>fs_open_rdonly\<close> is \<^verbatim>\<open>open\<close> with
  \<^verbatim>\<open>O_RDONLY\<close>, \<open>fs_open_excl\<close> is \<^verbatim>\<open>open\<close> with \<^verbatim>\<open>O_WRONLY|O_CREAT|O_EXCL\<close>.
\<close>

definition fs_open_rdonly :: "fs \<Rightarrow> string \<Rightarrow> errno + ino_t" where
  "fs_open_rdonly f path = namei f path"

definition fs_open_excl :: "fs \<Rightarrow> string \<Rightarrow> mode_t \<Rightarrow> errno + (ino_t \<times> fs)" where
  "fs_open_excl f path mode =
     fs_create f path (S_IFREG OR (mode AND 0xFFF AND NOT (fs_cmask f))) 0 (File [])"

definition fs_read :: "fs \<Rightarrow> ino_t \<Rightarrow> nat \<Rightarrow> nat \<Rightarrow> errno + string" where
  "fs_read f fd off nbytes =
     (case fs_inodes f fd of
        None \<Rightarrow> Inl EBADF
      | Some i \<Rightarrow>
          (case i_body i of
             File c \<Rightarrow> Inr (take nbytes (drop off c))
           | Dir ents \<Rightarrow> Inl EISDIR
           | _ \<Rightarrow> Inl EINVAL))"

definition fs_write :: "fs \<Rightarrow> ino_t \<Rightarrow> string \<Rightarrow> errno + (nat \<times> fs)" where
  "fs_write f fd buf =
     (case fs_inodes f fd of
        None \<Rightarrow> Inl EBADF
      | Some i \<Rightarrow>
          (case i_body i of
             File c \<Rightarrow>
               (let n = min (length buf) (fs_free f) in
                if n = 0 \<and> buf \<noteq> [] then Inl ENOSPC
                else Inr (n, f\<lparr>fs_inodes := (fs_inodes f)(fd \<mapsto> i\<lparr>i_body := File (c @ take n buf)\<rparr>),
                               fs_free := fs_free f - n\<rparr>))
           | _ \<Rightarrow> Inl EBADF))"

definition fs_read_file :: "fs \<Rightarrow> string \<Rightarrow> string option" where
  "fs_read_file f path =
     (case namei f path of
        Inl e \<Rightarrow> None
      | Inr ino \<Rightarrow>
          (case fs_inodes f ino of
             None \<Rightarrow> None
           | Some i \<Rightarrow> (case i_body i of File c \<Rightarrow> Some c | _ \<Rightarrow> None)))"

subsection \<open>The state of a run\<close>

text \<open>
  The globals of \<^verbatim>\<open>cpdup.c\<close> that change during a run (the hardlink table, the six
  counters, \<^verbatim>\<open>errno\<close>) and the world outside: the file systems behind \<^verbatim>\<open>SrcHost\<close> and
  \<^verbatim>\<open>DstHost\<close>, the lines written with \<^verbatim>\<open>logerr\<close>, the unread part of standard input,
  and the list of all modifying host calls issued so far, newest first. The two hosts
  have separate file systems. Output through \<^verbatim>\<open>logstd\<close> is left out.
\<close>

datatype host = SrcHost | DstHost

datatype call =
    C_remove string
  | C_rmdir string
  | C_mkdir string mode_t
  | C_rename string string
  | C_link string string
  | C_symlink string string
  | C_chmod string mode_t
  | C_chown string nat nat
  | C_lchown string nat nat
  | C_chflags string "32 word"
  | C_utimes string nat
  | C_umask mode_t
  | C_mknod string mode_t dev_t
  | C_open_excl string mode_t
  | C_write ino_t string

definition HLSIZE :: nat where "HLSIZE = 8192"
definition HLMASK :: ino_t where "HLMASK = 8191"

record hlink =
  hl_ino :: ino_t
  hl_dino :: ino_t
  hl_nlinked :: nat
  hl_name :: string

record state =
  hltable :: "nat \<Rightarrow> hlink list"
  CountSourceBytes :: "64 word"
  CountSourceItems :: "64 word"
  CountCopiedItems :: "64 word"
  CountReadBytes :: "64 word"
  CountWriteBytes :: "64 word"
  CountRemovedItems :: "64 word"
  src_fs :: fs
  dst_fs :: fs
  errno :: errno
  calls :: "(host \<times> call) list"
  errlog :: "(string \<times> string) list"
  stdin :: string

text \<open>
  The options \<^verbatim>\<open>main\<close> sets before the first call of \<^verbatim>\<open>DoCopy\<close>, and what
  \<^verbatim>\<open>cpdup.c\<close> takes from outside. Modelled from the spec: \<^verbatim>\<open>md5_check\<close> and
  \<^verbatim>\<open>fsmid_check\<close> (the ContentIdentity collaborators) answer 0 for "equal" and a
  negative value otherwise; here they are functions of the two file systems and their
  arguments, and their caches are not modelled. \<^verbatim>\<open>cpdup.h\<close> is taken to define
  \<^verbatim>\<open>_ST_FLAGS_PRESENT_\<close> and \<^verbatim>\<open>_ST_FSMID_PRESENT_\<close> and not \<^verbatim>\<open>NOMD5\<close>, as the FileStat
  of the specification has flags and a content id. \<open>st2_stack\<close> is what the
  uninitialised \<^verbatim>\<open>st2\<close> of the \<^verbatim>\<open>DoCopy\<close> frame for a source path holds on entry.
\<close>

record config =
  AskConfirmation :: int
  SafetyOpt :: int
  ForceOpt :: int
  VerboseOpt :: int
  QuietOpt :: int
  NoRemoveOpt :: int
  UseMD5Opt :: int
  UseFSMIDOpt :: int
  DstBaseLen :: nat
  UseCpFile :: "string option"
  UseHLPath :: "string option"
  MD5CacheFile :: string
  FSMIDCacheFile :: string
  md5_check :: "fs \<Rightarrow> fs \<Rightarrow> string \<Rightarrow> string option \<Rightarrow> int"
  fsmid_check :: "fs \<Rightarrow> 64 word \<Rightarrow> string \<Rightarrow> int"
  st2_stack :: "string \<Rightarrow> stat"

definition the_default :: "'a \<Rightarrow> 'a option \<Rightarrow> 'a" where
  "the_default d x = (case x of None \<Rightarrow> d | Some v \<Rightarrow> v)"

definition host_fs :: "state \<Rightarrow> host \<Rightarrow> fs" where
  "host_fs s h = (case h of SrcHost \<Rightarrow> src_fs s | DstHost \<Rightarrow> dst_fs s)"

definition set_host_fs :: "host \<Rightarrow> fs \<Rightarrow> state \<Rightarrow> state" where
  "set_host_fs h f s = (case h of SrcHost \<Rightarrow> s\<lparr>src_fs := f\<rparr> | DstHost \<Rightarrow> s\<lparr>dst_fs := f\<rparr>)"

definition logerr :: "string \<Rightarrow> string \<Rightarrow> state \<Rightarrow> state" where
  "logerr path msg s = s\<lparr>errlog := errlog s @ [(path, msg)]\<rparr>"

text \<open>The host calls that only read: the result, or \<open>None\<close> for a failure.\<close>

definition opt_of :: "errno + 'a \<Rightarrow> 'a option" where
  "opt_of x = (case x of Inl e \<Rightarrow> None | Inr v \<Rightarrow> Some v)"

definition hc_lstat :: "state \<Rightarrow> host \<Rightarrow> string \<Rightarrow> stat option" where
  "hc_lstat s h path = opt_of (fs_lstat (host_fs s h) path)"

definition hc_stat :: "state \<Rightarrow> host \<Rightarrow> string \<Rightarrow> stat option" where
  "hc_stat s h path = opt_of (fs_stat (host_fs s h) path)"

definition hc_opendir :: "state \<Rightarrow> host \<Rightarrow> string \<Rightarrow> string list option" where
  "hc_opendir s h path = opt_of (fs_opendir (host_fs s h) path)"

definition hc_readlink :: "state \<Rightarrow> host \<Rightarrow> string \<Rightarrow> nat \<Rightarrow> string option" where
  "hc_readlink s h path bufsiz = opt_of (fs_readlink (host_fs s h) path bufsiz)"

definition hc_open_rdonly :: "state \<Rightarrow> host \<Rightarrow> string \<Rightarrow> ino_t option" where
  "hc_open_rdonly s h path = opt_of (fs_open_rdonly (host_fs s h) path)"

definition hc_read :: "state \<Rightarrow> host \<Rightarrow> ino_t \<Rightarrow> nat \<Rightarrow> nat \<Rightarrow> string option" where
  "hc_read s h fd off nbytes = opt_of (fs_read (host_fs s h) fd off nbytes)"

text \<open>
  The host calls that modify: each is entered in \<open>calls\<close>, changes the file system of
  its host when it succeeds and returns 0, and sets \<^verbatim>\<open>errno\<close> and returns -1 when it
  fails.
\<close>

definition hc_call :: "host \<Rightarrow> call \<Rightarrow> (fs \<Rightarrow> errno + fs) \<Rightarrow> state \<Rightarrow> int \<times> state" where
  "hc_call h c op s =
     (let s1 = s\<lparr>calls := (h, c) # calls s\<rparr> in
      case op (host_fs s h) of
        Inl e \<Rightarrow> (-1, s1\<lparr>errno := e\<rparr>)
      | Inr f \<Rightarrow> (0, set_host_fs h f s1))"

definition hc_remove :: "state \<Rightarrow> host \<Rightarrow> string \<Rightarrow> int \<times> state" where
  "hc_remove s h path = hc_call h (C_remove path) (\<lambda>f. fs_remove f path) s"

definition hc_rmdir :: "state \<Rightarrow> host \<Rightarrow> string \<Rightarrow> int \<times> state" where
  "hc_rmdir s h path = hc_call h (C_rmdir path) (\<lambda>f. fs_rmdir f path) s"

definition hc_mkdir :: "state \<Rightarrow> host \<Rightarrow> string \<Rightarrow> mode_t \<Rightarrow> int \<times> state" where
  "hc_mkdir s h path mode = hc_call h (C_mkdir path mode) (\<lambda>f. fs_mkdir f path mode) s"

definition hc_rename :: "state \<Rightarrow> host \<Rightarrow> string \<Rightarrow> string \<Rightarrow> int \<times> state" where
  "hc_rename s h src dst = hc_call h (C_rename src dst) (\<lambda>f. fs_rename f src dst) s"

definition hc_link :: "state \<Rightarrow> host \<Rightarrow> string \<Rightarrow> string \<Rightarrow> int \<times> state" where
  "hc_link s h src dst = hc_call h (C_link src dst) (\<lambda>f. fs_link f src dst) s"

definition hc_symlink :: "state \<Rightarrow> host \<Rightarrow> string \<Rightarrow> string \<Rightarrow> int \<times> state" where
  "hc_symlink s h target path =
     hc_call h (C_symlink target path) (\<lambda>f. fs_symlink f target path) s"

definition hc_chmod :: "state \<Rightarrow> host \<Rightarrow> string \<Rightarrow> mode_t \<Rightarrow> int \<times> state" where
  "hc_chmod s h path mode = hc_call h (C_chmod path mode) (\<lambda>f. fs_chmod f path mode) s"

definition hc_chown :: "state \<Rightarrow> host \<Rightarrow> string \<Rightarrow> nat \<Rightarrow> nat \<Rightarrow> int \<times> state" where
  "hc_chown s h path uid gid =
     hc_call h (C_chown path uid gid) (\<lambda>f. fs_chown f path uid gid) s"

definition hc_lchown :: "state \<Rightarrow> host \<Rightarrow> string \<Rightarrow> nat \<Rightarrow> nat \<Rightarrow> int \<times> state" where
  "hc_lchown s h path uid gid =
     hc_call h (C_lchown path uid gid) (\<lambda>f. fs_chown f path uid gid) s"

definition hc_chflags :: "state \<Rightarrow> host \<Rightarrow> string \<Rightarrow> 32 word \<Rightarrow> int \<times> state" where
  "hc_chflags s h path flags =
     hc_call h (C_chflags path flags) (\<lambda>f. fs_chflags f path flags) s"

definition hc_utimes :: "state \<Rightarrow> host \<Rightarrow> string \<Rightarrow> nat \<Rightarrow> int \<times> state" where
  "hc_utimes s h path t = hc_call h (C_utimes path t) (\<lambda>f. fs_utimes f path t) s"

definition hc_umask :: "state \<Rightarrow> host \<Rightarrow> mode_t \<Rightarrow> int \<times> state" where
  "hc_umask s h m = hc_call h (C_umask m) (\<lambda>f. fs_umask f m) s"

text \<open>\<^verbatim>\<open>mknod\<close> is called directly, not through a host handle; it acts on the
  destination file system.\<close>

definition mknod :: "state \<Rightarrow> string \<Rightarrow> mode_t \<Rightarrow> dev_t \<Rightarrow> int \<times> state" where
  "mknod s path mode rdev =
     hc_call DstHost (C_mknod path mode rdev) (\<lambda>f. fs_mknod f path mode rdev) s"

definition hc_open_excl :: "state \<Rightarrow> host \<Rightarrow> string \<Rightarrow> mode_t \<Rightarrow> ino_t option \<times> state" where
  "hc_open_excl s h path mode =
     (let s1 = s\<lparr>calls := (h, C_open_excl path mode) # calls s\<rparr> in
      case fs_open_excl (host_fs s h) path mode of
        Inl e \<Rightarrow> (None, s1\<lparr>errno := e\<rparr>)
      | Inr (fd, f) \<Rightarrow> (Some fd, set_host_fs h f s1))"

definition hc_write :: "state \<Rightarrow> host \<Rightarrow> ino_t \<Rightarrow> string \<Rightarrow> int \<times> state" where
  "hc_write s h fd buf =
     (let s1 = s\<lparr>calls := (h, C_write fd buf) # calls s\<rparr> in
      case fs_write (host_fs s h) fd buf of
        Inl e \<Rightarrow> (-1, s1\<lparr>errno := e\<rparr>)
      | Inr (n, f) \<Rightarrow> (int n, set_host_fs h f s1))"

subsection \<open>The hardlink table\<close>

text \<open>
  \<^verbatim>\<open>hltable\<close> is an array of \<^verbatim>\<open>HLSIZE\<close> chains; a chain is a list with the newest entry
  first. A pointer to an entry (\<^verbatim>\<open>hln\<close> in \<^verbatim>\<open>DoCopy\<close>) is the inode number it is
  filed under: \<^verbatim>\<open>hltadd\<close> is only called after a lookup that failed or after the entry
  found was deleted, so a chain never holds two entries of one inode number.
  \<^verbatim>\<open>nlink_t\<close> counts are natural numbers.
\<close>

definition hlt_slot :: "ino_t \<Rightarrow> nat" where
  "hlt_slot i = unat (i AND HLMASK)"

definition hltlookup :: "(nat \<Rightarrow> hlink list) \<Rightarrow> stat \<Rightarrow> hlink option" where
  "hltlookup tbl stp =
     find (\<lambda>hl. hl_ino hl = st_ino stp) (tbl (hlt_slot (st_ino stp)))"

definition hltadd :: "(nat \<Rightarrow> hlink list) \<Rightarrow> stat \<Rightarrow> string \<Rightarrow> (nat \<Rightarrow> hlink list)" where
  "hltadd tbl stp path =
     (let n = hlt_slot (st_ino stp) in
      tbl(n := \<lparr>hl_ino = st_ino stp, hl_dino = 0, hl_nlinked = 1, hl_name = path\<rparr> # tbl n))"

fun chain_delete :: "ino_t \<Rightarrow> hlink list \<Rightarrow> hlink list" where
  "chain_delete i [] = []"
| "chain_delete i (hl # rest) = (if hl_ino hl = i then rest else hl # chain_delete i rest)"

definition hltdelete :: "(nat \<Rightarrow> hlink list) \<Rightarrow> ino_t \<Rightarrow> (nat \<Rightarrow> hlink list)" where
  "hltdelete tbl i = tbl(hlt_slot i := chain_delete i (tbl (hlt_slot i)))"

text \<open>An assignment through the pointer: \<^verbatim>\<open>hln->nlinked++\<close>, \<^verbatim>\<open>hln->dino = ...\<close>.\<close>

fun chain_update :: "ino_t \<Rightarrow> (hlink \<Rightarrow> hlink) \<Rightarrow> hlink list \<Rightarrow> hlink list" where
  "chain_update i g [] = []"
| "chain_update i g (hl # rest) =
     (if hl_ino hl = i then g hl # rest else hl # chain_update i g rest)"

definition hlt_update :: "(nat \<Rightarrow> hlink list) \<Rightarrow> ino_t \<Rightarrow> (hlink \<Rightarrow> hlink) \<Rightarrow> (nat \<Rightarrow> hlink list)" where
  "hlt_update tbl i g = tbl(hlt_slot i := chain_update i g (tbl (hlt_slot i)))"

subsection \<open>xrename, xlink, YesNo\<close>

definition xrename :: "state \<Rightarrow> string \<Rightarrow> string \<Rightarrow> 32 word \<Rightarrow> int \<times> state" where
  "xrename s src dst flags =
     (case hc_rename s DstHost src dst of
        (r, s1) \<Rightarrow>
          if r < 0 then
            (case hc_chflags s1 DstHost dst 0 of
               (r0, s2) \<Rightarrow>
                 (case hc_rename s2 DstHost src dst of
                    (r2, s3) \<Rightarrow>
                      if r2 < 0 then (r2, snd (hc_chflags s3 DstHost dst flags))
                      else (r2, s3)))
          else (r, s1))"

definition xlink :: "state \<Rightarrow> string \<Rightarrow> string \<Rightarrow> 32 word \<Rightarrow> int \<times> state" where
  "xlink s src dst flags =
     (case hc_link s DstHost src dst of
        (r, s1) \<Rightarrow>
          if r < 0 then
            (case hc_chflags s1 DstHost src 0 of
               (r0, s2) \<Rightarrow>
                 (case hc_link s2 DstHost src dst of
                    (r2, s3) \<Rightarrow>
                      (let e = errno s3 in
                       case hc_chflags s3 DstHost src flags of
                         (r3, s4) \<Rightarrow> (r2, s4\<lparr>errno := e\<rparr>))))
          else (r, s1))"

definition newline :: char where "newline = CHR 0x0A"

definition YesNo :: "state \<Rightarrow> string \<Rightarrow> bool \<times> state" where
  "YesNo s path =
     (let inp = stdin s;
          first = (case inp of [] \<Rightarrow> None | ch # rest \<Rightarrow> Some ch)
      in (first = Some CHR ''y'' \<or> first = Some CHR ''Y'',
          s\<lparr>stdin := drop 1 (dropWhile (\<lambda>ch. ch \<noteq> newline) inp)\<rparr>))"

subsection \<open>RemoveRecur\<close>

text \<open>
  The recursion of \<^verbatim>\<open>RemoveRecur\<close> and of \<^verbatim>\<open>DoCopy\<close> follows the directories of a file
  system, which nothing forces to be a finite tree; both functions take the depth they
  may recurse to as their first argument and return \<open>None\<close> when it does not suffice.
\<close>

definition count_removed :: "state \<Rightarrow> state" where
  "count_removed s = s\<lparr>CountRemovedItems := CountRemovedItems s + 1\<rparr>"

definition RemoveRecur_rmdir :: "config \<Rightarrow> string \<Rightarrow> state \<Rightarrow> state" where
  "RemoveRecur_rmdir cfg dpath s =
     (if AskConfirmation cfg \<noteq> 0 \<and> NoRemoveOpt cfg = 0 then
        (case YesNo s dpath of
           (yes, s1) \<Rightarrow>
             if yes then
               (case hc_rmdir s1 DstHost dpath of
                  (rc, s2) \<Rightarrow>
                    count_removed (if rc < 0 then logerr dpath ''rmdir failed'' s2 else s2))
             else s1)
      else if NoRemoveOpt cfg \<noteq> 0 then s
      else
        (case hc_rmdir s DstHost dpath of
           (rc, s1) \<Rightarrow>
             if rc = 0 then count_removed s1 else logerr dpath ''rmdir failed'' s1))"

definition RemoveRecur_remove :: "config \<Rightarrow> string \<Rightarrow> state \<Rightarrow> state" where
  "RemoveRecur_remove cfg dpath s =
     (if AskConfirmation cfg \<noteq> 0 \<and> NoRemoveOpt cfg = 0 then
        (case YesNo s dpath of
           (yes, s1) \<Rightarrow>
             if yes then
               (case hc_remove s1 DstHost dpath of
                  (rc, s2) \<Rightarrow>
                    count_removed (if rc < 0 then logerr dpath ''remove failed'' s2 else s2))
             else s1)
      else if NoRemoveOpt cfg \<noteq> 0 then s
      else
        (case hc_remove s DstHost dpath of
           (rc, s1) \<Rightarrow>
             if rc = 0 then count_removed s1 else logerr dpath ''remove failed'' s1))"

text \<open>The \<^verbatim>\<open>readdir\<close> loop of \<^verbatim>\<open>RemoveRecur\<close>; \<open>rm\<close> is the recursive call.\<close>

fun RemoveRecur_loop ::
  "(string \<Rightarrow> dev_t \<Rightarrow> state \<Rightarrow> state option) \<Rightarrow> string \<Rightarrow> dev_t \<Rightarrow> string list \<Rightarrow> state
    \<Rightarrow> state option" where
  "RemoveRecur_loop rm dpath devNo [] s = Some s"
| "RemoveRecur_loop rm dpath devNo (d_name # dens) s =
     (if d_name = ''.'' then RemoveRecur_loop rm dpath devNo dens s
      else if d_name = ''..'' then RemoveRecur_loop rm dpath devNo dens s
      else
        (case rm (dpath @ ''/'' @ d_name) devNo s of
           None \<Rightarrow> None
         | Some s1 \<Rightarrow> RemoveRecur_loop rm dpath devNo dens s1))"

fun RemoveRecur :: "nat \<Rightarrow> config \<Rightarrow> string \<Rightarrow> dev_t \<Rightarrow> state \<Rightarrow> state option" where
  "RemoveRecur 0 cfg dpath devNo s = None"
| "RemoveRecur (Suc k) cfg dpath devNo s =
     (case hc_lstat s DstHost dpath of
        None \<Rightarrow> Some s
      | Some st \<Rightarrow>
          (let devNo1 = (if sint devNo < 0 then st_dev st else devNo) in
           if st_dev st = devNo1 then
             (if S_ISDIR (st_mode st) then
                (case (case hc_opendir s DstHost dpath of
                         None \<Rightarrow> Some s
                       | Some dens \<Rightarrow>
                           RemoveRecur_loop (\<lambda>p d s'. RemoveRecur k cfg p d s')
                             dpath devNo1 dens s) of
                   None \<Rightarrow> None
                 | Some s1 \<Rightarrow> Some (RemoveRecur_rmdir cfg dpath s1))
              else Some (RemoveRecur_remove cfg dpath s))
           else Some s))"

subsection \<open>checkHLPath\<close>

text \<open>The comparison loop of \<^verbatim>\<open>checkHLPath\<close> over blocks of 65536 bytes; the result is
  the last \<open>n\<close>, which is 0 when the source ended with every block equal.\<close>

function checkHLPath_loop :: "state \<Rightarrow> ino_t \<Rightarrow> ino_t \<Rightarrow> nat \<Rightarrow> int" where
  "checkHLPath_loop s fd1 fd2 off =
     (case hc_read s SrcHost fd1 off 65536 of
        None \<Rightarrow> -1
      | Some buf1 \<Rightarrow>
          if buf1 = [] then 0
          else
            (case hc_read s DstHost fd2 off 65536 of
               None \<Rightarrow> int (length buf1)
             | Some buf2 \<Rightarrow>
                 if length buf2 \<noteq> length buf1 then int (length buf1)
                 else if buf1 \<noteq> buf2 then int (length buf1)
                 else checkHLPath_loop s fd1 fd2 (off + length buf1)))"
  by pat_completeness auto

termination checkHLPath_loop
  by (relation "measure (\<lambda>(s, fd1, fd2, off).
        (case fs_inodes (src_fs s) fd1 of
           Some i \<Rightarrow> body_size (i_body i)
         | None \<Rightarrow> 0) - off)")
     (auto simp: hc_read_def opt_of_def host_fs_def fs_read_def body_size_def
        split: option.splits body.splits)

definition checkHLPath :: "config \<Rightarrow> state \<Rightarrow> stat \<Rightarrow> string \<Rightarrow> string \<Rightarrow> string option" where
  "checkHLPath cfg s st1 spath dpath =
     (let hpath = the_default [] (UseHLPath cfg) @ drop (DstBaseLen cfg) dpath in
      case hc_stat s DstHost hpath of
        None \<Rightarrow> None
      | Some sthl \<Rightarrow>
          if st_size st1 \<noteq> st_size sthl \<or> st_uid st1 \<noteq> st_uid sthl \<or>
             st_gid st1 \<noteq> st_gid sthl \<or> st_mtime st1 \<noteq> st_mtime sthl
          then None
          else if ForceOpt cfg \<noteq> 0 then
            (case (hc_open_rdonly s SrcHost spath, hc_open_rdonly s DstHost hpath) of
               (Some fd1, Some fd2) \<Rightarrow>
                 if checkHLPath_loop s fd1 fd2 0 = 0 then Some hpath else None
             | _ \<Rightarrow> None)
          else Some hpath)"

subsection \<open>DoCopy\<close>

text \<open>
  The locals of a \<^verbatim>\<open>DoCopy\<close> frame. \<open>v_hln\<close> is the pointer \<^verbatim>\<open>hln\<close>, \<open>None\<close> for
  \<^verbatim>\<open>NULL\<close>. Each part of the function body below is a definition of its own; a part
  that can leave the function returns \<open>Inl\<close> of the value returned and the state, and
  \<open>Inr\<close> when control falls through to the next part.
\<close>

record frame =
  v_st1 :: stat
  v_st2 :: stat
  v_st2Valid :: bool
  v_r :: int
  v_mres :: int
  v_fres :: int
  v_hln :: "ino_t option"
  v_size :: "64 word"

definition count_source_item :: "state \<Rightarrow> state" where
  "count_source_item s = s\<lparr>CountSourceItems := CountSourceItems s + 1\<rparr>"

definition count_copied_item :: "state \<Rightarrow> state" where
  "count_copied_item s = s\<lparr>CountCopiedItems := CountCopiedItems s + 1\<rparr>"

text \<open>Lines 644 to 708: the hardlink probe. The call of \<^verbatim>\<open>logerr\<close> at line 680 has the
  format \<^verbatim>\<open>%-20s\<close> and no argument for it, so the behaviour of the program is undefined
  from there on: the probe has no result (\<open>None\<close>) when the link has failed with
  \<^verbatim>\<open>EMLINK\<close>, and \<^verbatim>\<open>goto relink\<close> is not modelled as taken.\<close>

definition DoCopy_hardlink ::
  "string \<Rightarrow> string option \<Rightarrow> frame \<Rightarrow> state \<Rightarrow> ((int \<times> state) + (frame \<times> state)) option" where
  "DoCopy_hardlink spath dpath fr s =
     (case dpath of
        None \<Rightarrow> Some (Inr (fr, s))
      | Some dp \<Rightarrow>
          if S_ISREG (st_mode (v_st1 fr)) \<and> st_nlink (v_st1 fr) > 1 then
            (let key = st_ino (v_st1 fr) in
             case hltlookup (hltable s) (v_st1 fr) of
               Some hl \<Rightarrow>
                 (let nlinked = hl_nlinked hl + 1;
                      s1 = s\<lparr>hltable := hlt_update (hltable s) key
                                (\<lambda>h. h\<lparr>hl_nlinked := hl_nlinked h + 1\<rparr>)\<rparr>
                  in
                  if v_st2Valid fr \<and> st_ino (v_st2 fr) = hl_dino hl then
                    Some (Inl (0, count_source_item
                          (if nlinked = st_nlink (v_st1 fr)
                           then s1\<lparr>hltable := hltdelete (hltable s1) key\<rparr> else s1)))
                  else
                    (case (if v_st2Valid fr then hc_remove s1 DstHost dp else (0, s1)) of
                       (rc, s2) \<Rightarrow>
                         if rc < 0 then
                           (let s3 = logerr dp ''hardlink: unable to unlink'' s2 in
                            Some (Inl (v_r fr + 1, s3\<lparr>hltable := hltdelete (hltable s3) key\<rparr>)))
                         else
                           (case xlink s2 (hl_name hl) dp (st_flags (v_st1 fr)) of
                              (rc2, s3) \<Rightarrow>
                                if rc2 < 0 then
                                  (let tryrelink = (errno s3 = EMLINK);
                                       s4 = logerr dp ''hardlink: unable to link'' s3;
                                       s5 = s4\<lparr>hltable := hltdelete (hltable s4) key\<rparr>
                                   in
                                   if tryrelink then None
                                   else Some (Inr (fr\<lparr>v_r := v_r fr + 1, v_hln := None\<rparr>, s5)))
                                else
                                  (let del = (nlinked = st_nlink (v_st1 fr));
                                       s4 = (if del then s3\<lparr>hltable := hltdelete (hltable s3) key\<rparr>
                                             else s3)
                                   in
                                   if v_r fr = 0 then
                                     Some (Inl (0, count_copied_item (count_source_item s4)))
                                   else Some (Inr (fr\<lparr>v_hln := (if del then None else Some key)\<rparr>,
                                                   s4))))))
             | None \<Rightarrow>
                 Some (Inr (fr\<lparr>v_hln := Some key\<rparr>,
                            s\<lparr>hltable := hltadd (hltable s) (v_st1 fr) dp\<rparr>)))
          else Some (Inr (fr, s)))"

text \<open>Lines 718 to 775: the early termination when nothing has changed. The
  conjunction of the regular-file case is evaluated from the left and stops at its
  first false conjunct, so \<^verbatim>\<open>mres\<close> and \<^verbatim>\<open>fres\<close> are assigned only when it gets to
  them.\<close>

definition DoCopy_nochange ::
  "config \<Rightarrow> string \<Rightarrow> string option \<Rightarrow> frame \<Rightarrow> state \<Rightarrow> (int \<times> state) + (frame \<times> state)" where
  "DoCopy_nochange cfg spath dpath fr s =
     (let st1 = v_st1 fr; st2 = v_st2 fr; dp = the_default [] dpath in
      if v_st2Valid fr \<and> st_mode st1 = st_mode st2 \<and> st_flags st1 = st_flags st2 then
        (if S_ISLNK (st_mode st1) \<or> S_ISDIR (st_mode st1) then
           (if ForceOpt cfg = 0 \<and> UseFSMIDOpt cfg \<noteq> 0 then
              (let fres = fsmid_check cfg (dst_fs s) (st_fsmid st1) dp in
               if fres = 0 then Inl (0, s) else Inr (fr\<lparr>v_fres := fres\<rparr>, s))
            else Inr (fr, s))
         else
           (let meta = (ForceOpt cfg = 0 \<and> st_size st1 = st_size st2 \<and>
                        st_uid st1 = st_uid st2 \<and> st_gid st1 = st_gid st2 \<and>
                        st_mtime st1 = st_mtime st2);
                mres = (if meta \<and> UseMD5Opt cfg \<noteq> 0
                        then md5_check cfg (src_fs s) (dst_fs s) spath dpath else v_mres fr);
                md5ok = (meta \<and> (UseMD5Opt cfg = 0 \<or> mres = 0));
                fres = (if md5ok \<and> UseFSMIDOpt cfg \<noteq> 0
                        then fsmid_check cfg (dst_fs s) (st_fsmid st1) dp else v_fres fr)
            in
            if md5ok \<and> (UseFSMIDOpt cfg = 0 \<or> fres = 0) then
              (let s1 = (case v_hln fr of
                           Some key \<Rightarrow>
                             s\<lparr>hltable := hlt_update (hltable s) key
                                 (\<lambda>h. h\<lparr>hl_dino := st_ino st2\<rparr>)\<rparr>
                         | None \<Rightarrow> s)
               in Inl (0, count_source_item
                        (s1\<lparr>CountSourceBytes := CountSourceBytes s1 + v_size fr\<rparr>)))
            else Inr (fr\<lparr>v_mres := mres, v_fres := fres\<rparr>, s)))
      else Inr (fr, s))"

text \<open>Lines 776 to 791: a source that is no directory over a destination that is one.
  With \<^verbatim>\<open>SafetyOpt\<close> set the code increments \<^verbatim>\<open>r\<close> and then returns 0.\<close>

definition DoCopy_conflict ::
  "(string \<Rightarrow> dev_t \<Rightarrow> state \<Rightarrow> state option) \<Rightarrow> config \<Rightarrow> string option \<Rightarrow> dev_t \<Rightarrow> frame \<Rightarrow> state
    \<Rightarrow> ((int \<times> state) + state) option" where
  "DoCopy_conflict rm cfg dpath ddevNo fr s =
     (if v_st2Valid fr \<and> \<not> S_ISDIR (st_mode (v_st1 fr)) \<and> S_ISDIR (st_mode (v_st2 fr)) then
        (if SafetyOpt cfg \<noteq> 0 then
           Some (Inl (0, logerr (the_default [] dpath)
                         ''SAFETY - refusing to copy file over directory'' s))
         else
           (case dpath of
              Some dp \<Rightarrow> map_option Inr (rm dp ddevNo s)
            | None \<Rightarrow> Some (Inr s)))
      else Some (Inr s))"

text \<open>Lines 805 to 834: the destination directory is made, or made scannable. The
  result holds the frame, \<^verbatim>\<open>noLoop\<close> and the state.\<close>

definition DoCopy_mkdir :: "string \<Rightarrow> frame \<Rightarrow> state \<Rightarrow> frame \<times> bool \<times> state" where
  "DoCopy_mkdir dp fr s =
     (let st1 = v_st1 fr; st2 = v_st2 fr in
      if \<not> S_ISDIR (st_mode st2) then
        (case hc_remove s DstHost dp of
           (rc0, s1) \<Rightarrow>
             (case hc_mkdir s1 DstHost dp (st_mode st1 OR 0x1C0) of
                (rc, s2) \<Rightarrow>
                  (let failed = (rc \<noteq> 0);
                       s3 = (if failed then logerr dp ''mkdir failed'' s2 else s2);
                       fr1 = (if failed then fr\<lparr>v_r := 1\<rparr> else fr);
                       fr2 = (case hc_lstat s3 DstHost dp of
                                Some st \<Rightarrow> fr1\<lparr>v_st2 := st\<rparr>
                              | None \<Rightarrow> fr1)
                   in case hc_chown s3 DstHost dp (st_uid st1) (st_gid st1) of
                        (rc1, s4) \<Rightarrow> (fr2, failed, count_copied_item s4))))
      else if st_mode st2 AND 0x1C0 \<noteq> 0x1C0 then
        (case hc_chmod s DstHost dp (st_mode st2 OR 0x1C0) of
           (rc, s1) \<Rightarrow> (fr\<lparr>v_st2 := st2\<lparr>st_mode := st_mode st2 OR 0x1C0\<rparr>\<rparr>, False, s1))
      else (fr, False, s))"

text \<open>Lines 853 to 888: the ignore list of the directory is loaded. \<^verbatim>\<open>fgets\<close> with a
  buffer of \<open>n\<close> bytes reads up to \<open>n - 1\<close> characters and stops behind a newline;
  a file of \<open>k\<close> characters has at most \<open>k\<close> such lines. The file is opened with
  \<^verbatim>\<open>fopen\<close>, on the source file system. \<^verbatim>\<open>strlen\<close> and \<^verbatim>\<open>AddList\<close> see the buffer up to
  its first NUL byte (\<open>str\<close>).\<close>

fun take_line :: "nat \<Rightarrow> string \<Rightarrow> string \<times> string" where
  "take_line 0 cs = ([], cs)"
| "take_line (Suc n) [] = ([], [])"
| "take_line (Suc n) (c # cs) =
     (if c = newline then ([c], cs)
      else (case take_line n cs of (l, rest) \<Rightarrow> (c # l, rest)))"

fun fgets_lines_upto :: "nat \<Rightarrow> nat \<Rightarrow> string \<Rightarrow> string list" where
  "fgets_lines_upto 0 n inp = []"
| "fgets_lines_upto (Suc k) n inp =
     (if inp = [] then []
      else (case take_line (n - 1) inp of (l, rest) \<Rightarrow> l # fgets_lines_upto k n rest))"

definition fgets_lines :: "nat \<Rightarrow> string \<Rightarrow> string list" where
  "fgets_lines n inp = fgets_lines_upto (length inp) n inp"

fun DoCopy_cplines :: "string list \<Rightarrow> List \<Rightarrow> state \<Rightarrow> List \<times> state" where
  "DoCopy_cplines [] list s = (list, s)"
| "DoCopy_cplines (buf # bufs) list s =
     (let str = takeWhile (\<lambda>c. c \<noteq> CHR 0x00) buf;
          l = length str;
          s1 = s\<lparr>CountReadBytes := CountReadBytes s + of_nat l\<rparr>;
          buf1 = (if l \<noteq> 0 \<and> last str = newline then butlast str else str)
      in DoCopy_cplines bufs
           (if buf1 \<noteq> [] \<and> hd buf1 \<noteq> CHR ''#'' then snd (AddList list buf1 1) else list) s1)"

definition after_last_slash :: "string \<Rightarrow> string" where
  "after_last_slash p = rev (takeWhile (\<lambda>c. c \<noteq> CHR ''/'') (rev p))"

definition DoCopy_ignore :: "config \<Rightarrow> string \<Rightarrow> List \<Rightarrow> state \<Rightarrow> List \<times> state" where
  "DoCopy_ignore cfg spath list s =
     (case (case UseCpFile cfg of
              None \<Rightarrow> (list, s)
            | Some cp \<Rightarrow>
                (let fpath = (if cp \<noteq> [] \<and> hd cp = CHR ''/'' then cp else spath @ ''/'' @ cp);
                     list1 = snd (AddList list (after_last_slash fpath) 1)
                 in case fs_read_file (src_fs s) fpath of
                      None \<Rightarrow> (list1, s)
                    | Some content \<Rightarrow> DoCopy_cplines (fgets_lines 8192 content) list1 s)) of
        (list2, s1) \<Rightarrow>
          (let list3 = (if UseMD5Opt cfg \<noteq> 0 then snd (AddList list2 (MD5CacheFile cfg) 1)
                        else list2);
               list4 = (if UseFSMIDOpt cfg \<noteq> 0 then snd (AddList list3 (FSMIDCacheFile cfg) 1)
                        else list3)
           in (list4, s1)))"

text \<open>Lines 890 to 920: the loop over the entries of the source directory; \<open>cp\<close> is
  the recursive call of \<^verbatim>\<open>DoCopy\<close>.\<close>

fun DoCopy_scan ::
  "(string \<Rightarrow> string option \<Rightarrow> dev_t \<Rightarrow> dev_t \<Rightarrow> state \<Rightarrow> (int \<times> state) option) \<Rightarrow>
   string \<Rightarrow> string option \<Rightarrow> dev_t \<Rightarrow> dev_t \<Rightarrow> string list \<Rightarrow> List \<Rightarrow> int \<Rightarrow> state
    \<Rightarrow> (List \<times> int \<times> state) option" where
  "DoCopy_scan cp spath dpath sdevNo ddevNo [] list r s = Some (list, r, s)"
| "DoCopy_scan cp spath dpath sdevNo ddevNo (d_name # dens) list r s =
     (if d_name = ''.'' \<or> d_name = ''..'' then
        DoCopy_scan cp spath dpath sdevNo ddevNo dens list r s
      else
        (case AddList list d_name 0 of
           (v, list1) \<Rightarrow>
             if v = 1 then DoCopy_scan cp spath dpath sdevNo ddevNo dens list1 r s
             else
               (let nspath = spath @ ''/'' @ d_name;
                    ndpath = map_option (\<lambda>dp. dp @ ''/'' @ d_name) dpath
                in case cp nspath ndpath sdevNo ddevNo s of
                     None \<Rightarrow> None
                   | Some (r1, s1) \<Rightarrow>
                       DoCopy_scan cp spath dpath sdevNo ddevNo dens list1 (r + r1) s1)))"

text \<open>Lines 928 to 951: the loop over the entries of the destination directory; \<open>rm\<close>
  is \<^verbatim>\<open>RemoveRecur\<close>.\<close>

fun DoCopy_prune ::
  "(string \<Rightarrow> dev_t \<Rightarrow> state \<Rightarrow> state option) \<Rightarrow> string \<Rightarrow> dev_t \<Rightarrow> string list \<Rightarrow> List \<Rightarrow> state
    \<Rightarrow> (List \<times> state) option" where
  "DoCopy_prune rm dp ddevNo [] list s = Some (list, s)"
| "DoCopy_prune rm dp ddevNo (d_name # dens) list s =
     (if d_name = ''.'' \<or> d_name = ''..'' then DoCopy_prune rm dp ddevNo dens list s
      else
        (case AddList list d_name 3 of
           (v, list1) \<Rightarrow>
             if v = 3 then
               (case rm (dp @ ''/'' @ d_name) ddevNo s of
                  None \<Rightarrow> None
                | Some s1 \<Rightarrow> DoCopy_prune rm dp ddevNo dens list1 s1)
             else DoCopy_prune rm dp ddevNo dens list1 s))"

text \<open>Lines 953 to 969: owner, mode and flags of the destination directory.\<close>

definition DoCopy_dirattr :: "config \<Rightarrow> string \<Rightarrow> frame \<Rightarrow> state \<Rightarrow> state" where
  "DoCopy_dirattr cfg dp fr s =
     (let st1 = v_st1 fr; st2 = v_st2 fr;
          s1 = (if ForceOpt cfg \<noteq> 0 \<or> \<not> v_st2Valid fr \<or> st_uid st1 \<noteq> st_uid st2 \<or>
                   st_gid st1 \<noteq> st_gid st2
                then snd (hc_chown s DstHost dp (st_uid st1) (st_gid st1)) else s);
          s2 = (if \<not> v_st2Valid fr \<or> st_mode st1 \<noteq> st_mode st2
                then snd (hc_chmod s1 DstHost dp (st_mode st1)) else s1)
      in if \<not> v_st2Valid fr \<or> st_flags st1 \<noteq> st_flags st2
         then snd (hc_chflags s2 DstHost dp (st_flags st1)) else s2)"

text \<open>Lines 796 to 970: the source is a directory.\<close>

definition DoCopy_dir ::
  "(string \<Rightarrow> string option \<Rightarrow> dev_t \<Rightarrow> dev_t \<Rightarrow> state \<Rightarrow> (int \<times> state) option) \<Rightarrow>
   (string \<Rightarrow> dev_t \<Rightarrow> state \<Rightarrow> state option) \<Rightarrow>
   config \<Rightarrow> string \<Rightarrow> string option \<Rightarrow> dev_t \<Rightarrow> dev_t \<Rightarrow> frame \<Rightarrow> state
    \<Rightarrow> (int \<times> state) option" where
  "DoCopy_dir cp rm cfg spath dpath sdevNo ddevNo fr s =
     (let s0 = (if v_fres fr < 0 then logerr (the_default spath dpath) ''fsmid-CHECK-FAILED'' s
                else s)
      in
      case hc_opendir s0 SrcHost spath of
        None \<Rightarrow> Some (v_r fr, s0)
      | Some dens \<Rightarrow>
          (case (case dpath of
                   Some dp \<Rightarrow> DoCopy_mkdir dp fr s0
                 | None \<Rightarrow> (fr, False, s0)) of
             (fr1, noLoop0, s1) \<Rightarrow>
               (let over_s = (0 \<le> sint sdevNo \<and> st_dev (v_st1 fr1) \<noteq> sdevNo);
                    sdevNo1 = (if over_s then sdevNo else st_dev (v_st1 fr1));
                    over_d = (0 \<le> sint ddevNo \<and> st_dev (v_st2 fr1) \<noteq> ddevNo);
                    ddevNo1 = (if over_d then ddevNo else st_dev (v_st2 fr1));
                    noLoop = (noLoop0 \<or> over_s \<or> over_d)
                in
                case DoCopy_ignore cfg spath InitList s1 of
                  (list, s2) \<Rightarrow>
                    (case (if noLoop then Some (list, v_r fr1, s2)
                           else DoCopy_scan cp spath dpath sdevNo1 ddevNo1 dens list
                                  (v_r fr1) s2) of
                       None \<Rightarrow> None
                     | Some (list1, r1, s3) \<Rightarrow>
                         (case dpath of
                            None \<Rightarrow> Some (r1, s3)
                          | Some dp \<Rightarrow>
                              (case (case hc_opendir s3 DstHost dp of
                                       None \<Rightarrow> Some s3
                                     | Some ddens \<Rightarrow>
                                         if noLoop then Some s3
                                         else map_option snd
                                                (DoCopy_prune rm dp ddevNo1 ddens list1 s3)) of
                                 None \<Rightarrow> None
                               | Some s4 \<Rightarrow> Some (r1, DoCopy_dirattr cfg dp fr1 s4)))))))"

text \<open>Lines 1049 to 1054: the copy loop over blocks of 65536 bytes. The result is the
  last \<open>n\<close>: 0 at the end of the source, negative when a read failed, positive when a
  write was short.\<close>

function DoCopy_rw :: "state \<Rightarrow> ino_t \<Rightarrow> ino_t \<Rightarrow> nat \<Rightarrow> int \<times> state" where
  "DoCopy_rw s fd1 fd2 off =
     (case hc_read s SrcHost fd1 off 65536 of
        None \<Rightarrow> (-1, s)
      | Some buf \<Rightarrow>
          if buf = [] then (0, s)
          else
            (case hc_write s DstHost fd2 buf of
               (w, s1) \<Rightarrow>
                 if w \<noteq> int (length buf) then (int (length buf), s1)
                 else DoCopy_rw s1 fd1 fd2 (off + length buf)))"
  by pat_completeness auto

termination DoCopy_rw
  by (relation "measure (\<lambda>(s, fd1, fd2, off).
        (case fs_inodes (src_fs s) fd1 of
           Some i \<Rightarrow> body_size (i_body i)
         | None \<Rightarrow> 0) - off)")
     (auto simp: hc_read_def hc_write_def opt_of_def host_fs_def set_host_fs_def fs_read_def
        body_size_def Let_def split: option.splits body.splits sum.splits)

text \<open>Lines 1029 to 1105: the copy into the temporary file and the rename over the
  destination.\<close>

definition DoCopy_copyfile :: "string \<Rightarrow> string \<Rightarrow> string \<Rightarrow> frame \<Rightarrow> state \<Rightarrow> int \<times> state" where
  "DoCopy_copyfile spath dp path fr s =
     (let st1 = v_st1 fr in
      case hc_open_rdonly s SrcHost spath of
        None \<Rightarrow> (v_r fr + 1, logerr dp ''copy: open failed'' s)
      | Some fd1 \<Rightarrow>
          (case (case hc_open_excl s DstHost path 0x180 of
                   (Some fd2, s1) \<Rightarrow> (Some fd2, s1)
                 | (None, s1) \<Rightarrow>
                     hc_open_excl
                       (snd (hc_remove (snd (hc_chflags s1 DstHost path 0)) DstHost path))
                       DstHost path 0x180) of
             (None, s2) \<Rightarrow> (v_r fr + 1, logerr dp ''create failed'' s2)
           | (Some fd2, s2) \<Rightarrow>
               (case DoCopy_rw s2 fd1 fd2 0 of
                  (n, s3) \<Rightarrow>
                    if n = 0 then
                      (let s4 = snd (hc_utimes s3 DstHost path (st_mtime st1));
                           s5 = snd (hc_chown s4 DstHost path (st_uid st1) (st_gid st1));
                           s6 = snd (hc_chmod s5 DstHost path (st_mode st1))
                       in case xrename s6 path dp (st_flags (v_st2 fr)) of
                            (rc, s7) \<Rightarrow>
                              (let r1 = (if rc \<noteq> 0 then v_r fr + 1 else v_r fr);
                                   s8 = (if rc \<noteq> 0 then logerr dp ''rename-after-copy failed'' s7
                                         else if st_flags st1 \<noteq> 0
                                         then snd (hc_chflags s7 DstHost dp (st_flags st1))
                                         else s7)
                               in (r1, count_copied_item (count_source_item
                                    (s8\<lparr>CountReadBytes := CountReadBytes s8 + v_size fr,
                                        CountWriteBytes := CountWriteBytes s8 + v_size fr,
                                        CountSourceBytes := CountSourceBytes s8 + v_size fr\<rparr>)))))
                    else
                      (v_r fr + 1,
                       snd (hc_remove
                              (logerr dp (if n < 0 then ''read failed'' else ''write failed'') s3)
                              DstHost path)))))"

text \<open>Lines 989 to 1114: the source is a regular file.\<close>

definition DoCopy_reg :: "config \<Rightarrow> string \<Rightarrow> string \<Rightarrow> frame \<Rightarrow> state \<Rightarrow> int \<times> state" where
  "DoCopy_reg cfg spath dp fr s =
     (let path = dp @ ''.tmp'';
          s0 = (if v_mres fr < 0 then logerr dp ''md5-CHECK-FAILED'' s
                else if v_fres fr < 0 then logerr dp ''fsmid-CHECK-FAILED'' s
                else s)
      in
      case (case (case UseHLPath cfg of
                    None \<Rightarrow> None
                  | Some base \<Rightarrow> checkHLPath cfg s0 (v_st1 fr) spath dp) of
              None \<Rightarrow> (False, s0)
            | Some hpath \<Rightarrow>
                (case hc_link s0 DstHost hpath dp of (rc, s1) \<Rightarrow> (rc = 0, s1))) of
        (linked, s1) \<Rightarrow>
          (case (if linked then (v_r fr, s1) else DoCopy_copyfile spath dp path fr s1) of
             (r1, s2) \<Rightarrow>
               (case v_hln fr of
                  None \<Rightarrow> (r1, s2)
                | Some key \<Rightarrow>
                    (case (if r1 = 0 then hc_stat s2 DstHost dp else None) of
                       Some st \<Rightarrow>
                         (r1, s2\<lparr>hltable := hlt_update (hltable s2) key
                                   (\<lambda>h. h\<lparr>hl_dino := st_ino st\<rparr>)\<rparr>)
                     | None \<Rightarrow> (r1, s2\<lparr>hltable := hltdelete (hltable s2) key\<rparr>)))))"

text \<open>Lines 1115 to 1164: the source is a symbolic link. \<^verbatim>\<open>snprintf\<close> cuts the name of
  the temporary file to the 2047 characters its buffer holds, and \<^verbatim>\<open>readlink\<close> is given
  room for 1023.\<close>

definition DoCopy_lnk :: "config \<Rightarrow> string \<Rightarrow> string \<Rightarrow> frame \<Rightarrow> state \<Rightarrow> int \<times> state" where
  "DoCopy_lnk cfg spath dp fr s =
     (let st1 = v_st1 fr;
          path = take 2047 (dp @ ''.tmp'');
          l1 = hc_readlink s SrcHost spath 1023;
          l2 = hc_readlink s DstHost dp 1023
      in
      case l1 of
        None \<Rightarrow> (1, logerr dp ''softlink-failed'' s)
      | Some link1 \<Rightarrow>
          (let n1 = int (length link1);
               n2 = (case l2 of None \<Rightarrow> -1 | Some link2 \<Rightarrow> int (length link2))
           in
           case (if ForceOpt cfg \<noteq> 0 \<or> n1 \<noteq> n2 \<or> Some link1 \<noteq> l2 then
                   (let s1 = snd (hc_umask s DstHost (NOT (st_mode st1)));
                        s2 = snd (hc_remove s1 DstHost path)
                    in case hc_symlink s2 DstHost link1 path of
                         (rc, s3) \<Rightarrow>
                           if rc < 0 then (v_r fr + 1, logerr dp ''symlink failed'' s3)
                           else
                             (let s4 = snd (hc_lchown s3 DstHost path (st_uid st1) (st_gid st1))
                              in case xrename s4 path dp (st_flags (v_st2 fr)) of
                                   (rc1, s5) \<Rightarrow>
                                     (let s6 = (if rc1 \<noteq> 0
                                                then logerr dp ''rename softlink failed'' s5
                                                else s5);
                                          s7 = snd (hc_umask s6 DstHost 0)
                                      in (v_r fr, count_copied_item
                                            (s7\<lparr>CountWriteBytes :=
                                                  CountWriteBytes s7 + word_of_int n1\<rparr>)))))
                 else (v_r fr, s)) of
             (r1, s8) \<Rightarrow>
               (let s9 = s8\<lparr>CountSourceBytes := CountSourceBytes s8 + word_of_int n1,
                            CountReadBytes := CountReadBytes s8 + word_of_int n1\<rparr>;
                    s10 = (if n2 > 0
                           then s9\<lparr>CountReadBytes := CountReadBytes s9 + word_of_int n2\<rparr>
                           else s9)
                in (r1, count_source_item s10))))"

text \<open>Lines 1165 to 1202: the source is a character or block device.\<close>

definition DoCopy_dev :: "config \<Rightarrow> string \<Rightarrow> string \<Rightarrow> frame \<Rightarrow> state \<Rightarrow> int \<times> state" where
  "DoCopy_dev cfg spath dp fr s =
     (let st1 = v_st1 fr; st2 = v_st2 fr in
      case (if ForceOpt cfg \<noteq> 0 \<or> \<not> v_st2Valid fr \<or> st_mode st1 \<noteq> st_mode st2 \<or>
               st_rdev st1 \<noteq> st_rdev st2 \<or> st_uid st1 \<noteq> st_uid st2 \<or>
               st_gid st1 \<noteq> st_gid st2
            then
              (let path = take 2047 (dp @ ''.tmp'');
                   s1 = snd (hc_remove s DstHost path)
               in case mknod s1 path (st_mode st1) (st_rdev st1) of
                    (rc, s2) \<Rightarrow>
                      if rc = 0 then
                        (let s3 = snd (hc_chmod s2 DstHost path (st_mode st1));
                             s4 = snd (hc_chown s3 DstHost path (st_uid st1) (st_gid st1));
                             s5 = snd (hc_remove s4 DstHost dp)
                         in case xrename s5 path dp (st_flags st2) of
                              (rc1, s6) \<Rightarrow>
                                (v_r fr, count_copied_item
                                   (if rc1 \<noteq> 0
                                    then logerr dp ''dev-rename-after-create failed'' s6
                                    else s6)))
                      else (1, logerr dp ''dev failed'' s2))
            else (v_r fr, s)) of
        (r1, s7) \<Rightarrow> (r1, count_source_item s7))"

text \<open>\<^verbatim>\<open>DoCopy\<close> itself. The first argument bounds the depth of the recursion; the
  result is \<open>None\<close> when that depth does not suffice and when the behaviour of the program
  is undefined (see the hardlink probe). With a
  \<^verbatim>\<open>NULL\<close> destination a source that is no directory only has its digest refreshed by
  \<^verbatim>\<open>md5_check(spath, NULL)\<close>, which leaves no trace in this state.\<close>

definition block_size :: "stat \<Rightarrow> 64 word" where
  "block_size st =
     (if S_ISREG (st_mode st) then
        of_nat (st_blocks st * 512) +
        (if st_size st mod 512 \<noteq> 0 then of_nat (st_size st mod 512) - 512 else 0)
      else 0)"

definition DoCopy_frame :: "stat \<Rightarrow> stat \<Rightarrow> stat option \<Rightarrow> frame" where
  "DoCopy_frame stack st1 l2 =
     \<lparr>v_st1 = st1,
      v_st2 = the_default (stack\<lparr>st_mode := 0, st_flags := 0\<rparr>) l2,
      v_st2Valid = (l2 \<noteq> None), v_r = 0, v_mres = 0, v_fres = 0,
      v_hln = None, v_size = block_size st1\<rparr>"

text \<open>Lines 718 to 1204: all that follows the hardlink probe, which is also where
  \<^verbatim>\<open>goto relink\<close> and the first instance of a hardlink continue ("must be copied
  normally").\<close>

definition DoCopy_body ::
  "(string \<Rightarrow> string option \<Rightarrow> dev_t \<Rightarrow> dev_t \<Rightarrow> state \<Rightarrow> (int \<times> state) option) \<Rightarrow>
   (string \<Rightarrow> dev_t \<Rightarrow> state \<Rightarrow> state option) \<Rightarrow>
   config \<Rightarrow> string \<Rightarrow> string option \<Rightarrow> dev_t \<Rightarrow> dev_t \<Rightarrow> frame \<Rightarrow> state
    \<Rightarrow> (int \<times> state) option" where
  "DoCopy_body cp rm cfg spath dpath sdevNo ddevNo fr1 s1 =
     (case DoCopy_nochange cfg spath dpath fr1 s1 of
        Inl res \<Rightarrow> Some res
      | Inr (fr2, s2) \<Rightarrow>
          (case DoCopy_conflict rm cfg dpath ddevNo fr2 s2 of
             None \<Rightarrow> None
           | Some (Inl res) \<Rightarrow> Some res
           | Some (Inr s3) \<Rightarrow>
               if S_ISDIR (st_mode (v_st1 fr2)) then
                 DoCopy_dir cp rm cfg spath dpath sdevNo ddevNo fr2 s3
               else
                 (case dpath of
                    None \<Rightarrow> Some (v_r fr2, s3)
                  | Some dp \<Rightarrow>
                      if S_ISREG (st_mode (v_st1 fr2)) then
                        Some (DoCopy_reg cfg spath dp fr2 s3)
                      else if S_ISLNK (st_mode (v_st1 fr2)) then
                        Some (DoCopy_lnk cfg spath dp fr2 s3)
                      else if S_ISCHR (st_mode (v_st1 fr2)) \<or> S_ISBLK (st_mode (v_st1 fr2)) then
                        Some (DoCopy_dev cfg spath dp fr2 s3)
                      else Some (v_r fr2, s3))))"

fun DoCopy ::
  "nat \<Rightarrow> config \<Rightarrow> string \<Rightarrow> string option \<Rightarrow> dev_t \<Rightarrow> dev_t \<Rightarrow> state \<Rightarrow> (int \<times> state) option" where
  "DoCopy 0 cfg spath dpath sdevNo ddevNo s = None"
| "DoCopy (Suc k) cfg spath dpath sdevNo ddevNo s =
     (case hc_lstat s SrcHost spath of
        None \<Rightarrow> Some (0, s)
      | Some st1 \<Rightarrow>
          (case DoCopy_hardlink spath dpath
                  (DoCopy_frame (st2_stack cfg spath) st1
                     (case dpath of None \<Rightarrow> None | Some dp \<Rightarrow> hc_lstat s DstHost dp)) s of
             None \<Rightarrow> None
           | Some (Inl res) \<Rightarrow> Some res
           | Some (Inr (fr1, s1)) \<Rightarrow>
               DoCopy_body (\<lambda>sp dp sd dd s'. DoCopy k cfg sp dp sd dd s')
                 (\<lambda>p d s'. RemoveRecur k cfg p d s')
                 cfg spath dpath sdevNo ddevNo fr1 s1))"

subsection \<open>main\<close>

text \<open>The end of \<^verbatim>\<open>main\<close>, from line 444: the options are parsed and the hosts
  connected. \<^verbatim>\<open>fatal\<close> ends the run with exit code 1; the exit code is otherwise 0 when
  \<^verbatim>\<open>DoCopy\<close> returned 0 and 1 when it did not. The result is the exit code and the
  final state.\<close>

definition main :: "nat \<Rightarrow> config \<Rightarrow> string \<Rightarrow> string option \<Rightarrow> state \<Rightarrow> (int \<times> state) option" where
  "main k cfg src dst s =
     (if dst = None \<and> UseMD5Opt cfg = 0 then Some (1, s)
      else
        (case DoCopy k (case dst of
                          Some d \<Rightarrow> cfg\<lparr>DstBaseLen := length d\<rparr>
                        | None \<Rightarrow> cfg) src dst (-1) (-1) s of
           None \<Rightarrow> None
         | Some (i, s1) \<Rightarrow> Some (if i = 0 then 0 else 1, s1)))"

subsection \<open>Example file systems\<close>

text \<open>Small file systems, options and states on which the properties below are
  instantiated.\<close>

definition ex_dir :: "(string \<times> ino_t) list \<Rightarrow> inode" where
  "ex_dir ents = \<lparr>i_dev = 1, i_mode = 0x41ED, i_nlink = 2, i_uid = 0, i_gid = 0, i_rdev = 0,
     i_mtime = 5, i_flags = 0, i_fsmid = 0, i_body = Dir ents\<rparr>"

definition ex_file :: "nat \<Rightarrow> string \<Rightarrow> inode" where
  "ex_file n c = \<lparr>i_dev = 1, i_mode = 0x81A4, i_nlink = n, i_uid = 0, i_gid = 0, i_rdev = 0,
     i_mtime = 5, i_flags = 0, i_fsmid = 0, i_body = File c\<rparr>"

definition ex_fs :: "(ino_t \<times> inode) list \<Rightarrow> fs" where
  "ex_fs xs = \<lparr>fs_inodes = map_of xs, fs_root = 1, fs_next = 100, fs_cmask = 0,
     fs_link_max = 32767, fs_free = 1000000\<rparr>"

definition ex_cfg :: config where
  "ex_cfg = \<lparr>AskConfirmation = 0, SafetyOpt = 1, ForceOpt = 0, VerboseOpt = 0, QuietOpt = 0,
     NoRemoveOpt = 0, UseMD5Opt = 0, UseFSMIDOpt = 0, DstBaseLen = 0, UseCpFile = None,
     UseHLPath = None, MD5CacheFile = [], FSMIDCacheFile = [],
     md5_check = (\<lambda>sf df sp dp. 0), fsmid_check = (\<lambda>df i dp. 0),
     st2_stack = (\<lambda>p. stat_of 0 (ex_dir []))\<rparr>"

definition ex_state :: "fs \<Rightarrow> fs \<Rightarrow> state" where
  "ex_state sf df = \<lparr>hltable = (\<lambda>n. []), CountSourceBytes = 0, CountSourceItems = 0,
     CountCopiedItems = 0, CountReadBytes = 0, CountWriteBytes = 0, CountRemovedItems = 0,
     src_fs = sf, dst_fs = df, errno = ENOENT, calls = [], errlog = [], stdin = []\<rparr>"

definition ex_src1 :: fs where
  "ex_src1 = ex_fs [(1, ex_dir [(''f'', 2)]), (2, ex_file 1 ''hi'')]"

definition ex_dst1 :: fs where
  "ex_dst1 = ex_fs [(1, ex_dir [(''d'', 2)]), (2, ex_dir [])]"

definition ex_run1 :: state where
  "ex_run1 = ex_state ex_src1 ex_dst1"

definition final_state :: "state \<Rightarrow> (int \<times> state) option \<Rightarrow> state" where
  "final_state s x = (case x of Some (r, s') \<Rightarrow> s' | None \<Rightarrow> s)"

definition ex_src3 :: fs where
  "ex_src3 = ex_fs [(1, ex_dir [(''a'', 3), (''b'', 3)]), (3, ex_file 2 ''hello'')]"

definition ex_dst3 :: fs where
  "ex_dst3 = ex_fs [(1, ex_dir [(''a'', 7)]), (7, ex_file 1 ''hello'')]"

definition ex_dst_empty :: fs where
  "ex_dst_empty = ex_fs [(1, ex_dir [])]"

definition ex_entry :: "ino_t \<Rightarrow> string \<Rightarrow> hlink" where
  "ex_entry d p = \<lparr>hl_ino = 3, hl_dino = d, hl_nlinked = 1, hl_name = p\<rparr>"

definition ex_table :: "ino_t \<Rightarrow> string \<Rightarrow> nat \<Rightarrow> hlink list" where
  "ex_table d p = (\<lambda>n. [])(3 := [ex_entry d p])"

text \<open>First sighting of \<open>a\<close>, whose copy is in place.\<close>

definition ex_run3 :: state where
  "ex_run3 = ex_state ex_src3 ex_dst3"

definition ex_schg :: "nat \<Rightarrow> string \<Rightarrow> inode" where
  "ex_schg n c = (ex_file n c)\<lparr>i_flags := 1\<rparr>"

definition ex_src4 :: fs where
  "ex_src4 = ex_fs [(1, ex_dir [(''a'', 3), (''b'', 3), (''c'', 3)]), (3, ex_schg 3 ''hello'')]"

definition ex_dst4 :: fs where
  "ex_dst4 = ex_fs [(1, ex_dir [(''a'', 9), (''b'', 7)]), (9, ex_schg 1 ''hello''),
     (7, ex_schg 1 ''hello'')]"

text \<open>Second sighting of an immutable file: \<open>b\<close> at the destination is a copy of its
  own, immutable as well.\<close>

definition ex_run4 :: state where
  "ex_run4 = (ex_state ex_src4 ex_dst4)\<lparr>hltable := ex_table 9 ''a''\<rparr>"

definition ex_dst6 :: fs where
  "ex_dst6 = (ex_fs [(1, ex_dir [(''a'', 7)]), (7, ex_file 1 ''hello'')])\<lparr>fs_link_max := 1\<rparr>"

text \<open>Second sighting on a file system that allows one link per file.\<close>

definition ex_run6e :: state where
  "ex_run6e = (ex_state ex_src3 ex_dst6)\<lparr>hltable := ex_table 7 ''a''\<rparr>"

definition ex_run6e_1 :: state where
  "ex_run6e_1 = ex_run6e\<lparr>hltable := hlt_update (hltable ex_run6e)
      (st_ino (stat_of 3 (ex_file 2 ''hello''))) (\<lambda>h. h\<lparr>hl_nlinked := hl_nlinked h + 1\<rparr>)\<rparr>"

text \<open>The second sighting of \<open>b\<close> when the destination has both names on one inode
  already.\<close>

definition ex_dst9 :: fs where
  "ex_dst9 = ex_fs [(1, ex_dir [(''a'', 7), (''b'', 7)]), (7, ex_file 2 ''hello'')]"

definition ex_run9 :: state where
  "ex_run9 = (ex_state ex_src3 ex_dst9)\<lparr>hltable := ex_table 7 ''a''\<rparr>"

text \<open>The second sighting of \<open>b\<close> when \<open>b\<close> is an empty directory at the destination.\<close>

definition ex_dst7 :: fs where
  "ex_dst7 = ex_fs [(1, ex_dir [(''a'', 7), (''b'', 8)]), (7, ex_file 1 ''hello''),
     (8, ex_dir [])]"

definition ex_run7 :: state where
  "ex_run7 = (ex_state ex_src3 ex_dst7)\<lparr>hltable := ex_table 7 ''a''\<rparr>"

text \<open>The names \<open>a\<close> and \<open>b\<close> of one source file, where the destination has a directory
  \<open>a\<close> and an up-to-date copy \<open>b\<close>; \<open>ex_run8_1\<close> is the state after \<open>a\<close>.\<close>

definition ex_dst8 :: fs where
  "ex_dst8 = ex_fs [(1, ex_dir [(''a'', 8), (''b'', 7)]), (8, ex_dir []),
     (7, ex_file 1 ''hello'')]"

definition ex_run8 :: state where
  "ex_run8 = ex_state ex_src3 ex_dst8"

definition ex_run8_1 :: state where
  "ex_run8_1 = ex_run8\<lparr>hltable := ex_table 0 ''a'',
     errlog := [(''a'', ''SAFETY - refusing to copy file over directory'')]\<rparr>"



definition ex_src11 :: fs where
  "ex_src11 = ex_fs [(1, ex_dir [(''d'', 2)]), (2, ex_dir [(''f'', 3), (''e'', 4)]),
     (3, ex_file 1 ''hi''), (4, ex_dir [(''g'', 5)]), (5, ex_file 1 ''yo'')]"

definition ex_run11 :: state where
  "ex_run11 = ex_state ex_src11 ex_dst1"

subsection \<open>Notions used in the properties\<close>

text \<open>\<open>same_but_dst\<close> relates two states that differ at most in the destination file
  system, \<^verbatim>\<open>errno\<close> and the list of calls; \<open>keeps\<close> relates two states with the same
  hardlink table and source file system where the error log has only grown;
  \<open>keeps_but key\<close> allows in addition that the table entry of \<open>key\<close> was deleted or
  got its destination inode. \<open>hlt_ok\<close> says that no chain of the table holds two
  entries of one inode number.\<close>

definition same_but_dst :: "state \<Rightarrow> state \<Rightarrow> bool" where
  "same_but_dst s s' \<longleftrightarrow>
     hltable s' = hltable s \<and> CountSourceBytes s' = CountSourceBytes s \<and>
     CountSourceItems s' = CountSourceItems s \<and> CountCopiedItems s' = CountCopiedItems s \<and>
     CountReadBytes s' = CountReadBytes s \<and> CountWriteBytes s' = CountWriteBytes s \<and>
     CountRemovedItems s' = CountRemovedItems s \<and> errlog s' = errlog s \<and>
     stdin s' = stdin s \<and> src_fs s' = src_fs s"

definition hlt_ok :: "(nat \<Rightarrow> hlink list) \<Rightarrow> bool" where
  "hlt_ok tbl \<longleftrightarrow> (\<forall>n. distinct (map hl_ino (tbl n)))"

definition keeps :: "state \<Rightarrow> state \<Rightarrow> bool" where
  "keeps s s' \<longleftrightarrow>
     hltable s' = hltable s \<and> src_fs s' = src_fs s \<and> prefix (errlog s) (errlog s')"

definition keeps_but :: "ino_t \<Rightarrow> state \<Rightarrow> state \<Rightarrow> bool" where
  "keeps_but key s s' \<longleftrightarrow>
     src_fs s' = src_fs s \<and> prefix (errlog s) (errlog s') \<and>
     (hltable s' = hltable s \<or> hltable s' = hltdelete (hltable s) key \<or>
      (\<exists>d. hltable s' = hlt_update (hltable s) key (\<lambda>h. h\<lparr>hl_dino := d\<rparr>)))"


text \<open>
  \<open>src_tree n f p\<close>: below the path \<open>p\<close> of the file system \<open>f\<close> there are fewer than \<open>n\<close>
  levels of directories, so that a recursion of depth \<open>n\<close> gets to the end of every
  branch. \<open>quiet s s'\<close>: no call was issued between the states \<open>s\<close> and \<open>s'\<close>, and the
  file systems and the hardlink table are the same.
\<close>

fun src_tree :: "nat \<Rightarrow> fs \<Rightarrow> string \<Rightarrow> bool" where
  "src_tree 0 f p = False"
| "src_tree (Suc n) f p =
     (case fs_lstat f p of
        Inl e \<Rightarrow> True
      | Inr st \<Rightarrow>
          \<not> S_ISDIR (st_mode st) \<or>
          (case fs_opendir f p of
             Inl e \<Rightarrow> True
           | Inr dens \<Rightarrow>
               (\<forall>d \<in> set dens. d = ''.'' \<or> d = ''..'' \<or> src_tree n f (p @ ''/'' @ d))))"

definition quiet :: "state \<Rightarrow> state \<Rightarrow> bool" where
  "quiet s s' \<longleftrightarrow>
     calls s' = calls s \<and> dst_fs s' = dst_fs s \<and> src_fs s' = src_fs s \<and>
     hltable s' = hltable s"

section \<open>Properties\<close>

subsection \<open>WildCmp decides the language of its pattern\<close>

inductive_simps wild_lang_Nil: "wild_lang [] s"
inductive_simps wild_lang_Cons: "wild_lang (c # w) s"

lemma wild_lang_star:
  "wild_lang (CHR ''*'' # w) s \<longleftrightarrow> (\<exists>j\<le>length s. wild_lang w (drop j s))"
proof
  assume "wild_lang (CHR ''*'' # w) s"
  then obtain u t where "s = u @ t" "wild_lang w t"
    by (auto simp: wild_lang_Cons)
  then have "length u \<le> length s \<and> wild_lang w (drop (length u) s)" by simp
  then show "\<exists>j\<le>length s. wild_lang w (drop j s)" by blast
next
  assume "\<exists>j\<le>length s. wild_lang w (drop j s)"
  then obtain j where "wild_lang w (drop j s)" by blast
  then have "wild_lang (CHR ''*'' # w) (take j s @ drop j s)" by (rule wl_star)
  then show "wild_lang (CHR ''*'' # w) s" by simp
qed

lemma wild_lang_star_Nil: "wild_lang [CHR ''*''] s"
  using wl_star [OF wl_end, of s] by simp

lemma WildCmp_correct_both:
  "(WildCmp w s = 0) = wild_lang w s"
  "(WildCmp_star w1 s i = 0) = (\<exists>j. i \<le> j \<and> j \<le> length s \<and> wild_lang w1 (drop j s))"
proof (induction w s and w1 s i rule: WildCmp_WildCmp_star.induct)
  case (1 w s)
  show ?case
  proof (cases w)
    case Nil
    then show ?thesis by (simp add: wild_lang_Nil)
  next
    case (Cons c w1)
    show ?thesis
    proof (cases "c = CHR ''*''")
      case True
      show ?thesis
      proof (cases "w1 = []")
        case True
        with \<open>c = CHR ''*''\<close> Cons show ?thesis by (simp add: wild_lang_star_Nil)
      next
        case False
        with \<open>c = CHR ''*''\<close> Cons "1.IH"(1) show ?thesis
          by (simp add: wild_lang_star)
      qed
    next
      case False
      note nstar = this
      show ?thesis
      proof (cases "c = CHR ''?''")
        case True
        with Cons "1.IH"(2) show ?thesis
          by (cases s) (auto simp: wild_lang_Cons)
      next
        case False
        with nstar Cons "1.IH"(3) show ?thesis
          by (cases s) (auto simp: wild_lang_Cons)
      qed
    qed
  qed
next
  case (2 w1 s i)
  show ?case
  proof (cases "i \<le> length s")
    case False
    then show ?thesis by auto
  next
    case True
    show ?thesis
    proof (cases "WildCmp w1 (drop i s) = 0")
      case True
      with \<open>i \<le> length s\<close> "2.IH"(1) show ?thesis by auto
    next
      case False
      with \<open>i \<le> length s\<close> "2.IH"(1) have nw: "\<not> wild_lang w1 (drop i s)" by simp
      have "(WildCmp_star w1 s i = 0) = (WildCmp_star w1 s (Suc i) = 0)"
        using True False by simp
      also have "\<dots> = (\<exists>j. Suc i \<le> j \<and> j \<le> length s \<and> wild_lang w1 (drop j s))"
        using "2.IH"(2) True False by simp
      also have "\<dots> = (\<exists>j. i \<le> j \<and> j \<le> length s \<and> wild_lang w1 (drop j s))"
        using nw by (metis Suc_leD Suc_leI le_neq_implies_less)
      finally show ?thesis .
    qed
  qed
qed

lemma WildCmp_range_both:
  "WildCmp w s = 0 \<or> WildCmp w s = -1"
  "WildCmp_star w1 s i = 0 \<or> WildCmp_star w1 s i = -1"
  by (induction w s and w1 s i rule: WildCmp_WildCmp_star.induct)
     (auto split: list.splits if_splits)

text \<open>
  Claim C7. For every pattern \<open>w\<close> and every subject \<open>s\<close>, \<^verbatim>\<open>WildCmp(w, s)\<close> returns 0
  exactly when \<open>s\<close> is in the language of \<open>w\<close>, where \<^verbatim>\<open>?\<close> matches exactly one
  character, \<^verbatim>\<open>*\<close> any possibly empty run, every other character only itself, and both
  strings are exhausted together.
\<close>

theorem WildCmp_correct: "WildCmp w s = 0 \<longleftrightarrow> wild_lang w s"
  by (rule WildCmp_correct_both(1))

theorem WildCmp_correct_witness:
  "WildCmp ''*.o'' ''foo.o'' = 0 \<and> wild_lang ''*.o'' ''foo.o'' \<and>
   WildCmp ''a?c'' ''abd'' = - 1 \<and> \<not> wild_lang ''a?c'' ''abd''"
  using WildCmp_correct [of "''*.o''" "''foo.o''"] WildCmp_correct [of "''a?c''" "''abd''"]
  by simp

text \<open>
  Claim C9. \<^verbatim>\<open>WildCmp\<close> terminates on every pair of strings: every pair is in the
  domain of the recursion, whose calls for \<^verbatim>\<open>*\<close> are on the rest of the pattern behind
  the \<^verbatim>\<open>*\<close> (the order \<open>WildCmp_order\<close> decreases along every call), and the
  result is 0 or -1.
\<close>

theorem WildCmp_terminates:
  "WildCmp_WildCmp_star_dom (Inl (w, s)) \<and> (WildCmp w s = 0 \<or> WildCmp w s = - 1)"
proof -
  have "All WildCmp_WildCmp_star_dom"
    by (relation WildCmp_order) (auto simp: WildCmp_order_def)
  then show ?thesis using WildCmp_range_both(1) by blast
qed

theorem WildCmp_terminates_witness:
  "WildCmp_WildCmp_star_dom (Inl (''a*b'', ''axxb'')) \<and> WildCmp ''a*b'' ''axxb'' = 0"
  using WildCmp_terminates [of "''a*b''" "''axxb''"] by simp

subsection \<open>Evaluation on the examples\<close>

lemmas fs_eval = hc_lstat_def hc_stat_def hc_opendir_def hc_readlink_def hc_open_rdonly_def hc_read_def
  opt_of_def host_fs_def set_host_fs_def fs_lstat_def fs_stat_def namei_def namei_parent_def split_path_def
  fs_opendir_def fs_readlink_def fs_open_rdonly_def fs_read_def fs_write_def fs_create_def
  fs_open_excl_def fs_mkdir_def fs_rmdir_def fs_unlink_def fs_remove_def fs_link_def fs_symlink_def
  fs_rename_def fs_move_def fs_setattr_def fs_chmod_def fs_chown_def fs_utimes_def fs_chflags_def
  fs_umask_def fs_mknod_def fs_read_file_def dir_ents_def set_dir_ents_def immutable_def update_inode_def
  drop_link_def new_inode_def remove_ent_def is_dir_def stat_of_def body_size_def
  hc_call_def hc_remove_def hc_rmdir_def hc_mkdir_def hc_rename_def hc_link_def hc_symlink_def
  hc_chmod_def hc_chown_def hc_lchown_def hc_chflags_def hc_utimes_def hc_umask_def mknod_def
  hc_open_excl_def hc_write_def logerr_def
  S_ISDIR_def S_ISREG_def S_ISLNK_def S_ISCHR_def S_ISBLK_def S_IFMT_def S_IFDIR_def S_IFREG_def
  S_IFLNK_def S_IFCHR_def S_IFBLK_def

lemmas cp_eval = DoCopy_hardlink_def DoCopy_frame_def DoCopy_body_def DoCopy_nochange_def
  DoCopy_conflict_def DoCopy_reg_def DoCopy_copyfile_def DoCopy_lnk_def DoCopy_dev_def DoCopy_dir_def
  DoCopy_mkdir_def DoCopy_ignore_def DoCopy_dirattr_def the_default_def block_size_def
  count_source_item_def count_copied_item_def count_removed_def xrename_def xlink_def
  hltlookup_def hltadd_def hltdelete_def hlt_update_def hlt_slot_def HLMASK_def
  RemoveRecur_rmdir_def RemoveRecur_remove_def YesNo_def main_def Let_def

lemmas ex_eval = ex_dir_def ex_file_def ex_fs_def ex_cfg_def ex_state_def ex_src1_def ex_dst1_def

subsection \<open>The safety refusal\<close>

lemma DoCopy_safety:
  assumes src: "hc_lstat s SrcHost spath = Some st1"
      and dst: "hc_lstat s DstHost dp = Some st2"
      and nd1: "\<not> S_ISDIR (st_mode st1)"
      and d2: "S_ISDIR (st_mode st2)"
      and safe: "SafetyOpt cfg \<noteq> 0"
      and nohl: "\<not> (S_ISREG (st_mode st1) \<and> 1 < st_nlink st1 \<and> hltlookup (hltable s) st1 \<noteq> None)"
  shows "DoCopy (Suc k) cfg spath (Some dp) sdevNo ddevNo s =
           Some (0, logerr dp ''SAFETY - refusing to copy file over directory''
                  (if S_ISREG (st_mode st1) \<and> 1 < st_nlink st1
                   then s\<lparr>hltable := hltadd (hltable s) st1 dp\<rparr> else s))"
proof -
  from nd1 d2 have ne: "st_mode st1 \<noteq> st_mode st2" by auto
  note defs = DoCopy_hardlink_def DoCopy_frame_def DoCopy_body_def DoCopy_nochange_def
          DoCopy_conflict_def the_default_def
  consider (a) "\<not> S_ISREG (st_mode st1)"
    | (b) "S_ISREG (st_mode st1)" "\<not> 1 < st_nlink st1"
    | (c) "S_ISREG (st_mode st1)" "1 < st_nlink st1" by blast
  then show ?thesis
  proof cases
    case a
    with src dst ne nd1 d2 safe show ?thesis by (simp add: defs)
  next
    case b
    with src dst ne nd1 d2 safe show ?thesis by (simp add: defs)
  next
    case c
    with nohl have "hltlookup (hltable s) st1 = None" by simp
    with c src dst ne nd1 d2 safe show ?thesis by (simp add: defs hc_lstat_def host_fs_def)
  qed
qed

lemma main_DoCopy:
  "DoCopy k (cfg\<lparr>DstBaseLen := length dp\<rparr>) src (Some dp) (-1) (-1) s = Some (i, s1) \<Longrightarrow>
   main k cfg src (Some dp) s = Some (if i = 0 then 0 else 1, s1)"
  by (simp add: main_def)

text \<open>
  When the safety check of line 777 is reached (the source is not a further member of
  a hardlink group that the table knows), the refusal changes nothing at the
  destination and issues no call, and it is logged; but the value returned is 0, and
  so is the exit code.
\<close>

lemma DoCopy_safety_frame:
  assumes src: "hc_lstat s SrcHost spath = Some st1"
      and dst: "hc_lstat s DstHost dp = Some st2"
      and nd1: "\<not> S_ISDIR (st_mode st1)"
      and d2: "S_ISDIR (st_mode st2)"
      and safe: "SafetyOpt cfg \<noteq> 0"
      and nohl: "\<not> (S_ISREG (st_mode st1) \<and> 1 < st_nlink st1 \<and> hltlookup (hltable s) st1 \<noteq> None)"
  shows "\<exists>s'. DoCopy (Suc k) cfg spath (Some dp) sdevNo ddevNo s = Some (0, s') \<and>
           main (Suc k) cfg spath (Some dp) s = Some (0, s') \<and>
           dst_fs s' = dst_fs s \<and> calls s' = calls s \<and>
           errlog s' = errlog s @ [(dp, ''SAFETY - refusing to copy file over directory'')]"
proof -
  from safe have safe': "SafetyOpt (cfg\<lparr>DstBaseLen := length dp\<rparr>) \<noteq> 0" by simp
  show ?thesis
    using DoCopy_safety [OF src dst nd1 d2 safe nohl, of k sdevNo ddevNo]
      main_DoCopy [OF DoCopy_safety [OF src dst nd1 d2 safe' nohl, of k "-1" "-1"]]
    by (simp add: logerr_def)
qed

lemma ex_run1_src: "hc_lstat ex_run1 SrcHost ''f'' = Some (stat_of 2 (ex_file 1 ''hi''))"
  by (simp add: fs_eval ex_eval ex_run1_def)

lemma ex_run1_dst: "hc_lstat ex_run1 DstHost ''d'' = Some (stat_of 2 (ex_dir []))"
  by (simp add: fs_eval ex_eval ex_run1_def)

lemma ex_run1_modes:
  "\<not> S_ISDIR (st_mode (stat_of 2 (ex_file 1 ''hi''))) \<and> S_ISDIR (st_mode (stat_of 2 (ex_dir [])))
   \<and> SafetyOpt ex_cfg \<noteq> 0 \<and> st_nlink (stat_of 2 (ex_file 1 ''hi'')) = 1"
  by (simp add: fs_eval ex_eval)

text \<open>
  Claim C1 on the code: the regular file \<open>f\<close> is to be copied over the directory \<open>d\<close>
  with the safety flag set. The refusal is logged and the state is otherwise left as
  it was, but \<^verbatim>\<open>++r\<close> at line 781 is followed by \<^verbatim>\<open>return(0)\<close> at line 782: the failure
  count that \<^verbatim>\<open>DoCopy\<close> returns is 0 and the run exits with code 0, where the claim has
  the refusal recorded in the count returned and the exit code 1.
\<close>

theorem safety_refusal_not_counted:
  "map_option st_mode (hc_lstat ex_run1 SrcHost ''f'') = Some 0x81A4 \<and>
   map_option st_mode (hc_lstat ex_run1 DstHost ''d'') = Some 0x41ED \<and>
   SafetyOpt ex_cfg = 1 \<and>
   DoCopy (Suc 0) ex_cfg ''f'' (Some ''d'') (-1) (-1) ex_run1 =
     Some (0, ex_run1\<lparr>errlog := [(''d'', ''SAFETY - refusing to copy file over directory'')]\<rparr>) \<and>
   main (Suc 0) ex_cfg ''f'' (Some ''d'') ex_run1 =
     Some (0, ex_run1\<lparr>errlog := [(''d'', ''SAFETY - refusing to copy file over directory'')]\<rparr>)"
proof -
  have m: "SafetyOpt (ex_cfg\<lparr>DstBaseLen := length ''d''\<rparr>) \<noteq> 0" "SafetyOpt ex_cfg = 1"
    by (simp_all add: ex_cfg_def)
  have n: "\<not> (S_ISREG (st_mode (stat_of 2 (ex_file 1 ''hi''))) \<and>
      1 < st_nlink (stat_of 2 (ex_file 1 ''hi'')) \<and>
      hltlookup (hltable ex_run1) (stat_of 2 (ex_file 1 ''hi'')) \<noteq> None)"
    using ex_run1_modes by simp
  have l: "logerr ''d'' ''SAFETY - refusing to copy file over directory'' ex_run1 =
      ex_run1\<lparr>errlog := [(''d'', ''SAFETY - refusing to copy file over directory'')]\<rparr>"
    by (simp add: logerr_def ex_run1_def ex_state_def)
  have a: "DoCopy (Suc 0) ex_cfg ''f'' (Some ''d'') (-1) (-1) ex_run1 =
      Some (0, ex_run1\<lparr>errlog := [(''d'', ''SAFETY - refusing to copy file over directory'')]\<rparr>)"
    using DoCopy_safety [OF ex_run1_src ex_run1_dst _ _ _ n, of ex_cfg 0 "-1" "-1"] ex_run1_modes l
    by simp
  have b: "main (Suc 0) ex_cfg ''f'' (Some ''d'') ex_run1 =
      Some (0, ex_run1\<lparr>errlog := [(''d'', ''SAFETY - refusing to copy file over directory'')]\<rparr>)"
    using main_DoCopy [OF DoCopy_safety [OF ex_run1_src ex_run1_dst _ _ m(1) n, of 0 "-1" "-1"]]
      ex_run1_modes l by simp
  have c: "map_option st_mode (hc_lstat ex_run1 SrcHost ''f'') = Some 0x81A4"
    "map_option st_mode (hc_lstat ex_run1 DstHost ''d'') = Some 0x41ED"
    by (simp_all add: ex_run1_src ex_run1_dst stat_of_def ex_file_def ex_dir_def)
  from a b c m(2) show ?thesis by simp
qed

subsection \<open>What the host calls leave alone\<close>

lemma hc_call_frame [simp]:
  "hltable (snd (hc_call h c op s)) = hltable s"
  "CountSourceBytes (snd (hc_call h c op s)) = CountSourceBytes s"
  "CountSourceItems (snd (hc_call h c op s)) = CountSourceItems s"
  "CountCopiedItems (snd (hc_call h c op s)) = CountCopiedItems s"
  "CountReadBytes (snd (hc_call h c op s)) = CountReadBytes s"
  "CountWriteBytes (snd (hc_call h c op s)) = CountWriteBytes s"
  "CountRemovedItems (snd (hc_call h c op s)) = CountRemovedItems s"
  "errlog (snd (hc_call h c op s)) = errlog s"
  "stdin (snd (hc_call h c op s)) = stdin s"
  "calls (snd (hc_call h c op s)) = (h, c) # calls s"
  "src_fs (snd (hc_call DstHost c op s)) = src_fs s"
  by (simp_all add: hc_call_def Let_def set_host_fs_def split: sum.splits host.splits)

lemma hc_open_excl_frame [simp]:
  "hltable (snd (hc_open_excl s h p m)) = hltable s"
  "CountSourceBytes (snd (hc_open_excl s h p m)) = CountSourceBytes s"
  "CountSourceItems (snd (hc_open_excl s h p m)) = CountSourceItems s"
  "CountCopiedItems (snd (hc_open_excl s h p m)) = CountCopiedItems s"
  "CountReadBytes (snd (hc_open_excl s h p m)) = CountReadBytes s"
  "CountWriteBytes (snd (hc_open_excl s h p m)) = CountWriteBytes s"
  "CountRemovedItems (snd (hc_open_excl s h p m)) = CountRemovedItems s"
  "errlog (snd (hc_open_excl s h p m)) = errlog s"
  "stdin (snd (hc_open_excl s h p m)) = stdin s"
  "calls (snd (hc_open_excl s h p m)) = (h, C_open_excl p m) # calls s"
  "src_fs (snd (hc_open_excl s DstHost p m)) = src_fs s"
  by (simp_all add: hc_open_excl_def Let_def set_host_fs_def split: sum.splits host.splits prod.splits)

lemma hc_write_frame [simp]:
  "hltable (snd (hc_write s h fd buf)) = hltable s"
  "CountSourceBytes (snd (hc_write s h fd buf)) = CountSourceBytes s"
  "CountSourceItems (snd (hc_write s h fd buf)) = CountSourceItems s"
  "CountCopiedItems (snd (hc_write s h fd buf)) = CountCopiedItems s"
  "CountReadBytes (snd (hc_write s h fd buf)) = CountReadBytes s"
  "CountWriteBytes (snd (hc_write s h fd buf)) = CountWriteBytes s"
  "CountRemovedItems (snd (hc_write s h fd buf)) = CountRemovedItems s"
  "errlog (snd (hc_write s h fd buf)) = errlog s"
  "stdin (snd (hc_write s h fd buf)) = stdin s"
  "calls (snd (hc_write s h fd buf)) = (h, C_write fd buf) # calls s"
  "src_fs (snd (hc_write s DstHost fd buf)) = src_fs s"
  by (simp_all add: hc_write_def Let_def set_host_fs_def split: sum.splits host.splits prod.splits)

lemmas hc_defs = hc_remove_def hc_rmdir_def hc_mkdir_def hc_rename_def hc_link_def hc_symlink_def
  hc_chmod_def hc_chown_def hc_lchown_def hc_chflags_def hc_utimes_def hc_umask_def mknod_def

lemma logerr_frame [simp]:
  "hltable (logerr p m s) = hltable s"
  "CountSourceBytes (logerr p m s) = CountSourceBytes s"
  "CountSourceItems (logerr p m s) = CountSourceItems s"
  "CountCopiedItems (logerr p m s) = CountCopiedItems s"
  "CountReadBytes (logerr p m s) = CountReadBytes s"
  "CountWriteBytes (logerr p m s) = CountWriteBytes s"
  "CountRemovedItems (logerr p m s) = CountRemovedItems s"
  "errlog (logerr p m s) = errlog s @ [(p, m)]"
  "stdin (logerr p m s) = stdin s"
  "calls (logerr p m s) = calls s"
  "src_fs (logerr p m s) = src_fs s"
  "dst_fs (logerr p m s) = dst_fs s"
  "errno (logerr p m s) = errno s"
  by (simp_all add: logerr_def)

lemma xlink_frame [simp]:
  "hltable (snd (xlink s a b fl)) = hltable s"
  "CountSourceBytes (snd (xlink s a b fl)) = CountSourceBytes s"
  "CountSourceItems (snd (xlink s a b fl)) = CountSourceItems s"
  "CountCopiedItems (snd (xlink s a b fl)) = CountCopiedItems s"
  "CountReadBytes (snd (xlink s a b fl)) = CountReadBytes s"
  "CountWriteBytes (snd (xlink s a b fl)) = CountWriteBytes s"
  "CountRemovedItems (snd (xlink s a b fl)) = CountRemovedItems s"
  "errlog (snd (xlink s a b fl)) = errlog s"
  "stdin (snd (xlink s a b fl)) = stdin s"
  "src_fs (snd (xlink s a b fl)) = src_fs s"
  by (simp_all add: xlink_def hc_defs Let_def split_beta)

lemma xrename_frame [simp]:
  "hltable (snd (xrename s a b fl)) = hltable s"
  "CountSourceBytes (snd (xrename s a b fl)) = CountSourceBytes s"
  "CountSourceItems (snd (xrename s a b fl)) = CountSourceItems s"
  "CountCopiedItems (snd (xrename s a b fl)) = CountCopiedItems s"
  "CountReadBytes (snd (xrename s a b fl)) = CountReadBytes s"
  "CountWriteBytes (snd (xrename s a b fl)) = CountWriteBytes s"
  "CountRemovedItems (snd (xrename s a b fl)) = CountRemovedItems s"
  "errlog (snd (xrename s a b fl)) = errlog s"
  "stdin (snd (xrename s a b fl)) = stdin s"
  "src_fs (snd (xrename s a b fl)) = src_fs s"
  by (simp_all add: xrename_def hc_defs Let_def split_beta)

lemma same_but_dst_refl [simp]: "same_but_dst s s"
  by (simp add: same_but_dst_def)

lemma same_but_dst_trans: "same_but_dst s s1 \<Longrightarrow> same_but_dst s1 s2 \<Longrightarrow> same_but_dst s s2"
  by (simp add: same_but_dst_def)

lemma same_but_dst_write [simp]: "same_but_dst s (snd (hc_write s DstHost fd buf))"
  by (simp add: same_but_dst_def)

lemma DoCopy_rw_same: "same_but_dst s (snd (DoCopy_rw s fd1 fd2 off))"
proof (induction s fd1 fd2 off rule: DoCopy_rw.induct)
  case (1 s fd1 fd2 off)
  show ?case
  proof (cases "hc_read s SrcHost fd1 off 65536")
    case None
    then show ?thesis by (subst DoCopy_rw.simps) simp
  next
    case (Some buf)
    show ?thesis
    proof (cases "buf = []")
      case True
      with Some show ?thesis by (subst DoCopy_rw.simps) simp
    next
      case False
      obtain w s1 where w: "hc_write s DstHost fd2 buf = (w, s1)" by force
      have s1: "same_but_dst s s1"
        using same_but_dst_write [of s fd2 buf] w by simp
      show ?thesis
      proof (cases "w \<noteq> int (length buf)")
        case True
        with Some False w s1 show ?thesis
          by (subst DoCopy_rw.simps) simp
      next
        case F: False
        have ih: "same_but_dst s1 (snd (DoCopy_rw s1 fd1 fd2 (off + length buf)))"
          using "1.IH" [OF Some False w [symmetric]] F by simp
        have eq: "DoCopy_rw s fd1 fd2 off = DoCopy_rw s1 fd1 fd2 (off + length buf)"
          using Some False w F by (subst DoCopy_rw.simps) simp
        show ?thesis unfolding eq using s1 ih by (rule same_but_dst_trans)
      qed
    qed
  qed
qed

lemma DoCopy_rw_frame [simp]:
  "hltable (snd (DoCopy_rw s fd1 fd2 off)) = hltable s"
  "CountSourceBytes (snd (DoCopy_rw s fd1 fd2 off)) = CountSourceBytes s"
  "CountSourceItems (snd (DoCopy_rw s fd1 fd2 off)) = CountSourceItems s"
  "CountCopiedItems (snd (DoCopy_rw s fd1 fd2 off)) = CountCopiedItems s"
  "CountReadBytes (snd (DoCopy_rw s fd1 fd2 off)) = CountReadBytes s"
  "CountWriteBytes (snd (DoCopy_rw s fd1 fd2 off)) = CountWriteBytes s"
  "CountRemovedItems (snd (DoCopy_rw s fd1 fd2 off)) = CountRemovedItems s"
  "errlog (snd (DoCopy_rw s fd1 fd2 off)) = errlog s"
  "stdin (snd (DoCopy_rw s fd1 fd2 off)) = stdin s"
  "src_fs (snd (DoCopy_rw s fd1 fd2 off)) = src_fs s"
  using DoCopy_rw_same [of s fd1 fd2 off] by (simp_all add: same_but_dst_def)

subsection \<open>The hardlink table as a map\<close>

lemma find_chain_update:
  "(\<And>h. hl_ino (g h) = hl_ino h) \<Longrightarrow>
   find (\<lambda>hl. hl_ino hl = i) (chain_update j g c) =
     (if i = j then map_option g (find (\<lambda>hl. hl_ino hl = i) c)
      else find (\<lambda>hl. hl_ino hl = i) c)"
  by (induction c) auto

lemma find_chain_delete_other:
  "i \<noteq> j \<Longrightarrow> find (\<lambda>hl. hl_ino hl = i) (chain_delete j c) = find (\<lambda>hl. hl_ino hl = i) c"
  by (induction c) auto

lemma set_chain_delete: "set (chain_delete j c) \<subseteq> set c"
  by (induction c) auto

lemma find_chain_delete_same:
  "distinct (map hl_ino c) \<Longrightarrow> find (\<lambda>hl. hl_ino hl = j) (chain_delete j c) = None"
proof (induction c)
  case Nil
  then show ?case by simp
next
  case (Cons a c)
  show ?case
  proof (cases "hl_ino a = j")
    case True
    from Cons.prems have "hl_ino a \<notin> hl_ino ` set c" by simp
    then have "hl_ino x \<noteq> j" if "x \<in> set c" for x
      using that True by (metis imageI)
    with True show ?thesis by (simp add: find_None_iff)
  next
    case False
    with Cons show ?thesis by simp
  qed
qed

lemma distinct_chain_update:
  "(\<And>h. hl_ino (g h) = hl_ino h) \<Longrightarrow> map hl_ino (chain_update j g c) = map hl_ino c"
  by (induction c) auto

lemma distinct_chain_delete:
  "distinct (map hl_ino c) \<Longrightarrow> distinct (map hl_ino (chain_delete j c))"
proof (induction c)
  case Nil
  then show ?case by simp
next
  case (Cons a c)
  then show ?case using set_chain_delete [of j c] by auto
qed

lemma hltlookup_update:
  "(\<And>h. hl_ino (g h) = hl_ino h) \<Longrightarrow>
   hltlookup (hlt_update tbl j g) st =
     (if st_ino st = j then map_option g (hltlookup tbl st) else hltlookup tbl st)"
  by (simp add: hltlookup_def hlt_update_def find_chain_update)

lemma hltlookup_delete:
  "hlt_ok tbl \<Longrightarrow>
   hltlookup (hltdelete tbl j) st = (if st_ino st = j then None else hltlookup tbl st)"
  by (simp add: hltlookup_def hltdelete_def hlt_ok_def find_chain_delete_same
      find_chain_delete_other)

lemma hltlookup_add:
  "hltlookup (hltadd tbl st0 p) st =
     (if st_ino st = st_ino st0
      then Some \<lparr>hl_ino = st_ino st0, hl_dino = 0, hl_nlinked = 1, hl_name = p\<rparr>
      else hltlookup tbl st)"
  by (simp add: hltlookup_def hltadd_def Let_def)

lemma hlt_ok_update:
  "(\<And>h. hl_ino (g h) = hl_ino h) \<Longrightarrow> hlt_ok tbl \<Longrightarrow> hlt_ok (hlt_update tbl j g)"
  by (simp add: hlt_ok_def hlt_update_def distinct_chain_update)

lemma hlt_ok_delete: "hlt_ok tbl \<Longrightarrow> hlt_ok (hltdelete tbl j)"
  by (simp add: hlt_ok_def hltdelete_def distinct_chain_delete)

lemma hlt_ok_add:
  "hlt_ok tbl \<Longrightarrow> hltlookup tbl st0 = None \<Longrightarrow> hlt_ok (hltadd tbl st0 p)"
  by (auto simp: hlt_ok_def hltadd_def hltlookup_def Let_def find_None_iff)

lemma hlt_ok_empty: "hlt_ok (\<lambda>n. [])"
  by (simp add: hlt_ok_def)

subsection \<open>What the parts of DoCopy leave alone\<close>

lemma count_frame [simp]:
  "hltable (count_source_item s) = hltable s"
  "hltable (count_copied_item s) = hltable s"
  "hltable (count_removed s) = hltable s"
  "dst_fs (count_source_item s) = dst_fs s"
  "dst_fs (count_copied_item s) = dst_fs s"
  "dst_fs (count_removed s) = dst_fs s"
  "src_fs (count_source_item s) = src_fs s"
  "src_fs (count_copied_item s) = src_fs s"
  "src_fs (count_removed s) = src_fs s"
  "calls (count_source_item s) = calls s"
  "calls (count_copied_item s) = calls s"
  "calls (count_removed s) = calls s"
  "errlog (count_source_item s) = errlog s"
  "errlog (count_copied_item s) = errlog s"
  "errlog (count_removed s) = errlog s"
  "CountCopiedItems (count_source_item s) = CountCopiedItems s"
  "CountCopiedItems (count_copied_item s) = CountCopiedItems s + 1"
  "CountCopiedItems (count_removed s) = CountCopiedItems s"
  "CountRemovedItems (count_source_item s) = CountRemovedItems s"
  "CountRemovedItems (count_copied_item s) = CountRemovedItems s"
  "CountRemovedItems (count_removed s) = CountRemovedItems s + 1"
  by (simp_all add: count_source_item_def count_copied_item_def count_removed_def)

declare DoCopy_rw.simps [simp del] checkHLPath_loop.simps [simp del]

lemma hc_callD:
  "hc_call DstHost c op s = (rc, s1) \<Longrightarrow> same_but_dst s s1 \<and> calls s1 = (DstHost, c) # calls s"
  by (auto simp: hc_call_def Let_def set_host_fs_def same_but_dst_def split: sum.splits)

lemma hc_open_exclD:
  "hc_open_excl s DstHost p m = (rc, s1) \<Longrightarrow>
   same_but_dst s s1 \<and> calls s1 = (DstHost, C_open_excl p m) # calls s"
  by (auto simp: hc_open_excl_def Let_def set_host_fs_def same_but_dst_def split: sum.splits)

lemma DoCopy_rwD: "DoCopy_rw s fd1 fd2 off = (n, s1) \<Longrightarrow> same_but_dst s s1"
  using DoCopy_rw_same [of s fd1 fd2 off] by simp

lemma xlinkD:
  assumes "xlink s a b fl = (rc, s1)"
  shows "same_but_dst s s1"
proof -
  from assms have "s1 = snd (xlink s a b fl)" by simp
  then show ?thesis by (simp add: same_but_dst_def)
qed

lemma xrenameD:
  assumes "xrename s a b fl = (rc, s1)"
  shows "same_but_dst s s1"
proof -
  from assms have "s1 = snd (xrename s a b fl)" by simp
  then show ?thesis by (simp add: same_but_dst_def)
qed

lemmas frameD = hc_callD hc_open_exclD DoCopy_rwD xlinkD xrenameD

lemma DoCopy_copyfile_table [simp]:
  "hltable (snd (DoCopy_copyfile spath dp path fr s)) = hltable s"
  by (auto simp: DoCopy_copyfile_def Let_def hc_defs same_but_dst_def
      split: prod.splits option.splits dest!: frameD)

lemma keeps_refl [simp]: "keeps s s"
  by (simp add: keeps_def)

lemma keeps_trans: "keeps s s1 \<Longrightarrow> keeps s1 s2 \<Longrightarrow> keeps s s2"
  by (auto simp: keeps_def)

lemma keeps_logerr [simp]: "keeps s s1 \<Longrightarrow> keeps s (logerr p m s1)"
  by (auto simp: keeps_def)

lemma keeps_count [simp]:
  "keeps s (count_removed s1) = keeps s s1"
  "keeps s (count_source_item s1) = keeps s s1"
  "keeps s (count_copied_item s1) = keeps s s1"
  "keeps s (s1\<lparr>CountSourceBytes := a\<rparr>) = keeps s s1"
  "keeps s (s1\<lparr>CountReadBytes := a\<rparr>) = keeps s s1"
  "keeps s (s1\<lparr>CountWriteBytes := a\<rparr>) = keeps s s1"
  "keeps s (s1\<lparr>stdin := i\<rparr>) = keeps s s1"
  by (simp_all add: keeps_def count_removed_def count_source_item_def count_copied_item_def)

lemma keeps_hc_call [simp]: "keeps s s1 \<Longrightarrow> keeps s (snd (hc_call DstHost c op s1))"
  by (simp add: keeps_def)

lemma keeps_open_excl [simp]: "keeps s s1 \<Longrightarrow> keeps s (snd (hc_open_excl s1 DstHost p m))"
  by (simp add: keeps_def)

lemma keeps_rw [simp]: "keeps s s1 \<Longrightarrow> keeps s (snd (DoCopy_rw s1 fd1 fd2 off))"
  by (simp add: keeps_def)

lemma keeps_xrename [simp]: "keeps s s1 \<Longrightarrow> keeps s (snd (xrename s1 a b fl))"
  by (simp add: keeps_def)

lemma keeps_xlink [simp]: "keeps s s1 \<Longrightarrow> keeps s (snd (xlink s1 a b fl))"
  by (simp add: keeps_def)

lemma keeps_YesNo [simp]: "keeps s s1 \<Longrightarrow> keeps s (snd (YesNo s1 p))"
  by (simp add: keeps_def YesNo_def Let_def)

lemma keeps_rmdir [simp]: "keeps s s1 \<Longrightarrow> keeps s (RemoveRecur_rmdir cfg p s1)"
  by (simp add: RemoveRecur_rmdir_def hc_defs split_beta)

lemma keeps_remove [simp]: "keeps s s1 \<Longrightarrow> keeps s (RemoveRecur_remove cfg p s1)"
  by (simp add: RemoveRecur_remove_def hc_defs split_beta)

lemma keeps_RemoveRecur_loop:
  assumes rm: "\<And>p d s1 s2. rm p d s1 = Some s2 \<Longrightarrow> keeps s1 s2"
  shows "RemoveRecur_loop rm dp d dens s1 = Some s2 \<Longrightarrow> keeps s1 s2"
proof (induction dens arbitrary: s1)
  case Nil
  then show ?case by simp
next
  case (Cons n dens)
  show ?case
  proof (cases "n = ''.'' \<or> n = ''..''")
    case True
    with Cons show ?thesis by auto
  next
    case False
    with Cons.prems obtain s3 where a: "rm (dp @ ''/'' @ n) d s1 = Some s3"
      and b: "RemoveRecur_loop rm dp d dens s3 = Some s2"
      by (auto split: option.splits)
    from rm [OF a] Cons.IH [OF b] show ?thesis by (rule keeps_trans)
  qed
qed

lemma keeps_RemoveRecur: "RemoveRecur k cfg p d s1 = Some s2 \<Longrightarrow> keeps s1 s2"
proof (induction k arbitrary: p d s1 s2)
  case 0
  then show ?case by simp
next
  case (Suc k)
  show ?case
  proof (cases "hc_lstat s1 DstHost p")
    case None
    with Suc.prems show ?thesis by simp
  next
    case (Some st)
    define d1 where "d1 = (if sint d < 0 then st_dev st else d)"
    show ?thesis
    proof (cases "st_dev st = d1")
      case False
      with Some Suc.prems show ?thesis by (simp add: d1_def Let_def)
    next
      case True
      show ?thesis
      proof (cases "S_ISDIR (st_mode st)")
        case False
        with True Some Suc.prems show ?thesis by (auto simp: d1_def Let_def)
      next
        case dir: True
        show ?thesis
        proof (cases "hc_opendir s1 DstHost p")
          case None
          with dir True Some Suc.prems show ?thesis by (auto simp: d1_def Let_def)
        next
          case (Some dens)
          with dir True \<open>hc_lstat s1 DstHost p = Some st\<close> Suc.prems
          obtain s3 where a: "RemoveRecur_loop (\<lambda>p d s'. RemoveRecur k cfg p d s') p d1 dens s1 = Some s3"
            and b: "s2 = RemoveRecur_rmdir cfg p s3"
            by (auto simp: d1_def Let_def split: option.splits)
          have "keeps s1 s3"
            by (rule keeps_RemoveRecur_loop [OF _ a]) (rule Suc.IH)
          then show ?thesis by (simp add: b)
        qed
      qed
    qed
  qed
qed

lemma keeps_copyfile [simp]: "keeps s s1 \<Longrightarrow> keeps s (snd (DoCopy_copyfile spath dp path fr s1))"
  by (simp add: DoCopy_copyfile_def Let_def hc_defs split_beta split: option.splits)

lemma keeps_keeps_but: "keeps s s' \<Longrightarrow> keeps_but key s s'"
  by (simp add: keeps_def keeps_but_def)

lemma DoCopy_reg_shape:
  "\<exists>r1 s2. keeps s s2 \<and>
     DoCopy_reg cfg spath dp fr s =
       (case v_hln fr of
          None \<Rightarrow> (r1, s2)
        | Some key \<Rightarrow>
            (case (if r1 = 0 then hc_stat s2 DstHost dp else None) of
               Some st \<Rightarrow> (r1, s2\<lparr>hltable := hlt_update (hltable s2) key
                                      (\<lambda>h. h\<lparr>hl_dino := st_ino st\<rparr>)\<rparr>)
             | None \<Rightarrow> (r1, s2\<lparr>hltable := hltdelete (hltable s2) key\<rparr>)))"
proof -
  define s0 where "s0 = (if v_mres fr < 0 then logerr dp ''md5-CHECK-FAILED'' s
                else if v_fres fr < 0 then logerr dp ''fsmid-CHECK-FAILED'' s
                else s)"
  define ls where "ls = (case (case UseHLPath cfg of
                    None \<Rightarrow> None
                  | Some base \<Rightarrow> checkHLPath cfg s0 (v_st1 fr) spath dp) of
              None \<Rightarrow> (False, s0)
            | Some hpath \<Rightarrow>
                (case hc_link s0 DstHost hpath dp of (rc, s1) \<Rightarrow> (rc = 0, s1)))"
  have k0: "keeps s s0" by (simp add: s0_def)
  have k1: "keeps s (snd ls)"
    using k0 by (simp add: ls_def hc_defs split_beta split: option.splits)
  obtain linked s1 where ls: "ls = (linked, s1)" by force
  obtain r1 s2 where rs: "(if linked then (v_r fr, s1)
     else DoCopy_copyfile spath dp (dp @ ''.tmp'') fr s1) = (r1, s2)" by force
  have k2: "keeps s s2"
  proof (cases linked)
    case True
    with rs k1 ls show ?thesis by simp
  next
    case False
    with rs have "s2 = snd (DoCopy_copyfile spath dp (dp @ ''.tmp'') fr s1)" by simp
    with k1 ls show ?thesis by simp
  qed
  have "DoCopy_reg cfg spath dp fr s =
     (case ls of (linked, s1) \<Rightarrow>
        (case (if linked then (v_r fr, s1)
               else DoCopy_copyfile spath dp (dp @ ''.tmp'') fr s1) of
           (r1, s2) \<Rightarrow>
             (case v_hln fr of
                  None \<Rightarrow> (r1, s2)
                | Some key \<Rightarrow>
                    (case (if r1 = 0 then hc_stat s2 DstHost dp else None) of
                       Some st \<Rightarrow>
                         (r1, s2\<lparr>hltable := hlt_update (hltable s2) key
                                   (\<lambda>h. h\<lparr>hl_dino := st_ino st\<rparr>)\<rparr>)
                     | None \<Rightarrow> (r1, s2\<lparr>hltable := hltdelete (hltable s2) key\<rparr>)))))"
    unfolding DoCopy_reg_def Let_def s0_def [symmetric] ls_def [symmetric]
    by (rule refl)
  then have "DoCopy_reg cfg spath dp fr s =
       (case v_hln fr of
          None \<Rightarrow> (r1, s2)
        | Some key \<Rightarrow>
            (case (if r1 = 0 then hc_stat s2 DstHost dp else None) of
               Some st \<Rightarrow> (r1, s2\<lparr>hltable := hlt_update (hltable s2) key
                                      (\<lambda>h. h\<lparr>hl_dino := st_ino st\<rparr>)\<rparr>)
             | None \<Rightarrow> (r1, s2\<lparr>hltable := hltdelete (hltable s2) key\<rparr>)))"
    by (simp add: ls rs)
  with k2 show ?thesis by blast
qed

lemma DoCopy_reg_keeps_but:
  "keeps_but key s (snd (DoCopy_reg cfg spath dp (fr\<lparr>v_hln := Some key\<rparr>) s))"
proof -
  from DoCopy_reg_shape [of s cfg spath dp "fr\<lparr>v_hln := Some key\<rparr>"]
  obtain r1 s2 where k: "keeps s s2" and
    eq: "DoCopy_reg cfg spath dp (fr\<lparr>v_hln := Some key\<rparr>) s =
            (case (if r1 = 0 then hc_stat s2 DstHost dp else None) of
               Some st \<Rightarrow> (r1, s2\<lparr>hltable := hlt_update (hltable s2) key
                                      (\<lambda>h. h\<lparr>hl_dino := st_ino st\<rparr>)\<rparr>)
             | None \<Rightarrow> (r1, s2\<lparr>hltable := hltdelete (hltable s2) key\<rparr>))"
    by auto
  show ?thesis
  proof (cases "if r1 = 0 then hc_stat s2 DstHost dp else None")
    case None
    with eq k show ?thesis by (simp add: keeps_but_def keeps_def)
  next
    case (Some st)
    with eq k show ?thesis by (auto simp: keeps_but_def keeps_def)
  qed
qed

lemma DoCopy_reg_keeps:
  "keeps s (snd (DoCopy_reg cfg spath dp (fr\<lparr>v_hln := None\<rparr>) s))"
  using DoCopy_reg_shape [of s cfg spath dp "fr\<lparr>v_hln := None\<rparr>"] by auto

lemma S_ISREG_not [simp]:
  "S_ISREG m \<Longrightarrow> \<not> S_ISDIR m"
  "S_ISREG m \<Longrightarrow> \<not> S_ISLNK m"
  by (auto simp: S_ISREG_def S_ISDIR_def S_ISLNK_def S_IFREG_def S_IFDIR_def S_IFLNK_def)

text \<open>The rest of DoCopy on a regular source: the table changes at most in the entry
  that hln points to.\<close>

lemma DoCopy_body_reg:
  assumes reg: "S_ISREG (st_mode (v_st1 fr))"
      and body: "DoCopy_body cp (\<lambda>p d s'. RemoveRecur k cfg p d s') cfg spath (Some dp)
                   sd dd fr s = Some (rv, s')"
  shows "case v_hln fr of None \<Rightarrow> keeps s s' | Some key \<Rightarrow> keeps_but key s s'"
proof (cases "DoCopy_nochange cfg spath (Some dp) fr s")
  case (Inl res)
  with body have res: "res = (rv, s')" by (simp add: DoCopy_body_def)
  from Inl reg show ?thesis unfolding res
    by (auto simp: DoCopy_nochange_def Let_def keeps_def keeps_but_def
        split: if_splits option.splits)
next
  case (Inr p)
  define fr2 where "fr2 = fst p"
  from Inr reg have "snd p = s \<and> v_hln (fst p) = v_hln fr \<and> v_st1 (fst p) = v_st1 fr"
    by (auto simp: DoCopy_nochange_def Let_def split: if_splits)
  then have fr2: "v_hln fr2 = v_hln fr" "v_st1 fr2 = v_st1 fr" and pe: "p = (fr2, s)"
    by (simp_all add: fr2_def prod_eq_iff)
  show ?thesis
  proof (cases "DoCopy_conflict (\<lambda>p d s'. RemoveRecur k cfg p d s') cfg (Some dp) dd fr2 s")
    case None
    with body Inr pe show ?thesis by (simp add: DoCopy_body_def)
  next
    case (Some c)
    show ?thesis
    proof (cases c)
      case (Inl res)
      with Some body Inr pe have res: "res = (rv, s')" by (simp add: DoCopy_body_def)
      from Some Inl have "keeps s s'" unfolding res
        by (auto simp: DoCopy_conflict_def split: if_splits)
      then show ?thesis by (simp add: keeps_keeps_but split: option.splits)
    next
      case (Inr s3)
      with Some have k3: "keeps s s3"
        by (auto simp: DoCopy_conflict_def split: if_splits dest: keeps_RemoveRecur)
      from body \<open>DoCopy_nochange cfg spath (Some dp) fr s = Inr p\<close> pe Some Inr reg fr2
      have r: "(rv, s') = DoCopy_reg cfg spath dp fr2 s3"
        by (simp add: DoCopy_body_def)
      show ?thesis
      proof (cases "v_hln fr")
        case None
        then have "fr2 = fr2\<lparr>v_hln := None\<rparr>" using fr2 by simp
        then have "keeps s3 (snd (DoCopy_reg cfg spath dp fr2 s3))"
          using DoCopy_reg_keeps [of s3 cfg spath dp fr2] by simp
        with k3 r [symmetric] None show ?thesis by (auto intro: keeps_trans)
      next
        case (Some key)
        then have "fr2 = fr2\<lparr>v_hln := Some key\<rparr>" using fr2 by simp
        then have "keeps_but key s3 (snd (DoCopy_reg cfg spath dp fr2 s3))"
          using DoCopy_reg_keeps_but [of key s3 cfg spath dp fr2] by simp
        with k3 r [symmetric] Some show ?thesis
          by (auto simp: keeps_def keeps_but_def)
      qed
    qed
  qed
qed

lemma hltlookup_ino: "hltlookup tbl st = Some hl \<Longrightarrow> hl_ino hl = st_ino st"
  by (auto simp: hltlookup_def dest: find_Some_iff [THEN iffD1])

subsection \<open>The hardlink table across a sighting\<close>

lemma DoCopy_hardlink_first:
  "S_ISREG (st_mode (v_st1 fr)) \<Longrightarrow> 1 < st_nlink (v_st1 fr) \<Longrightarrow>
   hltlookup (hltable s) (v_st1 fr) = None \<Longrightarrow>
   DoCopy_hardlink spath (Some dp) fr s =
     Some (Inr (fr\<lparr>v_hln := Some (st_ino (v_st1 fr))\<rparr>,
                s\<lparr>hltable := hltadd (hltable s) (v_st1 fr) dp\<rparr>))"
  by (simp add: DoCopy_hardlink_def)

lemma DoCopy_hardlink_same:
  "S_ISREG (st_mode (v_st1 fr)) \<Longrightarrow> 1 < st_nlink (v_st1 fr) \<Longrightarrow>
   hltlookup (hltable s) (v_st1 fr) = Some hl \<Longrightarrow>
   v_st2Valid fr \<Longrightarrow> st_ino (v_st2 fr) = hl_dino hl \<Longrightarrow>
   tbl1 = hlt_update (hltable s) (st_ino (v_st1 fr)) (\<lambda>h. h\<lparr>hl_nlinked := hl_nlinked h + 1\<rparr>) \<Longrightarrow>
   DoCopy_hardlink spath (Some dp) fr s =
     Some (Inl (0, count_source_item
       (s\<lparr>hltable := (if hl_nlinked hl + 1 = st_nlink (v_st1 fr)
                        then hltdelete tbl1 (st_ino (v_st1 fr)) else tbl1)\<rparr>)))"
  by (simp add: DoCopy_hardlink_def Let_def)

lemma strict_prefix_snoc [simp]: "strict_prefix xs (xs @ [x])"
  by (simp add: strict_prefix_def)

lemma DoCopy_hardlink_found:
  assumes reg: "S_ISREG (st_mode (v_st1 fr))" and multi: "1 < st_nlink (v_st1 fr)"
      and found: "hltlookup (hltable s) (v_st1 fr) = Some hl"
      and r0: "v_r fr = 0"
      and key: "key = st_ino (v_st1 fr)"
      and tbl1: "tbl1 = hlt_update (hltable s) key (\<lambda>h. h\<lparr>hl_nlinked := hl_nlinked h + 1\<rparr>)"
  shows "case DoCopy_hardlink spath (Some dp) fr s of
       None \<Rightarrow> True
     | Some (Inl (rv, s')) \<Rightarrow>
         src_fs s' = src_fs s \<and>
         (rv = 0 \<and> errlog s' = errlog s \<and>
            hltable s' = (if hl_nlinked hl + 1 = st_nlink (v_st1 fr)
                          then hltdelete tbl1 key else tbl1) \<or>
          rv \<noteq> 0 \<and> strict_prefix (errlog s) (errlog s') \<and> hltable s' = hltdelete tbl1 key)
     | Some (Inr (fr1, s1)) \<Rightarrow>
         src_fs s1 = src_fs s \<and> strict_prefix (errlog s) (errlog s1) \<and>
         v_st1 fr1 = v_st1 fr \<and> v_hln fr1 = None \<and> hltable s1 = hltdelete tbl1 key"
proof -
  define s1 where "s1 = s\<lparr>hltable := tbl1\<rparr>"
  obtain rc s2 where rm: "(if v_st2Valid fr then hc_remove s1 DstHost dp else (0, s1)) = (rc, s2)"
    by force
  then have rmT: "v_st2Valid fr \<Longrightarrow> hc_remove s1 DstHost dp = (rc, s2)"
    and rmF: "\<not> v_st2Valid fr \<Longrightarrow> rc = 0 \<and> s2 = s1"
    by (auto split: if_splits)
  have k2: "hltable s2 = tbl1 \<and> src_fs s2 = src_fs s \<and> errlog s2 = errlog s"
  proof (cases "v_st2Valid fr")
    case True
    with rm have "s2 = snd (hc_remove s1 DstHost dp)" by simp
    then show ?thesis by (simp add: hc_defs s1_def)
  next
    case False
    with rm have "s2 = s1" by simp
    then show ?thesis by (simp add: s1_def)
  qed
  obtain rc2 s3 where xl: "xlink s2 (hl_name hl) dp (st_flags (v_st1 fr)) = (rc2, s3)"
    by force
  then have "s3 = snd (xlink s2 (hl_name hl) dp (st_flags (v_st1 fr)))" by simp
  with k2 have k3: "hltable s3 = tbl1 \<and> src_fs s3 = src_fs s \<and> errlog s3 = errlog s"
    by simp
  note facts = reg multi found r0 rmT [unfolded s1_def tbl1 key] rmF [unfolded s1_def tbl1 key]
    xl k2 [unfolded tbl1 key] k3 [unfolded tbl1 key]
  show ?thesis
  proof (cases "v_st2Valid fr \<and> st_ino (v_st2 fr) = hl_dino hl")
    case True
    then show ?thesis
      using reg multi found
      unfolding DoCopy_hardlink_def Let_def tbl1 key
      by simp
  next
    case False
    show ?thesis
    proof (cases "rc < 0")
      case True
      with rmF have v: "v_st2Valid fr" by auto
      with True False facts show ?thesis
        unfolding DoCopy_hardlink_def Let_def tbl1 key
        by simp
    next
      case nrc: False
      show ?thesis
      proof (cases "rc2 < 0")
        case True
        with nrc False facts show ?thesis
          unfolding DoCopy_hardlink_def Let_def tbl1 key
          by (cases "v_st2Valid fr") (simp_all add: strict_prefix_def)
      next
        case F2: False
        with nrc False facts show ?thesis
          unfolding DoCopy_hardlink_def Let_def tbl1 key
          by (cases "v_st2Valid fr") simp_all
      qed
    qed
  qed
qed

lemma hc_stat_hltable [simp]: "hc_stat (s\<lparr>hltable := t\<rparr>) h p = hc_stat s h p"
  by (cases h) (simp_all add: hc_stat_def host_fs_def)

text \<open>The rest of DoCopy on a regular source that has a table entry: the entry is
  deleted when the value returned is not 0, and is still there when it is 0 and the
  destination can be stat'ed.\<close>

lemma DoCopy_body_reg_entry:
  assumes reg: "S_ISREG (st_mode (v_st1 fr))" and hln: "v_hln fr = Some key"
      and body: "DoCopy_body cp (\<lambda>p d s'. RemoveRecur k cfg p d s') cfg spath (Some dp)
                   sd dd fr s = Some (rv, s')"
  shows "(rv \<noteq> 0 \<longrightarrow> hltable s' = hltdelete (hltable s) key) \<and>
         (rv = 0 \<and> hc_stat s' DstHost dp \<noteq> None \<longrightarrow>
            hltable s' = hltable s \<or>
            (\<exists>d. hltable s' = hlt_update (hltable s) key (\<lambda>h. h\<lparr>hl_dino := d\<rparr>)))"
proof (cases "DoCopy_nochange cfg spath (Some dp) fr s")
  case (Inl res)
  with body have res: "res = (rv, s')" by (simp add: DoCopy_body_def)
  from Inl reg hln show ?thesis unfolding res
    by (auto simp: DoCopy_nochange_def Let_def count_source_item_def
        split: if_splits option.splits)
next
  case (Inr p)
  define fr2 where "fr2 = fst p"
  from Inr reg have "snd p = s \<and> v_hln (fst p) = v_hln fr \<and> v_st1 (fst p) = v_st1 fr"
    by (auto simp: DoCopy_nochange_def Let_def split: if_splits)
  then have fr2: "v_hln fr2 = v_hln fr" "v_st1 fr2 = v_st1 fr" and pe: "p = (fr2, s)"
    by (simp_all add: fr2_def prod_eq_iff)
  show ?thesis
  proof (cases "DoCopy_conflict (\<lambda>p d s'. RemoveRecur k cfg p d s') cfg (Some dp) dd fr2 s")
    case None
    with body Inr pe show ?thesis by (simp add: DoCopy_body_def)
  next
    case (Some c)
    show ?thesis
    proof (cases c)
      case (Inl res)
      with Some body Inr pe have res: "res = (rv, s')" by (simp add: DoCopy_body_def)
      from Some Inl have "rv = 0 \<and> hltable s' = hltable s" unfolding res
        by (auto simp: DoCopy_conflict_def split: if_splits)
      then show ?thesis by simp
    next
      case (Inr s3)
      with Some have k3: "keeps s s3"
        by (auto simp: DoCopy_conflict_def split: if_splits dest: keeps_RemoveRecur)
      from body \<open>DoCopy_nochange cfg spath (Some dp) fr s = Inr p\<close> pe Some Inr reg fr2
      have r: "DoCopy_reg cfg spath dp fr2 s3 = (rv, s')"
        by (simp add: DoCopy_body_def)
      from DoCopy_reg_shape [of s3 cfg spath dp fr2] fr2 hln
      obtain r1 s2 where k: "keeps s3 s2" and
        eq: "DoCopy_reg cfg spath dp fr2 s3 =
            (case (if r1 = 0 then hc_stat s2 DstHost dp else None) of
               Some st \<Rightarrow> (r1, s2\<lparr>hltable := hlt_update (hltable s2) key
                                      (\<lambda>h. h\<lparr>hl_dino := st_ino st\<rparr>)\<rparr>)
             | None \<Rightarrow> (r1, s2\<lparr>hltable := hltdelete (hltable s2) key\<rparr>))"
        by auto
      from k k3 have t: "hltable s2 = hltable s" by (simp add: keeps_def)
      show ?thesis
      proof (cases "if r1 = 0 then hc_stat s2 DstHost dp else None")
        case None
        with eq r have "rv = r1" "s' = s2\<lparr>hltable := hltdelete (hltable s2) key\<rparr>" by simp_all
        with None t show ?thesis by (auto split: if_splits)
      next
        case (Some st)
        with eq r have "rv = r1"
          "s' = s2\<lparr>hltable := hlt_update (hltable s2) key (\<lambda>h. h\<lparr>hl_dino := st_ino st\<rparr>)\<rparr>"
          by simp_all
        with Some t show ?thesis by (auto split: if_splits)
      qed
    qed
  qed
qed

lemma table_step:
  assumes T: "T = X \<or> T = hltdelete X key \<or> (\<exists>d. T = hlt_update X key (\<lambda>h. h\<lparr>hl_dino := d\<rparr>))"
      and ok: "hlt_ok X" and key: "key = st_ino st1"
  shows "hlt_ok T \<and> (\<forall>st. st_ino st \<noteq> key \<longrightarrow> hltlookup T st = hltlookup X st) \<and>
         (hltlookup T st1 = None \<or>
          (\<exists>d. hltlookup T st1 = map_option (\<lambda>h. h\<lparr>hl_dino := d\<rparr>) (hltlookup X st1)) \<or>
          hltlookup T st1 = hltlookup X st1)"
  using T
proof (elim disjE exE)
  assume "T = X"
  with ok show ?thesis by simp
next
  assume "T = hltdelete X key"
  with ok key show ?thesis by (simp add: hlt_ok_delete hltlookup_delete)
next
  fix d assume "T = hlt_update X key (\<lambda>h. h\<lparr>hl_dino := d\<rparr>)"
  with ok key show ?thesis by (auto simp: hlt_ok_update hltlookup_update)
qed

lemma strict_prefix_neq: "strict_prefix xs ys \<Longrightarrow> prefix ys zs \<Longrightarrow> zs \<noteq> xs"
  by (auto simp: strict_prefix_def)

text \<open>
  Claim C5, as amended. At a sighting of a multiply-linked regular source file with a
  destination given, the table stays free of double entries and the entries of other
  inodes are not touched. At the first sighting (no entry for the inode) the entry that
  line 706 makes has count 1 and this destination path; when \<^verbatim>\<open>DoCopy\<close> returns, it has
  been removed if the value returned is not 0 (the copy of the first instance failed),
  and it is in the table if the value returned is 0 and the destination can be
  stat'ed. At a later sighting (an entry with count \<open>c\<close>) the count is incremented, and
  when \<^verbatim>\<open>DoCopy\<close> returns the entry is in the table with count \<open>c + 1\<close> if no error was
  logged and \<open>c + 1\<close> is not \<^verbatim>\<open>st_nlink\<close>, and has been removed otherwise: exactly when the
  count has reached \<^verbatim>\<open>st_nlink\<close>, or unlinking the old destination or linking has failed.
\<close>

theorem hardlink_table_sighting:
  assumes ok: "hlt_ok (hltable s)"
      and src: "hc_lstat s SrcHost spath = Some st1"
      and reg: "S_ISREG (st_mode st1)" and multi: "1 < st_nlink st1"
      and run: "DoCopy (Suc k) cfg spath (Some dp) sdevNo ddevNo s = Some (rv, s')"
  shows "hlt_ok (hltable s') \<and>
     (\<forall>st. st_ino st \<noteq> st_ino st1 \<longrightarrow> hltlookup (hltable s') st = hltlookup (hltable s) st) \<and>
     (case hltlookup (hltable s) st1 of
        None \<Rightarrow>
          (hltlookup (hltable s') st1 = None \<or>
           (\<exists>d. hltlookup (hltable s') st1 =
              Some \<lparr>hl_ino = st_ino st1, hl_dino = d, hl_nlinked = 1, hl_name = dp\<rparr>)) \<and>
          (rv \<noteq> 0 \<longrightarrow> hltlookup (hltable s') st1 = None) \<and>
          (rv = 0 \<and> hc_stat s' DstHost dp \<noteq> None \<longrightarrow> hltlookup (hltable s') st1 \<noteq> None)
      | Some hl \<Rightarrow>
          hltlookup (hltable s') st1 =
            (if errlog s' = errlog s \<and> hl_nlinked hl + 1 \<noteq> st_nlink st1
             then Some (hl\<lparr>hl_nlinked := hl_nlinked hl + 1\<rparr>) else None))"
proof -
  define fr where "fr = DoCopy_frame (st2_stack cfg spath) st1 (hc_lstat s DstHost dp)"
  define key where "key = st_ino st1"
  have fr: "v_st1 fr = st1" "v_r fr = 0" "v_hln fr = None"
    by (simp_all add: fr_def DoCopy_frame_def)
  from run src have run':
    "(case DoCopy_hardlink spath (Some dp) fr s of
        None \<Rightarrow> None
      | Some (Inl res) \<Rightarrow> Some res
      | Some (Inr (fr1, s1)) \<Rightarrow>
          DoCopy_body (\<lambda>sp dp sd dd s'. DoCopy k cfg sp dp sd dd s')
            (\<lambda>p d s'. RemoveRecur k cfg p d s') cfg spath (Some dp) sdevNo ddevNo fr1 s1)
     = Some (rv, s')"
    by (simp add: fr_def)
  show ?thesis
  proof (cases "hltlookup (hltable s) st1")
    case None
    define X where "X = hltadd (hltable s) st1 dp"
    have okX: "hlt_ok X" using ok None by (simp add: X_def hlt_ok_add)
    have lX: "hltlookup X st1 = Some \<lparr>hl_ino = st_ino st1, hl_dino = 0, hl_nlinked = 1, hl_name = dp\<rparr>"
      and oX: "\<And>st. st_ino st \<noteq> st_ino st1 \<Longrightarrow> hltlookup X st = hltlookup (hltable s) st"
      by (simp_all add: X_def hltlookup_add)
    from DoCopy_hardlink_first [of fr s spath dp] None reg multi fr
    have "DoCopy_hardlink spath (Some dp) fr s =
        Some (Inr (fr\<lparr>v_hln := Some key\<rparr>, s\<lparr>hltable := X\<rparr>))"
      by (simp add: key_def X_def)
    with run' have body: "DoCopy_body (\<lambda>sp dp sd dd s'. DoCopy k cfg sp dp sd dd s')
            (\<lambda>p d s'. RemoveRecur k cfg p d s') cfg spath (Some dp) sdevNo ddevNo
            (fr\<lparr>v_hln := Some key\<rparr>) (s\<lparr>hltable := X\<rparr>) = Some (rv, s')"
      by simp
    have "keeps_but key (s\<lparr>hltable := X\<rparr>) s'"
      using DoCopy_body_reg [OF _ body] reg fr by simp
    then have T: "hltable s' = X \<or> hltable s' = hltdelete X key \<or>
        (\<exists>d. hltable s' = hlt_update X key (\<lambda>h. h\<lparr>hl_dino := d\<rparr>))"
      by (simp add: keeps_but_def)
    have E: "(rv \<noteq> 0 \<longrightarrow> hltable s' = hltdelete X key) \<and>
         (rv = 0 \<and> hc_stat s' DstHost dp \<noteq> None \<longrightarrow>
            hltable s' = X \<or> (\<exists>d. hltable s' = hlt_update X key (\<lambda>h. h\<lparr>hl_dino := d\<rparr>)))"
      using DoCopy_body_reg_entry [OF _ _ body, of key] reg fr by simp
    have del: "hltlookup (hltdelete X key) st1 = None"
      using okX by (simp add: hltlookup_delete key_def)
    have upd: "\<And>d. hltlookup (hlt_update X key (\<lambda>h. h\<lparr>hl_dino := d\<rparr>)) st1 \<noteq> None"
      using lX by (simp add: hltlookup_update key_def)
    have a: "hltlookup (hltable s') st1 = None \<or>
           (\<exists>d. hltlookup (hltable s') st1 =
              Some \<lparr>hl_ino = st_ino st1, hl_dino = d, hl_nlinked = 1, hl_name = dp\<rparr>)"
      using table_step [OF T okX key_def] lX by auto
    have b: "rv \<noteq> 0 \<longrightarrow> hltlookup (hltable s') st1 = None"
      using E del by auto
    have c: "rv = 0 \<and> hc_stat s' DstHost dp \<noteq> None \<longrightarrow> hltlookup (hltable s') st1 \<noteq> None"
      using E upd lX by auto
    have d: "hlt_ok (hltable s') \<and>
       (\<forall>st. st_ino st \<noteq> st_ino st1 \<longrightarrow> hltlookup (hltable s') st = hltlookup (hltable s) st)"
      using table_step [OF T okX key_def] oX by (auto simp: key_def)
    from a b c d None show ?thesis by simp
  next
    case (Some hl)
    define tbl1 where "tbl1 = hlt_update (hltable s) key (\<lambda>h. h\<lparr>hl_nlinked := hl_nlinked h + 1\<rparr>)"
    have hlk: "hl_ino hl = st_ino st1" using Some by (rule hltlookup_ino)
    have ok1: "hlt_ok tbl1" using ok by (simp add: tbl1_def hlt_ok_update)
    have l1: "hltlookup tbl1 st1 = Some (hl\<lparr>hl_nlinked := hl_nlinked hl + 1\<rparr>)"
      and o1: "\<And>st. st_ino st \<noteq> st_ino st1 \<Longrightarrow> hltlookup tbl1 st = hltlookup (hltable s) st"
      using Some by (simp_all add: tbl1_def hltlookup_update key_def)
    define D where "D = hltdelete tbl1 key"
    have okD: "hlt_ok D" using ok1 by (simp add: D_def hlt_ok_delete)
    have lD: "hltlookup D st1 = None"
      and oD: "\<And>st. st_ino st \<noteq> st_ino st1 \<Longrightarrow> hltlookup D st = hltlookup (hltable s) st"
      using ok1 o1 by (simp_all add: D_def hltlookup_delete key_def)
    have found: "case DoCopy_hardlink spath (Some dp) fr s of
       None \<Rightarrow> True
     | Some (Inl (rv, s')) \<Rightarrow>
         src_fs s' = src_fs s \<and>
         (rv = 0 \<and> errlog s' = errlog s \<and>
            hltable s' = (if hl_nlinked hl + 1 = st_nlink (v_st1 fr)
                          then hltdelete tbl1 key else tbl1) \<or>
          rv \<noteq> 0 \<and> strict_prefix (errlog s) (errlog s') \<and> hltable s' = hltdelete tbl1 key)
     | Some (Inr (fr1, s1)) \<Rightarrow>
         src_fs s1 = src_fs s \<and> strict_prefix (errlog s) (errlog s1) \<and>
         v_st1 fr1 = v_st1 fr \<and> v_hln fr1 = None \<and> hltable s1 = hltdelete tbl1 key"
      using reg multi Some
      by (intro DoCopy_hardlink_found [where hl = hl]) (simp_all add: fr key_def tbl1_def)
    show ?thesis
    proof (cases "DoCopy_hardlink spath (Some dp) fr s")
      case None
      with run' show ?thesis by simp
    next
      case (Some res0)
      note probe = this
      show ?thesis
      proof (cases res0)
        case (Inl res)
        with run' probe have res: "res = (rv, s')" by simp
        from found probe Inl res have
          "rv = 0 \<and> errlog s' = errlog s \<and>
              hltable s' = (if hl_nlinked hl + 1 = st_nlink st1 then D else tbl1) \<or>
            rv \<noteq> 0 \<and> errlog s' \<noteq> errlog s \<and> hltable s' = D"
          by (auto simp: fr D_def strict_prefix_def split: if_splits)
        then show ?thesis
          using \<open>hltlookup (hltable s) st1 = Some hl\<close> okD ok1 lD oD l1 o1
          by (auto simp: key_def)
      next
        case (Inr p)
        obtain fr1 s1 where p: "p = (fr1, s1)" by force
        from found probe Inr p have sp: "strict_prefix (errlog s) (errlog s1)"
          and st1': "v_st1 fr1 = st1"
          and h: "v_hln fr1 = None" and t: "hltable s1 = D"
          by (simp_all add: fr D_def)
        from run' probe Inr p have body: "DoCopy_body (\<lambda>sp dp sd dd s'. DoCopy k cfg sp dp sd dd s')
              (\<lambda>p d s'. RemoveRecur k cfg p d s') cfg spath (Some dp) sdevNo ddevNo fr1 s1
              = Some (rv, s')"
          by simp
        have B: "keeps s1 s'"
          using DoCopy_body_reg [OF _ body] reg st1' h by simp
        then have "prefix (errlog s1) (errlog s')" by (simp add: keeps_def)
        with sp have ne: "errlog s' \<noteq> errlog s" by (rule strict_prefix_neq)
        from B t have "hltable s' = D" by (simp add: keeps_def)
        with okD lD oD \<open>hltlookup (hltable s) st1 = Some hl\<close> ne show ?thesis
          by (auto simp: key_def)
      qed
    qed
  qed
qed

subsection \<open>Runs on the examples\<close>

lemmas ex_eval2 = ex_src3_def ex_dst3_def ex_dst_empty_def ex_entry_def ex_table_def ex_run3_def
  final_state_def ex_schg_def ex_src4_def ex_dst4_def ex_run4_def ex_dst6_def ex_run6e_def

lemmas ex_eval3 = ex_dst9_def ex_run9_def ex_dst7_def ex_run7_def ex_dst8_def ex_run8_def
  ex_run8_1_def

lemma ex7_run:
  "DoCopy (Suc 0) ex_cfg ''b'' (Some ''b'') (-1) (-1) ex_run7 =
     Some (0, final_state ex_run7 (DoCopy (Suc 0) ex_cfg ''b'' (Some ''b'') (-1) (-1) ex_run7))"
  by (simp add: fs_eval cp_eval ex_eval ex_eval2 ex_eval3)

lemma ex7_calls:
  "calls (final_state ex_run7 (DoCopy (Suc 0) ex_cfg ''b'' (Some ''b'') (-1) (-1) ex_run7)) =
     [(DstHost, C_link ''a'' ''b''), (DstHost, C_remove ''b'')]"
  by (simp add: fs_eval cp_eval ex_eval ex_eval2 ex_eval3)

lemma ex7_log:
  "errlog (final_state ex_run7 (DoCopy (Suc 0) ex_cfg ''b'' (Some ''b'') (-1) (-1) ex_run7)) = []"
  by (simp add: fs_eval cp_eval ex_eval ex_eval2 ex_eval3)

lemma ex7_dst:
  "map_option st_mode (hc_lstat ex_run7 DstHost ''b'') = Some 0x41ED \<and>
   map_option st_mode (hc_lstat (final_state ex_run7
      (DoCopy (Suc 0) ex_cfg ''b'' (Some ''b'') (-1) (-1) ex_run7)) DstHost ''b'') = Some 0x81A4"
  by (simp add: fs_eval cp_eval ex_eval ex_eval2 ex_eval3)

lemma ex8_step1:
  "DoCopy (Suc 0) ex_cfg ''a'' (Some ''a'') (-1) (-1) ex_run8 = Some (0, ex_run8_1)"
  by (simp add: fs_eval cp_eval ex_eval ex_eval2 ex_eval3 fun_eq_iff)

lemma ex8_step2:
  "DoCopy (Suc 0) ex_cfg ''b'' (Some ''b'') (-1) (-1) ex_run8_1 =
     Some (0, final_state ex_run8_1 (DoCopy (Suc 0) ex_cfg ''b'' (Some ''b'') (-1) (-1) ex_run8_1))"
  by (simp add: fs_eval cp_eval ex_eval ex_eval2 ex_eval3)

lemma ex8_calls:
  "calls (final_state ex_run8_1 (DoCopy (Suc 0) ex_cfg ''b'' (Some ''b'') (-1) (-1) ex_run8_1)) =
     [(DstHost, C_chflags ''a'' 0), (DstHost, C_link ''a'' ''b''),
      (DstHost, C_chflags ''a'' 0), (DstHost, C_link ''a'' ''b''), (DstHost, C_remove ''b'')]"
  by (simp add: fs_eval cp_eval ex_eval ex_eval2 ex_eval3)

lemma ex8_log:
  "errlog (final_state ex_run8_1 (DoCopy (Suc 0) ex_cfg ''b'' (Some ''b'') (-1) (-1) ex_run8_1)) =
     [(''a'', ''SAFETY - refusing to copy file over directory''),
      (''b'', ''hardlink: unable to link'')]"
  by (simp add: fs_eval cp_eval ex_eval ex_eval2 ex_eval3)

lemma ex8_dst:
  "map_option st_ino (hc_lstat ex_run8_1 DstHost ''b'') = Some 7 \<and>
   hc_lstat (final_state ex_run8_1
      (DoCopy (Suc 0) ex_cfg ''b'' (Some ''b'') (-1) (-1) ex_run8_1)) DstHost ''b'' = None \<and>
   CountCopiedItems (final_state ex_run8_1
      (DoCopy (Suc 0) ex_cfg ''b'' (Some ''b'') (-1) (-1) ex_run8_1)) = 0"
  by (simp add: fs_eval cp_eval ex_eval ex_eval2 ex_eval3)

lemma ex6e_undefined:
  "DoCopy (Suc k) ex_cfg ''b'' (Some ''b'') (-1) (-1) ex_run6e = None"
  by (simp add: fs_eval cp_eval ex_eval ex_eval2 ex_eval3)

text \<open>
  The safety check is reached only behind the hardlink probe. At the second sighting of
  a multiply-linked file whose destination is an empty directory, with the safety flag
  set, the probe removes the directory at line 663 and links the file in its place; no
  refusal is logged.
\<close>

lemma safety_hardlink_replaces_directory:
  "SafetyOpt ex_cfg = 1 \<and>
   map_option st_mode (hc_lstat ex_run7 DstHost ''b'') = Some 0x41ED \<and>
   DoCopy (Suc 0) ex_cfg ''b'' (Some ''b'') (-1) (-1) ex_run7 =
     Some (0, final_state ex_run7 (DoCopy (Suc 0) ex_cfg ''b'' (Some ''b'') (-1) (-1) ex_run7)) \<and>
   calls (final_state ex_run7 (DoCopy (Suc 0) ex_cfg ''b'' (Some ''b'') (-1) (-1) ex_run7)) =
     [(DstHost, C_link ''a'' ''b''), (DstHost, C_remove ''b'')] \<and>
   errlog (final_state ex_run7 (DoCopy (Suc 0) ex_cfg ''b'' (Some ''b'') (-1) (-1) ex_run7)) = [] \<and>
   map_option st_mode (hc_lstat (final_state ex_run7
      (DoCopy (Suc 0) ex_cfg ''b'' (Some ''b'') (-1) (-1) ex_run7)) DstHost ''b'') = Some 0x81A4"
proof -
  have "SafetyOpt ex_cfg = 1" by (simp add: ex_cfg_def)
  with ex7_run ex7_calls ex7_log ex7_dst show ?thesis by blast
qed

subsection \<open>The no-change check\<close>

lemma S_ISREG_eq_mode: "S_ISREG m \<Longrightarrow> m = m' \<Longrightarrow> \<not> S_ISDIR m'"
  by simp

lemma DoCopy_nochange_regular:
  assumes src: "hc_lstat s SrcHost spath = Some st1"
      and dst: "hc_lstat s DstHost dp = Some st2"
      and reg: "S_ISREG (st_mode st1)"
      and eq: "st_mode st1 = st_mode st2" "st_flags st1 = st_flags st2"
              "st_size st1 = st_size st2" "st_uid st1 = st_uid st2"
              "st_gid st1 = st_gid st2" "st_mtime st1 = st_mtime st2"
      and force: "ForceOpt cfg = 0"
      and md5: "UseMD5Opt cfg = 0 \<or> md5_check cfg (src_fs s) (dst_fs s) spath (Some dp) = 0"
      and fsmid: "UseFSMIDOpt cfg = 0 \<or> fsmid_check cfg (dst_fs s) (st_fsmid st1) dp = 0"
      and nohl: "\<not> (1 < st_nlink st1 \<and> hltlookup (hltable s) st1 \<noteq> None)"
  shows "DoCopy (Suc k) cfg spath (Some dp) sdevNo ddevNo s =
     Some (0, count_source_item
       ((if 1 < st_nlink st1
         then s\<lparr>hltable := hlt_update (hltadd (hltable s) st1 dp) (st_ino st1)
                              (\<lambda>h. h\<lparr>hl_dino := st_ino st2\<rparr>)\<rparr>
         else s)\<lparr>CountSourceBytes := CountSourceBytes s + block_size st1\<rparr>))"
proof (cases "1 < st_nlink st1")
  case True
  with nohl have none: "hltlookup (hltable s) st1 = None" by simp
  define fr where "fr = DoCopy_frame (st2_stack cfg spath) st1 (Some st2)"
  have h: "DoCopy_hardlink spath (Some dp) fr s =
     Some (Inr (fr\<lparr>v_hln := Some (st_ino st1)\<rparr>, s\<lparr>hltable := hltadd (hltable s) st1 dp\<rparr>))"
    using DoCopy_hardlink_first [of fr s spath dp] reg True none
    by (simp add: fr_def DoCopy_frame_def)
  have n: "DoCopy_nochange cfg spath (Some dp) (fr\<lparr>v_hln := Some (st_ino st1)\<rparr>)
       (s\<lparr>hltable := hltadd (hltable s) st1 dp\<rparr>) =
     Inl (0, count_source_item
       ((s\<lparr>hltable := hlt_update (hltadd (hltable s) st1 dp) (st_ino st1)
                              (\<lambda>h. h\<lparr>hl_dino := st_ino st2\<rparr>)\<rparr>)
          \<lparr>CountSourceBytes := CountSourceBytes s + block_size st1\<rparr>))"
    using reg eq force md5 fsmid
    by (auto simp: DoCopy_nochange_def fr_def DoCopy_frame_def Let_def the_default_def)
  show ?thesis
    using src dst h n True by (simp add: fr_def [symmetric] DoCopy_body_def)
next
  case False
  define fr where "fr = DoCopy_frame (st2_stack cfg spath) st1 (Some st2)"
  have h: "DoCopy_hardlink spath (Some dp) fr s = Some (Inr (fr, s))"
    using False by (simp add: DoCopy_hardlink_def fr_def DoCopy_frame_def)
  have n: "DoCopy_nochange cfg spath (Some dp) fr s =
     Inl (0, count_source_item (s\<lparr>CountSourceBytes := CountSourceBytes s + block_size st1\<rparr>))"
    using reg eq force md5 fsmid
    by (auto simp: DoCopy_nochange_def fr_def DoCopy_frame_def Let_def the_default_def)
  show ?thesis
    using src dst h n False by (simp add: fr_def [symmetric] DoCopy_body_def)
qed

text \<open>Lines 649 to 658: a further name of a file whose destination is the inode that
  the entry records already.\<close>

lemma DoCopy_same_inode:
  assumes src: "hc_lstat s SrcHost spath = Some st1"
      and dst: "hc_lstat s DstHost dp = Some st2"
      and reg: "S_ISREG (st_mode st1)" and multi: "1 < st_nlink st1"
      and found: "hltlookup (hltable s) st1 = Some hl"
      and same: "hl_dino hl = st_ino st2"
      and tbl1: "tbl1 = hlt_update (hltable s) (st_ino st1) (\<lambda>h. h\<lparr>hl_nlinked := hl_nlinked h + 1\<rparr>)"
  shows "DoCopy (Suc k) cfg spath (Some dp) sdevNo ddevNo s =
     Some (0, count_source_item
       (s\<lparr>hltable := (if hl_nlinked hl + 1 = st_nlink st1
                        then hltdelete tbl1 (st_ino st1) else tbl1)\<rparr>))"
proof -
  define fr where "fr = DoCopy_frame (st2_stack cfg spath) st1 (Some st2)"
  have fr: "v_st1 fr = st1" "v_st2 fr = st2" "v_st2Valid fr"
    by (simp_all add: fr_def DoCopy_frame_def the_default_def)
  have "DoCopy_hardlink spath (Some dp) fr s =
     Some (Inl (0, count_source_item
       (s\<lparr>hltable := (if hl_nlinked hl + 1 = st_nlink (v_st1 fr)
                        then hltdelete tbl1 (st_ino (v_st1 fr)) else tbl1)\<rparr>)))"
    using reg multi found same tbl1 by (intro DoCopy_hardlink_same) (simp_all add: fr)
  with src dst show ?thesis by (simp add: fr_def [symmetric] fr)
qed

text \<open>
  Claim C4, as amended. For a regular source file whose destination stat succeeded with
  equal mode and flags, equal size, uid, gid and mtime, with force off and the enabled
  digest and content-id checks answering "equal", and unless the hardlink table has an
  entry for the source inode that records another destination inode than the one at the
  destination path: \<^verbatim>\<open>DoCopy\<close> returns 0, issues no call, leaves the destination and
  the count of copied items alone; at the first sighting of a multiply-linked file the
  entry it makes holds the destination inode; at a later sighting the entry, which holds
  the destination inode already, has its count incremented and is removed when the
  count has reached \<^verbatim>\<open>st_nlink\<close>.
\<close>

theorem nochange_regular:
  assumes src: "hc_lstat s SrcHost spath = Some st1"
      and dst: "hc_lstat s DstHost dp = Some st2"
      and reg: "S_ISREG (st_mode st1)"
      and eq: "st_mode st1 = st_mode st2" "st_flags st1 = st_flags st2"
              "st_size st1 = st_size st2" "st_uid st1 = st_uid st2"
              "st_gid st1 = st_gid st2" "st_mtime st1 = st_mtime st2"
      and force: "ForceOpt cfg = 0"
      and md5: "UseMD5Opt cfg = 0 \<or> md5_check cfg (src_fs s) (dst_fs s) spath (Some dp) = 0"
      and fsmid: "UseFSMIDOpt cfg = 0 \<or> fsmid_check cfg (dst_fs s) (st_fsmid st1) dp = 0"
      and rec: "\<forall>hl. 1 < st_nlink st1 \<and> hltlookup (hltable s) st1 = Some hl \<longrightarrow>
                  hl_dino hl = st_ino st2"
  shows "\<exists>s'. DoCopy (Suc k) cfg spath (Some dp) sdevNo ddevNo s = Some (0, s') \<and>
           dst_fs s' = dst_fs s \<and> calls s' = calls s \<and>
           CountCopiedItems s' = CountCopiedItems s \<and>
           (1 < st_nlink st1 \<longrightarrow>
              (case hltlookup (hltable s) st1 of
                 None \<Rightarrow>
                   hltlookup (hltable s') st1 =
                     Some \<lparr>hl_ino = st_ino st1, hl_dino = st_ino st2, hl_nlinked = 1,
                            hl_name = dp\<rparr>
               | Some hl \<Rightarrow>
                   hl_dino hl = st_ino st2 \<and>
                   (hlt_ok (hltable s) \<longrightarrow>
                      hltlookup (hltable s') st1 =
                        (if hl_nlinked hl + 1 = st_nlink st1 then None
                         else Some (hl\<lparr>hl_nlinked := hl_nlinked hl + 1\<rparr>)))))"
proof (cases "1 < st_nlink st1 \<and> hltlookup (hltable s) st1 \<noteq> None")
  case False
  then have none: "1 < st_nlink st1 \<Longrightarrow> hltlookup (hltable s) st1 = None" by simp
  from DoCopy_nochange_regular [OF src dst reg eq force md5 fsmid False, of k sdevNo ddevNo]
  show ?thesis
    by (auto simp: count_source_item_def hltlookup_update hltlookup_add none)
next
  case True
  then obtain hl where multi: "1 < st_nlink st1" and found: "hltlookup (hltable s) st1 = Some hl"
    by auto
  with rec have same: "hl_dino hl = st_ino st2" by simp
  define tbl1 where
    "tbl1 = hlt_update (hltable s) (st_ino st1) (\<lambda>h. h\<lparr>hl_nlinked := hl_nlinked h + 1\<rparr>)"
  have l1: "hltlookup tbl1 st1 = Some (hl\<lparr>hl_nlinked := hl_nlinked hl + 1\<rparr>)"
    using found by (simp add: tbl1_def hltlookup_update)
  have lD: "hlt_ok (hltable s) \<Longrightarrow> hltlookup (hltdelete tbl1 (st_ino st1)) st1 = None"
    by (simp add: tbl1_def hlt_ok_update hltlookup_delete)
  from DoCopy_same_inode [OF src dst reg multi found same tbl1_def, of k cfg sdevNo ddevNo]
  show ?thesis
    using multi found same l1 lD by (auto simp: count_source_item_def)
qed

subsection \<open>The no-change check and the hardlink table on the examples\<close>

lemma ex3_src: "hc_lstat ex_run3 SrcHost ''a'' = Some (stat_of 3 (ex_file 2 ''hello''))"
  by (simp add: fs_eval ex_eval ex_eval2)

lemma ex3_dst: "hc_lstat ex_run3 DstHost ''a'' = Some (stat_of 7 (ex_file 1 ''hello''))"
  by (simp add: fs_eval ex_eval ex_eval2)

lemma ex3_hyps:
  "S_ISREG (st_mode (stat_of 3 (ex_file 2 ''hello'')))"
  "st_mode (stat_of 3 (ex_file 2 ''hello'')) = st_mode (stat_of 7 (ex_file 1 ''hello''))"
  "st_flags (stat_of 3 (ex_file 2 ''hello'')) = st_flags (stat_of 7 (ex_file 1 ''hello''))"
  "st_size (stat_of 3 (ex_file 2 ''hello'')) = st_size (stat_of 7 (ex_file 1 ''hello''))"
  "st_uid (stat_of 3 (ex_file 2 ''hello'')) = st_uid (stat_of 7 (ex_file 1 ''hello''))"
  "st_gid (stat_of 3 (ex_file 2 ''hello'')) = st_gid (stat_of 7 (ex_file 1 ''hello''))"
  "st_mtime (stat_of 3 (ex_file 2 ''hello'')) = st_mtime (stat_of 7 (ex_file 1 ''hello''))"
  "ForceOpt ex_cfg = 0"
  "UseMD5Opt ex_cfg = 0 \<or> md5_check ex_cfg (src_fs ex_run3) (dst_fs ex_run3) ''a'' (Some ''a'') = 0"
  "UseFSMIDOpt ex_cfg = 0 \<or>
     fsmid_check ex_cfg (dst_fs ex_run3) (st_fsmid (stat_of 3 (ex_file 2 ''hello''))) ''a'' = 0"
  by (simp_all add: fs_eval cp_eval ex_eval ex_eval2)

lemma ex3_none: "hltlookup (hltable ex_run3) (stat_of 3 (ex_file 2 ''hello'')) = None"
  by (simp add: ex_run3_def ex_state_def hltlookup_def)

lemma ex3_multi: "1 < st_nlink (stat_of 3 (ex_file 2 ''hello''))"
  by (simp add: stat_of_def ex_file_def)

lemma ex3_ok: "hlt_ok (hltable ex_run3)"
  by (simp add: ex_run3_def ex_state_def hlt_ok_def)

lemma ex9_src: "hc_lstat ex_run9 SrcHost ''b'' = Some (stat_of 3 (ex_file 2 ''hello''))"
  by (simp add: fs_eval ex_eval ex_eval2 ex_eval3)

lemma ex9_dst: "hc_lstat ex_run9 DstHost ''b'' = Some (stat_of 7 (ex_file 2 ''hello''))"
  by (simp add: fs_eval ex_eval ex_eval2 ex_eval3)

lemma ex9_hyps:
  "S_ISREG (st_mode (stat_of 3 (ex_file 2 ''hello'')))"
  "st_mode (stat_of 3 (ex_file 2 ''hello'')) = st_mode (stat_of 7 (ex_file 2 ''hello''))"
  "st_flags (stat_of 3 (ex_file 2 ''hello'')) = st_flags (stat_of 7 (ex_file 2 ''hello''))"
  "st_size (stat_of 3 (ex_file 2 ''hello'')) = st_size (stat_of 7 (ex_file 2 ''hello''))"
  "st_uid (stat_of 3 (ex_file 2 ''hello'')) = st_uid (stat_of 7 (ex_file 2 ''hello''))"
  "st_gid (stat_of 3 (ex_file 2 ''hello'')) = st_gid (stat_of 7 (ex_file 2 ''hello''))"
  "st_mtime (stat_of 3 (ex_file 2 ''hello'')) = st_mtime (stat_of 7 (ex_file 2 ''hello''))"
  "ForceOpt ex_cfg = 0"
  "UseMD5Opt ex_cfg = 0 \<or> md5_check ex_cfg (src_fs ex_run9) (dst_fs ex_run9) ''b'' (Some ''b'') = 0"
  "UseFSMIDOpt ex_cfg = 0 \<or>
     fsmid_check ex_cfg (dst_fs ex_run9) (st_fsmid (stat_of 3 (ex_file 2 ''hello''))) ''b'' = 0"
  by (simp_all add: fs_eval cp_eval ex_eval ex_eval2 ex_eval3)

lemma ex9_found:
  "hltlookup (hltable ex_run9) (stat_of 3 (ex_file 2 ''hello'')) = Some (ex_entry 7 ''a'')"
  by (simp add: fs_eval cp_eval ex_eval ex_eval2 ex_eval3)

lemma ex9_ok: "hlt_ok (hltable ex_run9)"
  by (simp add: ex_eval ex_eval2 ex_eval3 hlt_ok_def)

text \<open>The theorem of claim C4 at the first sighting of \<open>a\<close> in \<open>ex_run3\<close>, and at the
  second sighting of \<open>b\<close> in \<open>ex_run9\<close>, where the entry of the file is removed because
  both its names have been seen.\<close>

theorem nochange_regular_witness:
  "hc_lstat ex_run3 SrcHost ''a'' = Some (stat_of 3 (ex_file 2 ''hello'')) \<and>
   hc_lstat ex_run3 DstHost ''a'' = Some (stat_of 7 (ex_file 1 ''hello'')) \<and>
   hltlookup (hltable ex_run3) (stat_of 3 (ex_file 2 ''hello'')) = None \<and>
   (\<exists>s'. DoCopy (Suc 0) ex_cfg ''a'' (Some ''a'') (-1) (-1) ex_run3 = Some (0, s') \<and>
      dst_fs s' = dst_fs ex_run3 \<and> calls s' = calls ex_run3 \<and>
      CountCopiedItems s' = CountCopiedItems ex_run3 \<and>
      hltlookup (hltable s') (stat_of 3 (ex_file 2 ''hello'')) =
        Some \<lparr>hl_ino = 3, hl_dino = 7, hl_nlinked = 1, hl_name = ''a''\<rparr>) \<and>
   hc_lstat ex_run9 SrcHost ''b'' = Some (stat_of 3 (ex_file 2 ''hello'')) \<and>
   hc_lstat ex_run9 DstHost ''b'' = Some (stat_of 7 (ex_file 2 ''hello'')) \<and>
   hltlookup (hltable ex_run9) (stat_of 3 (ex_file 2 ''hello'')) =
     Some \<lparr>hl_ino = 3, hl_dino = 7, hl_nlinked = 1, hl_name = ''a''\<rparr> \<and>
   (\<exists>s'. DoCopy (Suc 0) ex_cfg ''b'' (Some ''b'') (-1) (-1) ex_run9 = Some (0, s') \<and>
      dst_fs s' = dst_fs ex_run9 \<and> calls s' = calls ex_run9 \<and>
      CountCopiedItems s' = CountCopiedItems ex_run9 \<and>
      hltlookup (hltable s') (stat_of 3 (ex_file 2 ''hello'')) = None)"
proof -
  have r3: "\<forall>hl. 1 < st_nlink (stat_of 3 (ex_file 2 ''hello'')) \<and>
      hltlookup (hltable ex_run3) (stat_of 3 (ex_file 2 ''hello'')) = Some hl \<longrightarrow>
      hl_dino hl = st_ino (stat_of 7 (ex_file 1 ''hello''))"
    by (simp add: ex3_none)
  have r9: "\<forall>hl. 1 < st_nlink (stat_of 3 (ex_file 2 ''hello'')) \<and>
      hltlookup (hltable ex_run9) (stat_of 3 (ex_file 2 ''hello'')) = Some hl \<longrightarrow>
      hl_dino hl = st_ino (stat_of 7 (ex_file 2 ''hello''))"
    using ex9_found by (auto simp: ex_entry_def stat_of_def)
  have a: "\<exists>s'. DoCopy (Suc 0) ex_cfg ''a'' (Some ''a'') (-1) (-1) ex_run3 = Some (0, s') \<and>
      dst_fs s' = dst_fs ex_run3 \<and> calls s' = calls ex_run3 \<and>
      CountCopiedItems s' = CountCopiedItems ex_run3 \<and>
      hltlookup (hltable s') (stat_of 3 (ex_file 2 ''hello'')) =
        Some \<lparr>hl_ino = 3, hl_dino = 7, hl_nlinked = 1, hl_name = ''a''\<rparr>"
    using nochange_regular [OF ex3_src ex3_dst ex3_hyps r3, of 0 "-1" "-1"] ex3_none ex3_multi
    by (simp add: stat_of_def ex_file_def)
  have b: "\<exists>s'. DoCopy (Suc 0) ex_cfg ''b'' (Some ''b'') (-1) (-1) ex_run9 = Some (0, s') \<and>
      dst_fs s' = dst_fs ex_run9 \<and> calls s' = calls ex_run9 \<and>
      CountCopiedItems s' = CountCopiedItems ex_run9 \<and>
      hltlookup (hltable s') (stat_of 3 (ex_file 2 ''hello'')) = None"
    using nochange_regular [OF ex9_src ex9_dst ex9_hyps r9, of 0 "-1" "-1"] ex9_found ex3_multi
      ex9_ok
    by (simp add: stat_of_def ex_file_def ex_entry_def)
  have c: "hltlookup (hltable ex_run9) (stat_of 3 (ex_file 2 ''hello'')) =
     Some \<lparr>hl_ino = 3, hl_dino = 7, hl_nlinked = 1, hl_name = ''a''\<rparr>"
    using ex9_found by (simp add: ex_entry_def)
  from a b c ex3_src ex3_dst ex3_none ex9_src ex9_dst show ?thesis by blast
qed

lemma ex4_src: "hc_lstat ex_run4 SrcHost ''b'' = Some (stat_of 3 (ex_schg 3 ''hello''))"
  by (simp add: fs_eval ex_eval ex_eval2)

lemma ex4_dst: "hc_lstat ex_run4 DstHost ''b'' = Some (stat_of 7 (ex_schg 1 ''hello''))"
  by (simp add: fs_eval ex_eval ex_eval2)

lemma ex4_run:
  "DoCopy (Suc 0) ex_cfg ''b'' (Some ''b'') (-1) (-1) ex_run4 =
     Some (1, ex_run4\<lparr>hltable := (\<lambda>n. []), errno := EPERM,
                      calls := [(DstHost, C_remove ''b'')],
                      errlog := [(''b'', ''hardlink: unable to unlink'')]\<rparr>)"
  by (simp add: fs_eval cp_eval ex_eval ex_eval2 fun_eq_iff)

lemma ex4_hyps:
  "S_ISREG (st_mode (stat_of 3 (ex_schg 3 ''hello''))) \<and>
   st_mode (stat_of 3 (ex_schg 3 ''hello'')) = st_mode (stat_of 7 (ex_schg 1 ''hello'')) \<and>
   st_flags (stat_of 3 (ex_schg 3 ''hello'')) = st_flags (stat_of 7 (ex_schg 1 ''hello'')) \<and>
   st_size (stat_of 3 (ex_schg 3 ''hello'')) = st_size (stat_of 7 (ex_schg 1 ''hello'')) \<and>
   st_uid (stat_of 3 (ex_schg 3 ''hello'')) = st_uid (stat_of 7 (ex_schg 1 ''hello'')) \<and>
   st_gid (stat_of 3 (ex_schg 3 ''hello'')) = st_gid (stat_of 7 (ex_schg 1 ''hello'')) \<and>
   st_mtime (stat_of 3 (ex_schg 3 ''hello'')) = st_mtime (stat_of 7 (ex_schg 1 ''hello'')) \<and>
   ForceOpt ex_cfg = 0 \<and> UseMD5Opt ex_cfg = 0 \<and> UseFSMIDOpt ex_cfg = 0"
  by (simp add: stat_of_def ex_schg_def ex_file_def ex_cfg_def S_ISREG_def S_IFMT_def S_IFREG_def)

lemma ex4_res:
  "map_option fst (DoCopy (Suc 0) ex_cfg ''b'' (Some ''b'') (-1) (-1) ex_run4) = Some 1"
  by (simp only: ex4_run option.map fst_conv)

text \<open>The claim C4 as stated fails at a later sighting of a multiply-linked file whose
  destination is not the inode that the table records: all the equalities hold, yet
  the hardlink probe tries to unlink the destination, fails on the immutable file, and
  \<^verbatim>\<open>DoCopy\<close> returns 1.\<close>

theorem nochange_regular_counterexample:
  "hc_lstat ex_run4 SrcHost ''b'' = Some (stat_of 3 (ex_schg 3 ''hello'')) \<and>
   hc_lstat ex_run4 DstHost ''b'' = Some (stat_of 7 (ex_schg 1 ''hello'')) \<and>
   (S_ISREG (st_mode (stat_of 3 (ex_schg 3 ''hello''))) \<and>
   st_mode (stat_of 3 (ex_schg 3 ''hello'')) = st_mode (stat_of 7 (ex_schg 1 ''hello'')) \<and>
   st_flags (stat_of 3 (ex_schg 3 ''hello'')) = st_flags (stat_of 7 (ex_schg 1 ''hello'')) \<and>
   st_size (stat_of 3 (ex_schg 3 ''hello'')) = st_size (stat_of 7 (ex_schg 1 ''hello'')) \<and>
   st_uid (stat_of 3 (ex_schg 3 ''hello'')) = st_uid (stat_of 7 (ex_schg 1 ''hello'')) \<and>
   st_gid (stat_of 3 (ex_schg 3 ''hello'')) = st_gid (stat_of 7 (ex_schg 1 ''hello'')) \<and>
   st_mtime (stat_of 3 (ex_schg 3 ''hello'')) = st_mtime (stat_of 7 (ex_schg 1 ''hello'')) \<and>
   ForceOpt ex_cfg = 0 \<and> UseMD5Opt ex_cfg = 0 \<and> UseFSMIDOpt ex_cfg = 0) \<and>
   map_option fst (DoCopy (Suc 0) ex_cfg ''b'' (Some ''b'') (-1) (-1) ex_run4) = Some 1"
  using ex4_src ex4_dst ex4_hyps ex4_res by blast

lemma ex3_run:
  "DoCopy (Suc 0) ex_cfg ''a'' (Some ''a'') (-1) (-1) ex_run3 =
     Some (0, final_state ex_run3 (DoCopy (Suc 0) ex_cfg ''a'' (Some ''a'') (-1) (-1) ex_run3))"
  by (simp add: fs_eval cp_eval ex_eval ex_eval2)

lemma stat_walk_numeral:
  "stat_walk (numeral k) f d cs =
     (if cs = [] then Inr d
      else case walk f d (butlast cs) of
             Inl e \<Rightarrow> Inl e
           | Inr p \<Rightarrow>
               (case walk f p [last cs] of
                  Inl e \<Rightarrow> Inl e
                | Inr ino \<Rightarrow>
                    (case fs_inodes f ino of
                       None \<Rightarrow> Inl ENOENT
                     | Some i \<Rightarrow>
                         (case i_body i of
                            Symlink t \<Rightarrow>
                              stat_walk (pred_numeral k) f
                                (if t \<noteq> [] \<and> hd t = CHR ''/'' then fs_root f else p)
                                (split_path t)
                          | _ \<Rightarrow> Inr ino))))"
  by (simp add: numeral_eq_Suc)

lemma ex3_stat:
  "hc_stat (final_state ex_run3 (DoCopy (Suc 0) ex_cfg ''a'' (Some ''a'') (-1) (-1) ex_run3))
     DstHost ''a'' \<noteq> None"
  by (simp add: fs_eval cp_eval ex_eval ex_eval2 stat_walk_numeral)

lemma ex9_run:
  "DoCopy (Suc 0) ex_cfg ''b'' (Some ''b'') (-1) (-1) ex_run9 =
     Some (0, final_state ex_run9 (DoCopy (Suc 0) ex_cfg ''b'' (Some ''b'') (-1) (-1) ex_run9))"
  by (simp add: fs_eval cp_eval ex_eval ex_eval2 ex_eval3)

lemma ex9_log:
  "errlog (final_state ex_run9 (DoCopy (Suc 0) ex_cfg ''b'' (Some ''b'') (-1) (-1) ex_run9)) =
     errlog ex_run9"
  by (simp add: fs_eval cp_eval ex_eval ex_eval2 ex_eval3)

lemma ex4_found:
  "hltlookup (hltable ex_run4) (stat_of 3 (ex_schg 3 ''hello'')) = Some (ex_entry 9 ''a'') \<and>
   hl_nlinked (ex_entry 9 ''a'') + 1 \<noteq> st_nlink (stat_of 3 (ex_schg 3 ''hello''))"
  by (simp add: fs_eval cp_eval ex_eval ex_eval2)

lemma ex4_ok: "hlt_ok (hltable ex_run4)"
  by (simp add: ex_eval ex_eval2 hlt_ok_def)

lemma ex4_multi:
  "S_ISREG (st_mode (stat_of 3 (ex_schg 3 ''hello'')))"
  "1 < st_nlink (stat_of 3 (ex_schg 3 ''hello''))"
  by (simp_all add: fs_eval ex_eval ex_eval2)

text \<open>The theorem of claim C5 at the first sighting of \<open>a\<close> in \<open>ex_run3\<close>, where the
  entry is made; at the second sighting of \<open>b\<close> in \<open>ex_run9\<close>, where the count reaches
  the two links of the file and the entry is removed; and at the second sighting of
  \<open>b\<close> in \<open>ex_run4\<close>, where the count is 2 of 3 and the entry is removed because the
  old destination cannot be unlinked.\<close>

theorem hardlink_table_sighting_witness:
  "hltlookup (hltable ex_run3) (stat_of 3 (ex_file 2 ''hello'')) = None \<and>
   (\<exists>d. hltlookup (hltable (final_state ex_run3
           (DoCopy (Suc 0) ex_cfg ''a'' (Some ''a'') (-1) (-1) ex_run3)))
         (stat_of 3 (ex_file 2 ''hello'')) =
       Some \<lparr>hl_ino = 3, hl_dino = d, hl_nlinked = 1, hl_name = ''a''\<rparr>) \<and>
   hltlookup (hltable ex_run9) (stat_of 3 (ex_file 2 ''hello'')) = Some (ex_entry 7 ''a'') \<and>
   hltlookup (hltable (final_state ex_run9
       (DoCopy (Suc 0) ex_cfg ''b'' (Some ''b'') (-1) (-1) ex_run9)))
     (stat_of 3 (ex_file 2 ''hello'')) = None \<and>
   hltlookup (hltable ex_run4) (stat_of 3 (ex_schg 3 ''hello'')) = Some (ex_entry 9 ''a'') \<and>
   hltlookup (hltable (final_state ex_run4
       (DoCopy (Suc 0) ex_cfg ''b'' (Some ''b'') (-1) (-1) ex_run4)))
     (stat_of 3 (ex_schg 3 ''hello'')) = None"
proof -
  have ino: "st_ino (stat_of 3 (ex_file 2 ''hello'')) = 3" by (simp add: stat_of_def)
  note T3 = hardlink_table_sighting [OF ex3_ok ex3_src ex3_hyps(1) ex3_multi ex3_run,
      unfolded ex3_none option.case]
  from T3 ex3_stat have "\<exists>d. hltlookup (hltable (final_state ex_run3
           (DoCopy (Suc 0) ex_cfg ''a'' (Some ''a'') (-1) (-1) ex_run3)))
         (stat_of 3 (ex_file 2 ''hello'')) =
       Some \<lparr>hl_ino = st_ino (stat_of 3 (ex_file 2 ''hello'')), hl_dino = d, hl_nlinked = 1,
              hl_name = ''a''\<rparr>"
    by blast
  then have a: "\<exists>d. hltlookup (hltable (final_state ex_run3
           (DoCopy (Suc 0) ex_cfg ''a'' (Some ''a'') (-1) (-1) ex_run3)))
         (stat_of 3 (ex_file 2 ''hello'')) =
       Some \<lparr>hl_ino = 3, hl_dino = d, hl_nlinked = 1, hl_name = ''a''\<rparr>"
    by (simp only: ino)
  have n9: "hl_nlinked (ex_entry 7 ''a'') + 1 = st_nlink (stat_of 3 (ex_file 2 ''hello''))"
    by (simp add: ex_entry_def stat_of_def ex_file_def)
  note T9 = hardlink_table_sighting [OF ex9_ok ex9_src ex3_hyps(1) ex3_multi ex9_run,
      unfolded ex9_found option.case]
  from T9 n9 have b: "hltlookup (hltable (final_state ex_run9
       (DoCopy (Suc 0) ex_cfg ''b'' (Some ''b'') (-1) (-1) ex_run9)))
     (stat_of 3 (ex_file 2 ''hello'')) = None"
    by (simp del: DoCopy.simps)
  have r4: "DoCopy (Suc 0) ex_cfg ''b'' (Some ''b'') (-1) (-1) ex_run4 =
     Some (1, final_state ex_run4 (DoCopy (Suc 0) ex_cfg ''b'' (Some ''b'') (-1) (-1) ex_run4))"
    by (simp only: ex4_run final_state_def option.case prod.case)
  have l4: "errlog (final_state ex_run4
      (DoCopy (Suc 0) ex_cfg ''b'' (Some ''b'') (-1) (-1) ex_run4)) \<noteq> errlog ex_run4"
    by (simp only: ex4_run final_state_def option.case prod.case)
       (simp add: ex_run4_def ex_state_def)
  note T4 = hardlink_table_sighting [OF ex4_ok ex4_src ex4_multi r4,
      unfolded ex4_found [THEN conjunct1] option.case]
  from T4 l4 have c: "hltlookup (hltable (final_state ex_run4
       (DoCopy (Suc 0) ex_cfg ''b'' (Some ''b'') (-1) (-1) ex_run4)))
     (stat_of 3 (ex_schg 3 ''hello'')) = None"
    by (simp del: DoCopy.simps)
  from a b c ex3_none ex9_found ex4_found show ?thesis by blast
qed

lemma ex4_after:
  "hltlookup (hltable (final_state ex_run4
      (DoCopy (Suc 0) ex_cfg ''b'' (Some ''b'') (-1) (-1) ex_run4)))
     (stat_of 3 (ex_schg 3 ''hello'')) = None \<and>
   calls (final_state ex_run4
      (DoCopy (Suc 0) ex_cfg ''b'' (Some ''b'') (-1) (-1) ex_run4)) = [(DstHost, C_remove ''b'')]"
  by (simp only: ex4_run final_state_def option.case prod.case)
     (simp add: hltlookup_def)

text \<open>The claim C5 as stated fails: an entry with count 1 for a file of three links
  is removed at the second sighting, when the count is 2, and no link was tried; the
  unlink of the old destination failed.\<close>

theorem hardlink_table_counterexample:
  "hltlookup (hltable ex_run4) (stat_of 3 (ex_schg 3 ''hello'')) = Some (ex_entry 9 ''a'') \<and>
   hl_nlinked (ex_entry 9 ''a'') + 1 \<noteq> st_nlink (stat_of 3 (ex_schg 3 ''hello'')) \<and>
   hltlookup (hltable (final_state ex_run4
      (DoCopy (Suc 0) ex_cfg ''b'' (Some ''b'') (-1) (-1) ex_run4)))
     (stat_of 3 (ex_schg 3 ''hello'')) = None \<and>
   calls (final_state ex_run4
      (DoCopy (Suc 0) ex_cfg ''b'' (Some ''b'') (-1) (-1) ex_run4)) = [(DstHost, C_remove ''b'')]"
  using ex4_found ex4_after by blast

subsection \<open>A failed link\<close>

text \<open>
  Claim C6 on the code. The source file has the names \<open>a\<close> and \<open>b\<close>; at the destination
  \<open>a\<close> is a directory and \<open>b\<close> an up-to-date copy of the file; the safety flag is set.
  The sighting of \<open>a\<close> is refused and leaves the entry of the file in the table, with
  the name \<open>a\<close>. At the sighting of \<open>b\<close> the probe removes the destination \<open>b\<close>, the link
  from \<open>a\<close> fails with \<^verbatim>\<open>EPERM\<close>, and line 683 increments \<^verbatim>\<open>r\<close>; but control does not
  leave \<^verbatim>\<open>DoCopy\<close> there (as it does with \<^verbatim>\<open>return (r + 1)\<close> at line 667 when the unlink
  has failed): it falls into the no-change check, which compares the source with the
  \<^verbatim>\<open>st2\<close> of the file that has just been removed and returns 0. The failure count is
  lost, and the destination has lost \<open>b\<close>, which is not copied.
\<close>

theorem relink_failure_lost:
  "DoCopy (Suc 0) ex_cfg ''a'' (Some ''a'') (-1) (-1) ex_run8 = Some (0, ex_run8_1) \<and>
   map_option st_ino (hc_lstat ex_run8_1 DstHost ''b'') = Some 7 \<and>
   DoCopy (Suc 0) ex_cfg ''b'' (Some ''b'') (-1) (-1) ex_run8_1 =
     Some (0, final_state ex_run8_1 (DoCopy (Suc 0) ex_cfg ''b'' (Some ''b'') (-1) (-1) ex_run8_1)) \<and>
   calls (final_state ex_run8_1 (DoCopy (Suc 0) ex_cfg ''b'' (Some ''b'') (-1) (-1) ex_run8_1)) =
     [(DstHost, C_chflags ''a'' 0), (DstHost, C_link ''a'' ''b''),
      (DstHost, C_chflags ''a'' 0), (DstHost, C_link ''a'' ''b''), (DstHost, C_remove ''b'')] \<and>
   errlog (final_state ex_run8_1 (DoCopy (Suc 0) ex_cfg ''b'' (Some ''b'') (-1) (-1) ex_run8_1)) =
     [(''a'', ''SAFETY - refusing to copy file over directory''),
      (''b'', ''hardlink: unable to link'')] \<and>
   hc_lstat (final_state ex_run8_1
      (DoCopy (Suc 0) ex_cfg ''b'' (Some ''b'') (-1) (-1) ex_run8_1)) DstHost ''b'' = None \<and>
   CountCopiedItems (final_state ex_run8_1
      (DoCopy (Suc 0) ex_cfg ''b'' (Some ''b'') (-1) (-1) ex_run8_1)) = 0"
  using ex8_step1 ex8_step2 ex8_calls ex8_log ex8_dst by blast

text \<open>When the link fails with \<^verbatim>\<open>EMLINK\<close> (here the file system allows one link per
  file), the program gets to the call of \<^verbatim>\<open>logerr\<close> at line 680, which has no argument
  for its format: its behaviour is undefined, whatever the depth allowed.\<close>

lemma relink_EMLINK_undefined:
  "hltlookup (hltable ex_run6e) (stat_of 3 (ex_file 2 ''hello'')) = Some (ex_entry 7 ''a'') \<and>
   fst (xlink ex_run6e_1 ''a'' ''b'' 0) < 0 \<and>
   errno (snd (xlink ex_run6e_1 ''a'' ''b'' 0)) = EMLINK \<and>
   DoCopy (Suc k) ex_cfg ''b'' (Some ''b'') (-1) (-1) ex_run6e = None"
proof -
  have "hltlookup (hltable ex_run6e) (stat_of 3 (ex_file 2 ''hello'')) = Some (ex_entry 7 ''a'')"
    by (simp add: fs_eval cp_eval ex_eval ex_eval2)
  moreover have "fst (xlink ex_run6e_1 ''a'' ''b'' 0) < 0 \<and>
      errno (snd (xlink ex_run6e_1 ''a'' ''b'' 0)) = EMLINK"
    by (simp add: ex_run6e_1_def fs_eval cp_eval ex_eval ex_eval2)
  ultimately show ?thesis using ex6e_undefined by blast
qed

subsection \<open>RemoveRecur stays on its device\<close>











subsection \<open>DoCopy without a destination\<close>

lemma quiet_refl [simp]: "quiet s s"
  by (simp add: quiet_def)

lemma quiet_trans: "quiet s s1 \<Longrightarrow> quiet s1 s2 \<Longrightarrow> quiet s s2"
  by (simp add: quiet_def)

lemma DoCopy_cplines_quiet: "quiet s (snd (DoCopy_cplines bufs list s))"
proof (induction bufs arbitrary: list s)
  case Nil
  show ?case by simp
next
  case (Cons buf bufs)
  have "quiet s (s\<lparr>CountReadBytes := c\<rparr>)" for c by (simp add: quiet_def)
  then show ?case
    by (simp add: Let_def) (blast intro: quiet_trans Cons.IH)
qed

lemma DoCopy_ignore_quiet: "quiet s (snd (DoCopy_ignore cfg spath list s))"
  by (simp add: DoCopy_ignore_def Let_def split_beta DoCopy_cplines_quiet
      split: option.splits)

lemma DoCopy_scan_null:
  assumes cp: "\<And>d (s1 :: state). d \<in> set dens \<Longrightarrow> d \<noteq> ''.'' \<Longrightarrow> d \<noteq> ''..'' \<Longrightarrow> src_fs s1 = F \<Longrightarrow>
                 \<exists>s2. cp (spath @ ''/'' @ d) None sd dd s1 = Some (0, s2) \<and> quiet s1 s2"
      and F: "src_fs s = F"
  shows "\<exists>list' s'. DoCopy_scan cp spath None sd dd dens list r s = Some (list', r, s') \<and>
           quiet s s'"
  using cp F
proof (induction dens arbitrary: list s)
  case Nil
  show ?case by simp
next
  case (Cons d dens)
  have IH: "\<exists>list' s'. DoCopy_scan cp spath None sd dd dens l r s1 = Some (list', r, s') \<and>
           quiet s1 s'" if "src_fs s1 = F" for l s1
    using Cons.prems(1) that by (intro Cons.IH) auto
  show ?case
  proof (cases "d = ''.'' \<or> d = ''..''")
    case True
    with IH [OF Cons.prems(2), of list] show ?thesis by auto
  next
    case False
    obtain v list1 where al: "AddList list d 0 = (v, list1)" by force
    show ?thesis
    proof (cases "v = 1")
      case True
      with IH [OF Cons.prems(2), of list1] al False show ?thesis by auto
    next
      case v: False
      from Cons.prems(1) [of d s] False Cons.prems(2)
      obtain s2 where c: "cp (spath @ ''/'' @ d) None sd dd s = Some (0, s2)" and q: "quiet s s2"
        by auto
      from q Cons.prems(2) have "src_fs s2 = F" by (simp add: quiet_def)
      from IH [OF this, of list1] obtain list' s' where
        r: "DoCopy_scan cp spath None sd dd dens list1 r s2 = Some (list', r, s')"
        and q2: "quiet s2 s'" by blast
      from al False v c r have
        "DoCopy_scan cp spath None sd dd (d # dens) list r s = Some (list', r, s')"
        by simp
      with q q2 show ?thesis by (blast intro: quiet_trans)
    qed
  qed
qed

lemma DoCopy_dir_null:
  assumes fres: "v_fres fr = 0" and r0: "v_r fr = 0"
      and cp: "\<And>dens d sd' dd' (s1 :: state). hc_opendir s SrcHost spath = Some dens \<Longrightarrow> d \<in> set dens \<Longrightarrow>
                 d \<noteq> ''.'' \<Longrightarrow> d \<noteq> ''..'' \<Longrightarrow> src_fs s1 = src_fs s \<Longrightarrow>
                 \<exists>s2. cp (spath @ ''/'' @ d) None sd' dd' s1 = Some (0, s2) \<and> quiet s1 s2"
  shows "\<exists>s'. DoCopy_dir cp rm cfg spath None sd dd fr s = Some (0, s') \<and> quiet s s'"
proof (cases "hc_opendir s SrcHost spath")
  case None
  with fres r0 show ?thesis by (simp add: DoCopy_dir_def)
next
  case (Some dens)
  define over_s where "over_s = (0 \<le> sint sd \<and> st_dev (v_st1 fr) \<noteq> sd)"
  define sd1 where "sd1 = (if over_s then sd else st_dev (v_st1 fr))"
  define over_d where "over_d = (0 \<le> sint dd \<and> st_dev (v_st2 fr) \<noteq> dd)"
  define dd1 where "dd1 = (if over_d then dd else st_dev (v_st2 fr))"
  obtain list s2 where ig: "DoCopy_ignore cfg spath InitList s = (list, s2)" by force
  then have "s2 = snd (DoCopy_ignore cfg spath InitList s)" by simp
  then have q2: "quiet s s2" by (simp add: DoCopy_ignore_quiet)
  then have F: "src_fs s2 = src_fs s" by (simp add: quiet_def)
  have s0: "(if v_fres fr < 0 then logerr (the_default spath None) ''fsmid-CHECK-FAILED'' s
                else s) = s"
    using fres by simp
  show ?thesis
  proof (cases "over_s \<or> over_d")
    case True
    then have ov: "0 \<le> sint sd \<and> st_dev (v_st1 fr) \<noteq> sd \<or> 0 \<le> sint dd \<and> st_dev (v_st2 fr) \<noteq> dd"
      by (simp add: over_s_def over_d_def)
    have "DoCopy_dir cp rm cfg spath None sd dd fr s = Some (0, s2)"
      unfolding DoCopy_dir_def Let_def s0
      using Some r0 ig ov
      by (simp only: option.case prod.case if_True if_False simp_thms)
    with q2 show ?thesis by blast
  next
    case False
    have "\<exists>list' s'. DoCopy_scan cp spath None sd1 dd1 dens list 0 s2 = Some (list', 0, s') \<and>
           quiet s2 s'"
      using cp [OF Some] F by (intro DoCopy_scan_null [where F = "src_fs s"]) auto
    then obtain list' s' where
      sc: "DoCopy_scan cp spath None sd1 dd1 dens list 0 s2 = Some (list', 0, s')"
      and q3: "quiet s2 s'" by blast
    from False have nos: "\<not> (0 \<le> sint sd \<and> st_dev (v_st1 fr) \<noteq> sd)"
      and nod: "\<not> (0 \<le> sint dd \<and> st_dev (v_st2 fr) \<noteq> dd)"
      by (simp_all add: over_s_def over_d_def)
    have sd1: "sd1 = st_dev (v_st1 fr)" and dd1: "dd1 = st_dev (v_st2 fr)"
      using False by (simp_all add: sd1_def dd1_def)
    have "DoCopy_dir cp rm cfg spath None sd dd fr s = Some (0, s')"
      unfolding DoCopy_dir_def Let_def s0
      using Some r0 ig sc [unfolded sd1 dd1] nos nod
      by (simp only: option.case prod.case if_False simp_thms)
    with q2 q3 show ?thesis by (blast intro: quiet_trans)
  qed
qed

lemma DoCopy_null:
  "src_tree n (src_fs s) spath \<Longrightarrow>
   \<exists>s'. DoCopy n cfg spath None sd dd s = Some (0, s') \<and> quiet s s'"
proof (induction n arbitrary: spath sd dd s)
  case 0
  then show ?case by simp
next
  case (Suc k)
  show ?case
  proof (cases "hc_lstat s SrcHost spath")
    case None
    then show ?thesis by simp
  next
    case (Some st1)
    define fr where "fr = DoCopy_frame (st2_stack cfg spath) st1 None"
    have fr: "v_st1 fr = st1" "v_r fr = 0" "v_fres fr = 0" "\<not> v_st2Valid fr"
      by (simp_all add: fr_def DoCopy_frame_def)
    have h: "DoCopy_hardlink spath None fr s = Some (Inr (fr, s))"
      by (simp add: DoCopy_hardlink_def)
    have n: "DoCopy_nochange cfg spath None fr s = Inr (fr, s)"
      using fr by (simp add: DoCopy_nochange_def Let_def)
    have c: "DoCopy_conflict rm cfg None dd fr s = Some (Inr s)" for rm
      using fr by (simp add: DoCopy_conflict_def)
    have lst: "fs_lstat (src_fs s) spath = Inr st1"
      using Some by (simp add: hc_lstat_def opt_of_def host_fs_def split: sum.splits)
    show ?thesis
    proof (cases "S_ISDIR (st_mode st1)")
      case False
      with Some h n c fr show ?thesis
        by (simp add: fr_def [symmetric] DoCopy_body_def)
    next
      case True
      have "\<exists>s'. DoCopy_dir (\<lambda>sp dp sd dd s'. DoCopy k cfg sp dp sd dd s')
               (\<lambda>p d s'. RemoveRecur k cfg p d s') cfg spath None sd dd fr s = Some (0, s') \<and>
               quiet s s'"
      proof (rule DoCopy_dir_null [OF fr(3) fr(2)])
        fix dens d sd' dd' and s1 :: state
        assume od: "hc_opendir s SrcHost spath = Some dens" and d: "d \<in> set dens"
          "d \<noteq> ''.''" "d \<noteq> ''..''" and F: "src_fs s1 = src_fs s"
        from od have "fs_opendir (src_fs s) spath = Inr dens"
          by (simp add: hc_opendir_def opt_of_def host_fs_def split: sum.splits)
        with Suc.prems lst True d have "src_tree k (src_fs s1) (spath @ ''/'' @ d)"
          by (auto simp: F)
        then show "\<exists>s2. DoCopy k cfg (spath @ ''/'' @ d) None sd' dd' s1 = Some (0, s2) \<and>
            quiet s1 s2"
          by (rule Suc.IH)
      qed
      with Some h n c fr True show ?thesis
        by (simp add: fr_def [symmetric] DoCopy_body_def)
    qed
  qed
qed

text \<open>
  Claim C10. With a \<^verbatim>\<open>NULL\<close> destination, and a depth that the source tree below the
  path does not exceed, \<^verbatim>\<open>DoCopy\<close> returns 0, and between its first state and its last
  no call has been issued to a host (the list \<open>calls\<close> holds every remove, mkdir,
  rename, link, symlink, open for writing, write, chown, chmod, chflags, utimes and
  mknod, of this call and of those it makes for the entries of a directory), and the
  destination file system is the same.
\<close>

theorem DoCopy_null_destination:
  assumes "src_tree n (src_fs s) spath"
  shows "\<exists>s'. DoCopy n cfg spath None sdevNo ddevNo s = Some (0, s') \<and>
           calls s' = calls s \<and> dst_fs s' = dst_fs s"
  using DoCopy_null [OF assms, of cfg sdevNo ddevNo] by (auto simp: quiet_def)

lemma ex11_tree: "src_tree (Suc (Suc (Suc 0))) (src_fs ex_run11) ''d''"
  by (simp add: fs_eval ex_eval ex_src11_def ex_run11_def)

text \<open>The theorem of claim C10 on a directory with a file and a directory in it, with
  the digest option that a run without a destination needs.\<close>

theorem DoCopy_null_destination_witness:
  "src_tree (Suc (Suc (Suc 0))) (src_fs ex_run11) ''d'' \<and>
   (\<exists>s'. DoCopy (Suc (Suc (Suc 0))) (ex_cfg\<lparr>UseMD5Opt := 1\<rparr>) ''d'' None (-1) (-1) ex_run11 =
            Some (0, s') \<and>
          calls s' = calls ex_run11 \<and> dst_fs s' = dst_fs ex_run11)"
  using DoCopy_null_destination [OF ex11_tree, of "ex_cfg\<lparr>UseMD5Opt := 1\<rparr>" "-1" "-1"] ex11_tree
  by blast

end
